theory Spec2Isabelle
  imports Complex_Main "HOL-Library.Word" "HOL-Library.AList"
begin

section \<open>World generation of the match manager (MatchManager.js)\<close>

text \<open>
  World coordinates are integers (the spec keys rooms by an integer coordinate pair), so the
  cache key built by the source, the text of \<open>x\<close>, a comma and the text of \<open>y\<close>, is an
  injective encoding of the pair \<open>(x, y)\<close>; the model keys the caches by the pair itself.
  Server time (\<open>Date.now()\<close>), the random seed and the generated match id are inputs of
  the operations that read them.
\<close>

type_synonym coord = "int \<times> int"

subsection \<open>hashCoords\<close>

text \<open>
  \<open>hash << 5\<close> is JavaScript's 32-bit shift: the operand is reduced to a signed 32-bit
  integer, shifted, and read back as a signed 32-bit integer. The additions around it are
  additions of numbers, exact on integers of this size.
\<close>

definition shl5 :: "int \<Rightarrow> int" where
  "shl5 h = sint (push_bit 5 (word_of_int h :: 32 word))"

definition hashCoords :: "int \<Rightarrow> int \<Rightarrow> int \<Rightarrow> int" where
  "hashCoords x y seed =
     (let hash = seed;
          hash = (shl5 hash + hash) + x;
          hash = (shl5 hash + hash) + y
      in \<bar>hash\<bar>)"

text \<open>JavaScript's remainder \<open>%\<close> takes the sign of the dividend.\<close>

definition jsRem :: "int \<Rightarrow> int \<Rightarrow> int" where
  "jsRem a b = sgn a * (\<bar>a\<bar> mod \<bar>b\<bar>)"

subsection \<open>Terrain kinds and the accessibility table\<close>

record accessInfo =
  accessible :: bool
  roomType :: "string option"
  description :: string

definition TERRAIN_ACCESS :: "(string \<times> accessInfo) list" where
  "TERRAIN_ACCESS =
    [(''grass'', \<lparr>accessible = True, roomType = Some ''field'', description = ''Open grassland''\<rparr>),
     (''forest'', \<lparr>accessible = True, roomType = Some ''forest'', description = ''Light forest with trees''\<rparr>),
     (''hills'', \<lparr>accessible = True, roomType = Some ''hills'', description = ''Rolling hills''\<rparr>),
     (''water'', \<lparr>accessible = True, roomType = Some ''shore'', description = ''Shallow water, beach access''\<rparr>),
     (''beach'', \<lparr>accessible = True, roomType = Some ''beach'', description = ''Sandy coastline''\<rparr>),
     (''desert'', \<lparr>accessible = True, roomType = Some ''desert'', description = ''Arid desert terrain''\<rparr>),
     (''road'', \<lparr>accessible = True, roomType = Some ''road'', description = ''Clear travel path''\<rparr>),
     (''bridge'', \<lparr>accessible = True, roomType = Some ''bridge'', description = ''River crossing''\<rparr>),
     (''swamp'', \<lparr>accessible = True, roomType = Some ''swamp'', description = ''Dangerous wetlands''\<rparr>),
     (''ruins'', \<lparr>accessible = True, roomType = Some ''ruins'', description = ''Ancient ruins to explore''\<rparr>),
     (''cave'', \<lparr>accessible = True, roomType = Some ''cave'', description = ''Dark cave entrance''\<rparr>),
     (''camp'', \<lparr>accessible = True, roomType = Some ''camp'', description = ''Temporary encampment''\<rparr>),
     (''portal'', \<lparr>accessible = True, roomType = Some ''portal'', description = ''Magical portal site''\<rparr>),
     (''temple'', \<lparr>accessible = True, roomType = Some ''temple'', description = ''Sacred temple grounds''\<rparr>),
     (''town'', \<lparr>accessible = True, roomType = Some ''town'', description = ''Bustling town center''\<rparr>),
     (''city'', \<lparr>accessible = True, roomType = Some ''city'', description = ''Large city district''\<rparr>),
     (''village'', \<lparr>accessible = True, roomType = Some ''village'', description = ''Small village''\<rparr>),
     (''tower'', \<lparr>accessible = True, roomType = Some ''tower'', description = ''Wizard tower interior''\<rparr>),
     (''dungeon'', \<lparr>accessible = True, roomType = Some ''dungeon'', description = ''Dangerous dungeon entrance''\<rparr>),
     (''deep_water'', \<lparr>accessible = False, roomType = None, description = ''Deep ocean waters - impassable''\<rparr>),
     (''dense_forest'', \<lparr>accessible = False, roomType = None, description = ''Impenetrable thick forest''\<rparr>),
     (''mountain'', \<lparr>accessible = False, roomType = None, description = ''Steep mountain cliffs - impassable''\<rparr>),
     (''cliff'', \<lparr>accessible = False, roomType = None, description = ''Sheer cliff face - impassable''\<rparr>)]"

definition isTerrainAccessible :: "string \<Rightarrow> bool" where
  "isTerrainAccessible terrainType =
     (case map_of TERRAIN_ACCESS terrainType of None \<Rightarrow> False | Some accessInfo \<Rightarrow> accessible accessInfo)"

definition getTerrainAccessInfo :: "string \<Rightarrow> accessInfo" where
  "getTerrainAccessInfo terrainType =
     (case map_of TERRAIN_ACCESS terrainType of
        Some accessInfo \<Rightarrow> accessInfo
      | None \<Rightarrow> \<lparr>accessible = False, roomType = None, description = ''Unknown terrain - impassable''\<rparr>)"

subsection \<open>generateTerrainType\<close>

text \<open>
  \<open>value\<close> is \<open>(hash % 1000) / 1000\<close>. The quotient of an integer below 1000 by 1000 and
  the decimal literals it is compared with are rounded the same way, so the comparisons
  of the source are the comparisons of the exact fractions.
\<close>

definition generateTerrainType :: "int \<Rightarrow> int \<Rightarrow> int \<Rightarrow> string" where
  "generateTerrainType x y seed =
     (let hash = hashCoords x y seed;
          val = (of_int (jsRem hash 1000) :: rat) / 1000
      in if y = 0 \<and> \<bar>x\<bar> \<le> 5 then ''road''
         else if val > 8 / 10 then ''mountain''
         else if val > 6 / 10 then ''forest''
         else if val > 4 / 10 then ''hills''
         else if val > 2 / 10 then ''grass''
         else if val > 1 / 10 then ''water''
         else ''deep_water'')"

subsection \<open>The server map and the match state\<close>

record landmark =
  lm_x :: int
  lm_y :: int
  lm_type :: string
  lm_name :: string

record bounds =
  minX :: int
  maxX :: int
  minY :: int
  maxY :: int

record mapData =
  md_seed :: int
  md_landmarks :: "coord \<rightharpoonup> landmark"
  md_terrainCache :: "coord \<rightharpoonup> string"
  md_bounds :: bounds

definition landmarkList :: "landmark list" where
  "landmarkList =
    [\<lparr>lm_x = 0, lm_y = 0, lm_type = ''town'', lm_name = ''Central Town''\<rparr>,
     \<lparr>lm_x = 5, lm_y = -3, lm_type = ''village'', lm_name = ''Riverside Village''\<rparr>,
     \<lparr>lm_x = -7, lm_y = 4, lm_type = ''dungeon'', lm_name = ''Dark Depths''\<rparr>,
     \<lparr>lm_x = 2, lm_y = 8, lm_type = ''ruins'', lm_name = ''Ancient Ruins''\<rparr>,
     \<lparr>lm_x = -4, lm_y = -6, lm_type = ''cave'', lm_name = ''Crystal Cave''\<rparr>,
     \<lparr>lm_x = 10, lm_y = 2, lm_type = ''tower'', lm_name = ''Wizard Tower''\<rparr>,
     \<lparr>lm_x = -10, lm_y = -10, lm_type = ''village'', lm_name = ''Northern Outpost''\<rparr>,
     \<lparr>lm_x = 15, lm_y = 15, lm_type = ''dungeon'', lm_name = ''Eastern Stronghold''\<rparr>]"

text \<open>The loop over the landmark list stores each landmark under its coordinate.\<close>

fun setLandmarks :: "landmark list \<Rightarrow> (coord \<rightharpoonup> landmark) \<Rightarrow> (coord \<rightharpoonup> landmark)" where
  "setLandmarks [] m = m"
| "setLandmarks (l # ls) m = setLandmarks ls (m((lm_x l, lm_y l) \<mapsto> l))"

definition generateServerMap :: "int \<Rightarrow> mapData" where
  "generateServerMap seed =
     \<lparr>md_seed = seed,
      md_landmarks = setLandmarks landmarkList Map.empty,
      md_terrainCache = Map.empty,
      md_bounds = \<lparr>minX = -50, maxX = 50, minY = -50, maxY = 50\<rparr>\<rparr>"

datatype tile = Wall | Floor | WaterTile | PortalTile

datatype entity = NONE | NPC | CHEST | ENEMY | TRAP | ITEM

record room =
  r_worldPos :: coord
  r_terrainType :: string
  r_roomType :: "string option"
  r_seed :: int
  r_size :: "nat \<times> nat"
  r_terrain :: "tile list list"
  r_entities :: "entity list list"
  r_discovered :: bool
  r_exploredBy :: "string set"
  r_description :: string

record worldPosition =
  wp_world :: coord
  wp_room :: coord

text \<open>The match-scoped state of one player; \<open>status\<close> is \<open>ALIVE\<close> or \<open>DEAD\<close>.\<close>

record playerState =
  ps_playerId :: string
  ps_username :: string
  ps_status :: string
  ps_position :: worldPosition
  ps_health :: int
  ps_kills :: int
  ps_deaths :: int
  ps_itemsCollected :: int
  ps_roomsExplored :: "coord set"
  ps_damageDealt :: int
  ps_damageTaken :: int
  ps_deathTime :: "real option"
  ps_firstKillTime :: "real option"
  ps_lastActivity :: real

text \<open>
  \<open>players\<close> is a JavaScript \<open>Map\<close>, iterated in insertion order: an association list in
  which setting a key that is present replaces its value in place, and a new key goes to
  the end (\<open>AList.update\<close>).
\<close>

record matchState =
  ms_matchId :: string
  ms_seed :: int
  ms_status :: string
  ms_players :: "(string \<times> playerState) list"
  ms_map :: mapData
  ms_rooms :: "coord \<rightharpoonup> room"
  ms_startTime :: real
  ms_endTime :: "real option"

record matchManager =
  matches :: "string \<rightharpoonup> matchState"


subsection \<open>getTerrainType\<close>

text \<open>
  The source looks the match up and then works on that match object; the model splits the
  two steps. \<open>getTerrainType_match\<close> is the body after the lookup: cache first, then the
  landmark table, then the hash; the last two store what they return in the cache.
\<close>

definition getTerrainType_match :: "matchState \<Rightarrow> int \<Rightarrow> int \<Rightarrow> string \<times> matchState" where
  "getTerrainType_match match worldX worldY =
     (let key = (worldX, worldY) in
      case md_terrainCache (ms_map match) key of
        Some cached \<Rightarrow> (cached, match)
      | None \<Rightarrow>
         (case md_landmarks (ms_map match) key of
            Some lm \<Rightarrow>
              (lm_type lm,
               match\<lparr>ms_map := (ms_map match)\<lparr>md_terrainCache := (md_terrainCache (ms_map match))(key \<mapsto> lm_type lm)\<rparr>\<rparr>)
          | None \<Rightarrow>
              (let terrain = generateTerrainType worldX worldY (md_seed (ms_map match))
               in (terrain,
                   match\<lparr>ms_map := (ms_map match)\<lparr>md_terrainCache := (md_terrainCache (ms_map match))(key \<mapsto> terrain)\<rparr>\<rparr>))))"

definition getTerrainType :: "matchManager \<Rightarrow> string \<Rightarrow> int \<Rightarrow> int \<Rightarrow> string \<times> matchManager" where
  "getTerrainType mm matchId worldX worldY =
     (case matches mm matchId of
        None \<Rightarrow> (''grass'', mm)
      | Some match \<Rightarrow>
          (let (terrain, match') = getTerrainType_match match worldX worldY
           in (terrain, mm\<lparr>matches := (matches mm)(matchId \<mapsto> match')\<rparr>)))"

definition canMoveToPosition :: "matchManager \<Rightarrow> string \<Rightarrow> int \<Rightarrow> int \<Rightarrow> bool \<times> matchManager" where
  "canMoveToPosition mm matchId worldX worldY =
     (let (terrainType, mm') = getTerrainType mm matchId worldX worldY
      in (isTerrainAccessible terrainType, mm'))"

subsection \<open>generateRoomTerrain and generateRoomEntities\<close>

definition roomSize :: nat where
  "roomSize = 20"

text \<open>One cell of the terrain grid: the body of the inner loop, at column \<open>x\<close> of row \<open>y\<close>.\<close>

definition terrainCell :: "string option \<Rightarrow> int \<Rightarrow> nat \<Rightarrow> nat \<Rightarrow> tile" where
  "terrainCell rt seed x y =
     (if x = 0 \<or> x = roomSize - 1 \<or> y = 0 \<or> y = roomSize - 1 then Wall
      else
        (let hash = hashCoords (int x) (int y) seed;
             val = (of_int (jsRem hash 100) :: rat) / 100
         in if rt = Some ''town'' \<or> rt = Some ''city'' \<or> rt = Some ''village'' then
              (if (x = 5 \<or> x = 15) \<and> y \<ge> 2 \<and> y \<le> 17 then Wall else Floor)
            else if rt = Some ''dungeon'' then (if val > 75 / 100 then Wall else Floor)
            else if rt = Some ''cave'' then (if val > 8 / 10 then Wall else Floor)
            else if rt = Some ''forest'' then (if val > 65 / 100 then Wall else Floor)
            else if rt = Some ''shore'' then
              (if y < 5 then WaterTile
               else if y < 8 then (if val > 7 / 10 then WaterTile else Floor)
               else Floor)
            else if rt = Some ''beach'' then (if val > 9 / 10 then Wall else Floor)
            else if rt = Some ''swamp'' then
              (if val > 8 / 10 then WaterTile else if val > 9 / 10 then Wall else Floor)
            else if rt = Some ''desert'' then
              (if val > 95 / 100 then WaterTile else if val > 98 / 100 then Wall else Floor)
            else if rt = Some ''ruins'' then (if val > 6 / 10 then Wall else Floor)
            else if rt = Some ''temple'' then
              (if (x = 10 \<and> y \<ge> 8 \<and> y \<le> 12) \<or> (y = 10 \<and> x \<ge> 8 \<and> x \<le> 12) then Floor
               else if val > 7 / 10 then Wall
               else Floor)
            else if rt = Some ''tower'' then
              (if x \<ge> 6 \<and> x \<le> 14 \<and> y \<ge> 6 \<and> y \<le> 14 then Floor else Wall)
            else if rt = Some ''bridge'' then
              (if y \<ge> 8 \<and> y \<le> 12 then Floor else WaterTile)
            else if rt = Some ''road'' then (if val > 98 / 100 then Wall else Floor)
            else if rt = Some ''hills'' then (if val > 85 / 100 then Wall else Floor)
            else if rt = Some ''portal'' then
              (if x = 10 \<and> y = 10 then PortalTile
               else if val > 9 / 10 then Wall
               else Floor)
            else if rt = Some ''camp'' then
              (if (x = 8 \<or> x = 12) \<and> (y = 8 \<or> y = 12) then Wall else Floor)
            else (if val > 95 / 100 then Wall else Floor)))"

definition generateRoomTerrain :: "string option \<Rightarrow> int \<Rightarrow> tile list list" where
  "generateRoomTerrain rt seed =
     map (\<lambda>y. map (\<lambda>x. terrainCell rt seed x y) [0..<roomSize]) [0..<roomSize]"

definition entityCell :: "string option \<Rightarrow> int \<Rightarrow> nat \<Rightarrow> nat \<Rightarrow> entity" where
  "entityCell rt seed x y =
     (let hash = hashCoords (int x + 100) (int y + 100) seed;
          val = (of_int (jsRem hash 1000) :: rat) / 1000
      in if rt = Some ''town'' \<or> rt = Some ''city'' then
           (if (x = 7 \<and> y = 5) \<or> (x = 13 \<and> y = 5) then NPC
            else if x = 10 \<and> y = 15 then CHEST
            else if val > 95 / 100 then NPC else NONE)
         else if rt = Some ''village'' then
           (if x = 10 \<and> y = 5 then NPC
            else if val > 97 / 100 then ITEM
            else if val > 99 / 100 then NPC else NONE)
         else if rt = Some ''dungeon'' then
           (if val > 96 / 100 then ENEMY
            else if val > 93 / 100 then TRAP
            else if val > 89 / 100 then CHEST else NONE)
         else if rt = Some ''cave'' then
           (if val > 97 / 100 then ENEMY
            else if val > 94 / 100 then CHEST
            else if val > 98 / 100 then TRAP else NONE)
         else if rt = Some ''forest'' then
           (if val > 96 / 100 then ENEMY
            else if val > 92 / 100 then ITEM else NONE)
         else if rt = Some ''shore'' \<or> rt = Some ''beach'' then
           (if val > 98 / 100 then ENEMY
            else if val > 95 / 100 then ITEM
            else if val > 99 / 100 then CHEST else NONE)
         else if rt = Some ''swamp'' then
           (if val > 95 / 100 then ENEMY
            else if val > 97 / 100 then TRAP
            else if val > 93 / 100 then ITEM else NONE)
         else if rt = Some ''desert'' then
           (if val > 98 / 100 then ENEMY
            else if val > 96 / 100 then ITEM
            else if val > 99 / 100 then CHEST else NONE)
         else if rt = Some ''ruins'' then
           (if val > 94 / 100 then CHEST
            else if val > 97 / 100 then TRAP
            else if val > 98 / 100 then ENEMY else NONE)
         else if rt = Some ''temple'' then
           (if x = 10 \<and> y = 10 then NPC
            else if val > 96 / 100 then CHEST
            else if val > 98 / 100 then ITEM else NONE)
         else if rt = Some ''tower'' then
           (if x = 10 \<and> y = 10 then NPC
            else if val > 94 / 100 then CHEST
            else if val > 97 / 100 then ITEM else NONE)
         else if rt = Some ''bridge'' then
           (if val > 99 / 100 then NPC
            else if val > 97 / 100 then ITEM else NONE)
         else if rt = Some ''road'' then
           (if val > 98 / 100 then NPC
            else if val > 995 / 1000 then ITEM else NONE)
         else if rt = Some ''hills'' then
           (if val > 97 / 100 then ITEM
            else if val > 99 / 100 then ENEMY else NONE)
         else if rt = Some ''portal'' then
           (if val > 95 / 100 then ITEM
            else if val > 98 / 100 then ENEMY else NONE)
         else if rt = Some ''camp'' then
           (if val > 96 / 100 then NPC
            else if val > 98 / 100 then ITEM else NONE)
         else
           (if val > 99 / 100 then ITEM
            else if val > 995 / 1000 then ENEMY else NONE))"

definition generateRoomEntities :: "string option \<Rightarrow> int \<Rightarrow> entity list list" where
  "generateRoomEntities rt seed =
     map (\<lambda>y. map (\<lambda>x. entityCell rt seed x y) [0..<roomSize]) [0..<roomSize]"

subsection \<open>generateRoomData\<close>

definition generateRoomData_match :: "matchState \<Rightarrow> int \<Rightarrow> int \<Rightarrow> room option \<times> matchState" where
  "generateRoomData_match match worldX worldY =
     (let key = (worldX, worldY) in
      case ms_rooms match key of
        Some cached \<Rightarrow> (Some cached, match)
      | None \<Rightarrow>
         (let (terrainType, match1) = getTerrainType_match match worldX worldY;
              accessInfo = getTerrainAccessInfo terrainType
          in if \<not> accessible accessInfo then (None, match1)
             else
               (let roomSeed = hashCoords worldX worldY (md_seed (ms_map match1));
                    roomData =
                      \<lparr>r_worldPos = (worldX, worldY),
                       r_terrainType = terrainType,
                       r_roomType = roomType accessInfo,
                       r_seed = roomSeed,
                       r_size = (20, 20),
                       r_terrain = generateRoomTerrain (roomType accessInfo) roomSeed,
                       r_entities = generateRoomEntities (roomType accessInfo) roomSeed,
                       r_discovered = False,
                       r_exploredBy = {},
                       r_description = description accessInfo\<rparr>
                in (Some roomData, match1\<lparr>ms_rooms := (ms_rooms match1)(key \<mapsto> roomData)\<rparr>))))"

definition generateRoomData :: "matchManager \<Rightarrow> string \<Rightarrow> int \<Rightarrow> int \<Rightarrow> room option \<times> matchManager" where
  "generateRoomData mm matchId worldX worldY =
     (case matches mm matchId of
        None \<Rightarrow> (None, mm)
      | Some match \<Rightarrow>
          (let (r, match') = generateRoomData_match match worldX worldY
           in (r, mm\<lparr>matches := (matches mm)(matchId \<mapsto> match')\<rparr>)))"


subsection \<open>Match lifecycle and bookkeeping\<close>

definition initialPlayerState :: "string \<Rightarrow> string \<Rightarrow> real \<Rightarrow> playerState" where
  "initialPlayerState playerId username now =
     \<lparr>ps_playerId = playerId,
      ps_username = username,
      ps_status = ''ALIVE'',
      ps_position = \<lparr>wp_world = (0, 0), wp_room = (3, 4)\<rparr>,
      ps_health = 100,
      ps_kills = 0,
      ps_deaths = 0,
      ps_itemsCollected = 0,
      ps_roomsExplored = {},
      ps_damageDealt = 0,
      ps_damageTaken = 0,
      ps_deathTime = None,
      ps_firstKillTime = None,
      ps_lastActivity = now\<rparr>"

text \<open>The loop of \<open>createMatch\<close> over the joining players, each given as (playerId, username).\<close>

fun setPlayers :: "(string \<times> string) list \<Rightarrow> real \<Rightarrow> (string \<times> playerState) list \<Rightarrow> (string \<times> playerState) list" where
  "setPlayers [] now acc = acc"
| "setPlayers ((playerId, username) # rest) now acc =
     setPlayers rest now (AList.update playerId (initialPlayerState playerId username now) acc)"

definition createMatch :: "matchManager \<Rightarrow> (string \<times> string) list \<Rightarrow> string \<Rightarrow> int \<Rightarrow> real \<Rightarrow> matchState \<times> matchManager" where
  "createMatch mm players matchId matchSeed now =
     (let matchState =
            \<lparr>ms_matchId = matchId,
             ms_seed = matchSeed,
             ms_status = ''STARTING'',
             ms_players = setPlayers players now [],
             ms_map = generateServerMap matchSeed,
             ms_rooms = Map.empty,
             ms_startTime = now,
             ms_endTime = None\<rparr>
      in (matchState, mm\<lparr>matches := (matches mm)(matchId \<mapsto> matchState)\<rparr>))"

definition MATCH_DURATION :: real where
  "MATCH_DURATION = 300000"

definition startMatch :: "matchManager \<Rightarrow> string \<Rightarrow> real \<Rightarrow> bool \<times> matchManager" where
  "startMatch mm matchId now =
     (case matches mm matchId of
        None \<Rightarrow> (False, mm)
      | Some match \<Rightarrow>
          (True, mm\<lparr>matches := (matches mm)(matchId \<mapsto>
                   match\<lparr>ms_status := ''ACTIVE'', ms_startTime := now, ms_endTime := Some (now + MATCH_DURATION)\<rparr>)\<rparr>))"

text \<open>
  What \<open>endMatch\<close> writes to the match before it computes the statistics, and the deferred
  removal it schedules (the timer's callback, 30 seconds later).
\<close>

definition endMatch_mark :: "matchManager \<Rightarrow> string \<Rightarrow> real \<Rightarrow> matchManager" where
  "endMatch_mark mm matchId now =
     (case matches mm matchId of
        None \<Rightarrow> mm
      | Some match \<Rightarrow>
          mm\<lparr>matches := (matches mm)(matchId \<mapsto> match\<lparr>ms_status := ''ENDED'', ms_endTime := Some now\<rparr>)\<rparr>)"

definition removeMatch :: "matchManager \<Rightarrow> string \<Rightarrow> matchManager" where
  "removeMatch mm matchId = mm\<lparr>matches := (matches mm)(matchId := None)\<rparr>"

definition updatePlayerPosition :: "matchManager \<Rightarrow> string \<Rightarrow> string \<Rightarrow> worldPosition \<Rightarrow> real \<Rightarrow> bool \<times> matchManager" where
  "updatePlayerPosition mm matchId playerId position now =
     (case matches mm matchId of
        None \<Rightarrow> (False, mm)
      | Some match \<Rightarrow>
         (case map_of (ms_players match) playerId of
            None \<Rightarrow> (False, mm)
          | Some player \<Rightarrow>
             (let worldKey = wp_world position;
                  player1 = player\<lparr>ps_position := position, ps_lastActivity := now\<rparr>
              in if worldKey \<in> ps_roomsExplored player1 then
                   (True, mm\<lparr>matches := (matches mm)(matchId \<mapsto>
                            match\<lparr>ms_players := AList.update playerId player1 (ms_players match)\<rparr>)\<rparr>)
                 else
                   (let player2 = player1\<lparr>ps_roomsExplored := insert worldKey (ps_roomsExplored player1)\<rparr>;
                        match1 = match\<lparr>ms_players := AList.update playerId player2 (ms_players match)\<rparr>;
                        (roomData, match2) = generateRoomData_match match1 (fst worldKey) (snd worldKey);
                        match3 =
                          (case roomData of
                             None \<Rightarrow> match2
                           | Some r \<Rightarrow>
                               match2\<lparr>ms_rooms := (ms_rooms match2)(worldKey \<mapsto>
                                  r\<lparr>r_discovered := True, r_exploredBy := insert playerId (r_exploredBy r)\<rparr>)\<rparr>)
                    in (True, mm\<lparr>matches := (matches mm)(matchId \<mapsto> match3)\<rparr>)))))"

definition recordPlayerKill :: "matchManager \<Rightarrow> string \<Rightarrow> string \<Rightarrow> string \<Rightarrow> real \<Rightarrow> bool \<times> matchManager" where
  "recordPlayerKill mm matchId killerId victimId currentTime =
     (case matches mm matchId of
        None \<Rightarrow> (False, mm)
      | Some match \<Rightarrow>
         (case (map_of (ms_players match) killerId, map_of (ms_players match) victimId) of
            (Some killer, Some _) \<Rightarrow>
              (let players1 = AList.update killerId (killer\<lparr>ps_kills := ps_kills killer + 1\<rparr>) (ms_players match);
                   players2 =
                     (case map_of players1 victimId of
                        None \<Rightarrow> players1
                      | Some victim \<Rightarrow>
                          AList.update victimId
                            (victim\<lparr>ps_deaths := ps_deaths victim + 1, ps_status := ''DEAD'',
                                    ps_deathTime := Some currentTime\<rparr>) players1);
                   players3 =
                     (case map_of players2 killerId of
                        None \<Rightarrow> players2
                      | Some k \<Rightarrow>
                          if ps_kills k = 1 then AList.update killerId (k\<lparr>ps_firstKillTime := Some currentTime\<rparr>) players2
                          else players2)
               in (True, mm\<lparr>matches := (matches mm)(matchId \<mapsto> match\<lparr>ms_players := players3\<rparr>)\<rparr>))
          | _ \<Rightarrow> (False, mm)))"

definition recordItemCollection :: "matchManager \<Rightarrow> string \<Rightarrow> string \<Rightarrow> int \<Rightarrow> bool \<times> matchManager" where
  "recordItemCollection mm matchId playerId quantity =
     (case matches mm matchId of
        None \<Rightarrow> (False, mm)
      | Some match \<Rightarrow>
         (case map_of (ms_players match) playerId of
            None \<Rightarrow> (False, mm)
          | Some player \<Rightarrow>
              (True, mm\<lparr>matches := (matches mm)(matchId \<mapsto>
                   match\<lparr>ms_players := AList.update playerId
                      (player\<lparr>ps_itemsCollected := ps_itemsCollected player + quantity\<rparr>) (ms_players match)\<rparr>)\<rparr>)))"

text \<open>
  \<open>recordPlayerDamage\<close>: attacker and target may be the same player object, so the target is
  read again after the attacker's update.
\<close>

definition recordPlayerDamage :: "matchManager \<Rightarrow> string \<Rightarrow> string \<Rightarrow> string \<Rightarrow> int \<Rightarrow> bool \<times> matchManager" where
  "recordPlayerDamage mm matchId attackerId targetId damage =
     (case matches mm matchId of
        None \<Rightarrow> (False, mm)
      | Some match \<Rightarrow>
         (case (map_of (ms_players match) attackerId, map_of (ms_players match) targetId) of
            (Some attacker, Some _) \<Rightarrow>
              (let players1 = AList.update attackerId
                                (attacker\<lparr>ps_damageDealt := ps_damageDealt attacker + damage\<rparr>) (ms_players match);
                   players2 =
                     (case map_of players1 targetId of
                        None \<Rightarrow> players1
                      | Some target \<Rightarrow>
                          AList.update targetId
                            (target\<lparr>ps_damageTaken := ps_damageTaken target + damage,
                                    ps_health := max 0 (ps_health target - damage)\<rparr>) players1)
               in (True, mm\<lparr>matches := (matches mm)(matchId \<mapsto> match\<lparr>ms_players := players2\<rparr>)\<rparr>))
          | _ \<Rightarrow> (False, mm)))"

subsection \<open>Reachable states of the match manager\<close>

text \<open>
  The states the manager can be in: it starts with no match, and every public operation
  that writes to the state is a step. The statistics functions read the state and write to
  it only through \<open>getTerrainType\<close>, which is a step of its own.
\<close>

inductive reachable :: "matchManager \<Rightarrow> bool" where
  r_init: "reachable \<lparr>matches = Map.empty\<rparr>"
| r_createMatch: "reachable mm \<Longrightarrow> reachable (snd (createMatch mm players matchId matchSeed now))"
| r_startMatch: "reachable mm \<Longrightarrow> reachable (snd (startMatch mm matchId now))"
| r_endMatch: "reachable mm \<Longrightarrow> reachable (endMatch_mark mm matchId now)"
| r_removeMatch: "reachable mm \<Longrightarrow> reachable (removeMatch mm matchId)"
| r_getTerrainType: "reachable mm \<Longrightarrow> reachable (snd (getTerrainType mm matchId x y))"
| r_generateRoomData: "reachable mm \<Longrightarrow> reachable (snd (generateRoomData mm matchId x y))"
| r_updatePlayerPosition: "reachable mm \<Longrightarrow> reachable (snd (updatePlayerPosition mm matchId playerId position now))"
| r_recordPlayerKill: "reachable mm \<Longrightarrow> reachable (snd (recordPlayerKill mm matchId killerId victimId now))"
| r_recordItemCollection: "reachable mm \<Longrightarrow> reachable (snd (recordItemCollection mm matchId playerId quantity))"
| r_recordPlayerDamage: "reachable mm \<Longrightarrow> reachable (snd (recordPlayerDamage mm matchId attackerId targetId damage))"

text \<open>
  The terrain of a coordinate derived afresh from the seed: the landmark table of
  \<open>generateServerMap\<close> first, the hash otherwise. \<open>clearTerrainCache\<close> evicts the whole
  terrain cache of one match.
\<close>

definition deriveTerrain :: "int \<Rightarrow> coord \<Rightarrow> string" where
  "deriveTerrain seed key =
     (case md_landmarks (generateServerMap seed) key of
        Some lm \<Rightarrow> lm_type lm
      | None \<Rightarrow> generateTerrainType (fst key) (snd key) seed)"

definition clearTerrainCache :: "matchManager \<Rightarrow> string \<Rightarrow> matchManager" where
  "clearTerrainCache mm matchId =
     (case matches mm matchId of
        None \<Rightarrow> mm
      | Some match \<Rightarrow>
          mm\<lparr>matches := (matches mm)(matchId \<mapsto> match\<lparr>ms_map := (ms_map match)\<lparr>md_terrainCache := Map.empty\<rparr>\<rparr>)\<rparr>)"

text \<open>The invariant of one match: the map is the one generated from the match seed, and
  every cached terrain is the derived one.\<close>

definition mapFixed :: "matchState \<Rightarrow> bool" where
  "mapFixed match \<longleftrightarrow>
     md_seed (ms_map match) = ms_seed match \<and>
     md_landmarks (ms_map match) = md_landmarks (generateServerMap (ms_seed match))"

definition cacheConsistent :: "matchState \<Rightarrow> bool" where
  "cacheConsistent match \<longleftrightarrow>
     (\<forall>key t. md_terrainCache (ms_map match) key = Some t \<longrightarrow> t = deriveTerrain (ms_seed match) key)"


text \<open>A terrain grid of the fixed size whose border cells are all walls.\<close>

definition gridOk :: "tile list list \<Rightarrow> bool" where
  "gridOk g \<longleftrightarrow>
     length g = roomSize \<and>
     (\<forall>row \<in> set g. length row = roomSize) \<and>
     (\<forall>y \<in> set [0..<roomSize]. \<forall>x \<in> set [0..<roomSize].
        (x = 0 \<or> x = roomSize - 1 \<or> y = 0 \<or> y = roomSize - 1) \<longrightarrow> g ! y ! x = Wall)"

definition roomsOk :: "matchState \<Rightarrow> bool" where
  "roomsOk match \<longleftrightarrow>
     (\<forall>key r. ms_rooms match key = Some r \<longrightarrow>
        isTerrainAccessible (deriveTerrain (ms_seed match) key) \<and>
        gridOk (r_terrain r) \<and> r_size r = (20, 20))"

definition matchInv :: "matchState \<Rightarrow> bool" where
  "matchInv match \<longleftrightarrow> mapFixed match \<and> cacheConsistent match \<and> roomsOk match"

text \<open>A small reachable state: one match \<open>m1\<close> with seed 12345 and one player.\<close>

definition exampleManager :: matchManager where
  "exampleManager = snd (createMatch \<lparr>matches = Map.empty\<rparr> [(''p1'', ''alice'')] ''m1'' 12345 0)"

text \<open>The invariant in each match of a manager; every reachable state keeps it.\<close>

definition managerInv :: "matchManager \<Rightarrow> bool" where
  "managerInv mm \<longleftrightarrow> (\<forall>matchId m. matches mm matchId = Some m \<longrightarrow> matchInv m)"

section \<open>The server authority (ServerAuthority)\<close>

text \<open>
  Positions are points with numeric coordinates, modelled as reals; health, damage and the
  combat statistics are integers. A call reads the server clock (\<open>Date.now()\<close>) into \<open>now\<close>
  and the random number generator into the arguments named after what is drawn.
\<close>

subsection \<open>Numbers and message values\<close>

text \<open>
  A JavaScript number is a finite number, one of the two infinities or \<open>NaN\<close>. The
  arithmetic below is that of the language on the infinities and on \<open>NaN\<close>, and that of
  the reals on finite numbers: the rounding of the double format, its overflow and its
  negative zero are not modelled. A comparison with \<open>NaN\<close> on either side is false.
\<close>

datatype jsNum = Fin real | PInf | NInf | NaN

fun jsSub :: "jsNum \<Rightarrow> jsNum \<Rightarrow> jsNum" where
  "jsSub (Fin a) (Fin b) = Fin (a - b)"
| "jsSub (Fin a) PInf = NInf"
| "jsSub (Fin a) NInf = PInf"
| "jsSub PInf (Fin b) = PInf"
| "jsSub PInf NInf = PInf"
| "jsSub PInf PInf = NaN"
| "jsSub NInf (Fin b) = NInf"
| "jsSub NInf PInf = NInf"
| "jsSub NInf NInf = NaN"
| "jsSub NaN b = NaN"
| "jsSub a NaN = NaN"

fun jsMul :: "jsNum \<Rightarrow> jsNum \<Rightarrow> jsNum" where
  "jsMul (Fin a) (Fin b) = Fin (a * b)"
| "jsMul (Fin a) PInf = (if a = 0 then NaN else if 0 < a then PInf else NInf)"
| "jsMul (Fin a) NInf = (if a = 0 then NaN else if 0 < a then NInf else PInf)"
| "jsMul PInf (Fin b) = (if b = 0 then NaN else if 0 < b then PInf else NInf)"
| "jsMul NInf (Fin b) = (if b = 0 then NaN else if 0 < b then NInf else PInf)"
| "jsMul PInf PInf = PInf"
| "jsMul PInf NInf = NInf"
| "jsMul NInf PInf = NInf"
| "jsMul NInf NInf = PInf"
| "jsMul NaN b = NaN"
| "jsMul a NaN = NaN"

text \<open>Division; a zero divisor is read as positive zero. The code divides by 1000 only.\<close>

fun jsDiv :: "jsNum \<Rightarrow> jsNum \<Rightarrow> jsNum" where
  "jsDiv (Fin a) (Fin b) =
     (if b = 0 then (if a = 0 then NaN else if 0 < a then PInf else NInf) else Fin (a / b))"
| "jsDiv (Fin a) PInf = Fin 0"
| "jsDiv (Fin a) NInf = Fin 0"
| "jsDiv PInf (Fin b) = (if 0 \<le> b then PInf else NInf)"
| "jsDiv NInf (Fin b) = (if 0 \<le> b then NInf else PInf)"
| "jsDiv PInf PInf = NaN"
| "jsDiv PInf NInf = NaN"
| "jsDiv NInf PInf = NaN"
| "jsDiv NInf NInf = NaN"
| "jsDiv NaN b = NaN"
| "jsDiv a NaN = NaN"

fun jsLess :: "jsNum \<Rightarrow> jsNum \<Rightarrow> bool" where
  "jsLess (Fin a) (Fin b) = (a < b)"
| "jsLess (Fin a) PInf = True"
| "jsLess NInf (Fin b) = True"
| "jsLess NInf PInf = True"
| "jsLess (Fin a) NInf = False"
| "jsLess PInf b = False"
| "jsLess NInf NInf = False"
| "jsLess NaN b = False"
| "jsLess a NaN = False"

text \<open>\<open>a > b\<close> is \<open>b < a\<close>.\<close>

abbreviation jsGreater :: "jsNum \<Rightarrow> jsNum \<Rightarrow> bool" where
  "jsGreater a b \<equiv> jsLess b a"

text \<open>
  The timestamp of a request is \<open>message.timestamp || Date.now()\<close> (gameServer.js): whatever
  the parsed message holds there, unless that is falsy. The authority subtracts it, reads
  it as an operand of \<open>||\<close> and stores it, and does nothing else with it. So a timestamp is a number
  (the literal \<open>1e999\<close> parses to the positive infinity), or a truthy value that is not a
  number (a string that is not empty, \<open>true\<close>, an array, an object), of which the model
  keeps the number it converts to in a subtraction: the string \<open>"abc"\<close> is \<open>Other NaN\<close>, the
  string \<open>"2000"\<close> is \<open>Other (Fin 2000)\<close>. Of the numbers, zero and \<open>NaN\<close> are falsy.
\<close>

datatype jsValue = Number jsNum | Other jsNum

fun toNumber :: "jsValue \<Rightarrow> jsNum" where
  "toNumber (Number n) = n"
| "toNumber (Other n) = n"

fun truthy :: "jsValue \<Rightarrow> bool" where
  "truthy (Number (Fin x)) = (x \<noteq> 0)"
| "truthy (Number PInf) = True"
| "truthy (Number NInf) = True"
| "truthy (Number NaN) = False"
| "truthy (Other n) = True"

text \<open>\<open>v || 0\<close>\<close>

definition orZero :: "jsValue \<Rightarrow> jsValue" where
  "orZero v = (if truthy v then v else Number (Fin 0))"

text \<open>A finite number as a value, and the values that read as a whole number of
  milliseconds, as the clock gives them.\<close>

abbreviation ms :: "real \<Rightarrow> jsValue" where
  "ms x \<equiv> Number (Fin x)"


record pos =
  pos_x :: real
  pos_y :: real

record worldBoundsT =
  wb_minX :: real
  wb_maxX :: real
  wb_minY :: real
  wb_maxY :: real

definition worldBounds :: worldBoundsT where
  "worldBounds = \<lparr>wb_minX = 0, wb_maxX = 1000, wb_minY = 0, wb_maxY = 1000\<rparr>"

definition maxMovementSpeed :: real where
  "maxMovementSpeed = 5"

text \<open>combatRules\<close>

definition maxAttackRange :: real where "maxAttackRange = 50"
definition attackCooldown :: real where "attackCooldown = 1500"
definition maxDamagePerHit :: int where "maxDamagePerHit = 25"
definition minDamagePerHit :: int where "minDamagePerHit = 5"
definition maxHealth :: int where "maxHealth = 100"

text \<open>cheatDetection\<close>

definition maxActionsPerSecond :: real where "maxActionsPerSecond = 10"
definition maxMovementSpeedMultiplier :: real where "maxMovementSpeedMultiplier = 2"
definition suspiciousActionThreshold :: nat where "suspiciousActionThreshold = 5"
definition autoKickThreshold :: nat where "autoKickThreshold = 10"

subsection \<open>Violations and the action history\<close>

text \<open>
  The ids of items are strings: the id of a template, the unique id \<open>spawnItem\<close> builds
  from the template id and a counter, and the id \<open>dropItem\<close> builds from the id the item
  had and the clock. The model keeps the parts; no template id of the database ends with
  a counter or begins with \<open>dropped_\<close>, so the three kinds do not meet.
\<close>

datatype itemId = Template string | Spawned string nat | Dropped itemId real

text \<open>The details logged with a violation, one shape per violation type.\<close>

datatype details =
    OutOfBounds pos
  | SpeedHack real jsNum jsNum
  | WallHack pos pos
  | InvalidTarget string
  | DeadPlayerAction int
  | AttackSpeedHack jsNum real
  | RangeHack real real
  | DeadPlayerItemUse itemId
  | InvalidItem itemId
  | ItemRangeHack real itemId
  | HighActionFrequency real real

record violation =
  v_type :: string
  v_timestamp :: real
  v_details :: details

record playerViolations =
  pv_violations :: "violation list"
  pv_count :: nat

datatype actionData =
    MovementData pos pos real jsNum
  | CombatData string int string real

record action =
  a_type :: string
  a_timestamp :: real
  a_data :: actionData

subsection \<open>Items and inventories\<close>

record effects =
  ef_health :: "int option"
  ef_mana :: "int option"
  ef_buff :: "string option"

record item =
  it_id :: itemId
  it_templateId :: string
  it_name :: string
  it_type :: string
  it_rarity :: string
  it_stats :: "(string \<times> real) list"
  it_effects :: "effects option"
  it_description :: string
  it_position :: pos
  it_spawnTime :: real
  it_quantity :: int
  it_pickedUpAt :: "jsValue option"
  it_droppedAt :: "jsValue option"
  it_droppedBy :: "string option"

record inventory =
  inv_playerId :: string
  inv_items :: "(nat \<times> item) list"
  inv_equipped :: "string \<rightharpoonup> item"
  inv_maxSlots :: nat
  inv_createdAt :: real

record serverAuthority =
  gameItems :: "(itemId \<times> item) list"
  playerInventories :: "string \<rightharpoonup> inventory"
  itemIdCounter :: nat
  playerActions :: "string \<rightharpoonup> action list"
  suspiciousPlayers :: "string \<rightharpoonup> playerViolations"

subsection \<open>Players as the authority sees them\<close>

text \<open>
  The connection object of a player and the game state inside it. The type of the position
  is a parameter: the authority reads \<open>x\<close> and \<open>y\<close> of a position, the game server stores
  a world and a room coordinate.
\<close>

record combatStats =
  st_attack :: int
  st_defense :: int
  st_speed :: int

record 'p playerGameState =
  gs_position :: 'p
  gs_health :: int
  gs_maxHealth :: int
  gs_inCombat :: bool
  gs_ready :: bool
  gs_alive :: bool
  gs_stats :: "combatStats option"
  gs_lastAttackTime :: jsValue
  gs_lastMoveTime :: jsValue
  gs_lastValidPosition :: 'p
  gs_kills :: int
  gs_lastCombatTime :: jsValue
  gs_deathTime :: "jsValue option"
  gs_killedBy :: "string option"
  gs_mana :: "int option"
  gs_maxMana :: "int option"

record 'p playerConnection =
  pc_playerId :: string
  pc_username :: string
  pc_matchId :: string
  pc_connectedAt :: real
  pc_lastPing :: real
  pc_status :: string
  pc_isAlive :: bool
  pc_ping :: real
  pc_gameState :: "'p playerGameState"

text \<open>The \<open>gameState\<close> argument of the validators: the players of the server, by id.\<close>

record 'p world =
  w_players :: "string \<rightharpoonup> 'p playerConnection"

text \<open>
  The fifth argument of \<open>validateMovement\<close>: the two properties it reads from it. A property
  that is missing reads as undefined, here \<open>None\<close>; behind \<open>||\<close> any other falsy value that
  is not a number reads the same.
\<close>

record playerData =
  pd_lastMoveTime :: "jsValue option"
  pd_lastValidPosition :: "pos option"

datatype jsError = TypeError

subsection \<open>flagSuspiciousActivity, recordPlayerAction, checkActionFrequency\<close>

definition flagSuspiciousActivity ::
  "serverAuthority \<Rightarrow> string \<Rightarrow> string \<Rightarrow> details \<Rightarrow> real \<Rightarrow> (string \<times> string) \<times> serverAuthority" where
  "flagSuspiciousActivity sa playerId violationType dets now =
     (let pv = (case suspiciousPlayers sa playerId of
                  None \<Rightarrow> \<lparr>pv_violations = [], pv_count = 0\<rparr>
                | Some pv \<Rightarrow> pv);
          pv' = pv\<lparr>pv_violations := pv_violations pv @ [\<lparr>v_type = violationType, v_timestamp = now, v_details = dets\<rparr>],
                   pv_count := pv_count pv + 1\<rparr>;
          sa' = sa\<lparr>suspiciousPlayers := (suspiciousPlayers sa)(playerId \<mapsto> pv')\<rparr>
      in if pv_count pv' \<ge> autoKickThreshold then ((''kick'', ''Repeated cheat violations''), sa')
         else if pv_count pv' \<ge> suspiciousActionThreshold then ((''flag'', ''Suspicious activity detected''), sa')
         else ((''warn'', violationType), sa'))"

definition checkActionFrequency :: "serverAuthority \<Rightarrow> string \<Rightarrow> action list \<Rightarrow> real \<Rightarrow> serverAuthority" where
  "checkActionFrequency sa playerId actions now =
     (let actionsPerSecond = real (length actions) / 10
      in if actionsPerSecond > maxActionsPerSecond then
           snd (flagSuspiciousActivity sa playerId ''HIGH_ACTION_FREQUENCY''
                  (HighActionFrequency actionsPerSecond maxActionsPerSecond) now)
         else sa)"

definition recordPlayerAction :: "serverAuthority \<Rightarrow> string \<Rightarrow> string \<Rightarrow> actionData \<Rightarrow> real \<Rightarrow> serverAuthority" where
  "recordPlayerAction sa playerId actionType dat now =
     (let actions = (case playerActions sa playerId of None \<Rightarrow> [] | Some as \<Rightarrow> as);
          actions1 = actions @ [\<lparr>a_type = actionType, a_timestamp = now, a_data = dat\<rparr>];
          cutoff = now - 10000;
          recentActions = filter (\<lambda>a. a_timestamp a > cutoff) actions1;
          sa1 = sa\<lparr>playerActions := (playerActions sa)(playerId \<mapsto> recentActions)\<rparr>
      in checkActionFrequency sa1 playerId recentActions now)"

subsection \<open>Movement\<close>

definition isPositionInBounds :: "pos \<Rightarrow> bool" where
  "isPositionInBounds p \<longleftrightarrow>
     pos_x p \<ge> wb_minX worldBounds \<and> pos_x p \<le> wb_maxX worldBounds \<and>
     pos_y p \<ge> wb_minY worldBounds \<and> pos_y p \<le> wb_maxY worldBounds"

definition calculateDistance :: "pos \<Rightarrow> pos \<Rightarrow> real" where
  "calculateDistance pos1 pos2 =
     (let dx = pos_x pos1 - pos_x pos2;
          dy = pos_y pos1 - pos_y pos2
      in sqrt (dx * dx + dy * dy))"

definition calculateMaxMovementDistance :: "jsNum \<Rightarrow> jsNum" where
  "calculateMaxMovementDistance timeDelta =
     (let timeInSeconds = jsDiv timeDelta (Fin 1000)
      in jsMul (jsMul (Fin maxMovementSpeed) timeInSeconds) (Fin maxMovementSpeedMultiplier))"

definition hasObstacleCollision :: "pos \<Rightarrow> pos \<Rightarrow> bool" where
  "hasObstacleCollision fromPos toPos = False"

text \<open>
  \<open>playerData.lastMoveTime || timestamp\<close>: the timestamp stands in when the property is
  missing or falsy. \<open>playerData.lastValidPosition || fromPos\<close>: the from-position stands in
  when the property is missing.
\<close>

definition lastMoveTimeOr :: "playerData \<Rightarrow> jsValue \<Rightarrow> jsValue" where
  "lastMoveTimeOr playerData timestamp =
     (case pd_lastMoveTime playerData of
        None \<Rightarrow> timestamp
      | Some t \<Rightarrow> if truthy t then t else timestamp)"

definition lastValidPositionOr :: "playerData \<Rightarrow> pos \<Rightarrow> pos" where
  "lastValidPositionOr playerData fromPos =
     (case pd_lastValidPosition playerData of None \<Rightarrow> fromPos | Some p \<Rightarrow> p)"

text \<open>
  \<open>validateMovement\<close> returns null (\<open>None\<close>) or a position. The logged speed, a quotient by the
  elapsed time, is left out of the details of the violation.
\<close>

definition validateMovement ::
  "serverAuthority \<Rightarrow> string \<Rightarrow> pos \<Rightarrow> pos \<Rightarrow> jsValue \<Rightarrow> playerData \<Rightarrow> real \<Rightarrow> pos option \<times> serverAuthority" where
  "validateMovement sa playerId fromPos toPos timestamp playerData now =
     (if \<not> isPositionInBounds toPos then
        (None, snd (flagSuspiciousActivity sa playerId ''OUT_OF_BOUNDS'' (OutOfBounds toPos) now))
      else
        (let distance = calculateDistance fromPos toPos;
             timeDelta = jsSub (toNumber timestamp) (toNumber (lastMoveTimeOr playerData timestamp));
             maxAllowedDistance = calculateMaxMovementDistance timeDelta
         in if jsGreater (Fin distance) maxAllowedDistance then
              (Some (lastValidPositionOr playerData fromPos),
               snd (flagSuspiciousActivity sa playerId ''SPEED_HACK''
                      (SpeedHack distance maxAllowedDistance timeDelta) now))
            else if hasObstacleCollision fromPos toPos then
              (Some (lastValidPositionOr playerData fromPos),
               snd (flagSuspiciousActivity sa playerId ''WALL_HACK'' (WallHack fromPos toPos) now))
            else
              (Some toPos,
               recordPlayerAction sa playerId ''MOVEMENT'' (MovementData fromPos toPos distance timeDelta) now)))"

text \<open>An authority with no item in the world and no history, and two players' data.\<close>

definition emptyAuthority :: serverAuthority where
  "emptyAuthority =
     \<lparr>gameItems = [], playerInventories = Map.empty, itemIdCounter = 1,
      playerActions = Map.empty, suspiciousPlayers = Map.empty\<rparr>"

definition movedAt1000 :: playerData where
  "movedAt1000 = \<lparr>pd_lastMoveTime = Some (ms 1000), pd_lastValidPosition = Some \<lparr>pos_x = 10, pos_y = 10\<rparr>\<rparr>"

definition noMoveRecorded :: playerData where
  "noMoveRecorded = \<lparr>pd_lastMoveTime = None, pd_lastValidPosition = None\<rparr>"

subsection \<open>Combat\<close>

record combatResult =
  cr_attackerId :: string
  cr_targetId :: string
  cr_damage :: int
  cr_oldHealth :: int
  cr_newHealth :: int
  cr_isDead :: bool
  cr_timestamp :: jsValue

text \<open>
  \<open>stats?.attack || 10\<close>: the default stands in when the stats are missing or the value is
  zero. \<open>roll\<close> is \<open>Math.floor(Math.random() * 5)\<close>.
\<close>

definition calculateDamage :: "'p playerConnection \<Rightarrow> 'p playerConnection \<Rightarrow> string \<Rightarrow> int \<Rightarrow> int" where
  "calculateDamage attacker target actionType roll =
     (let baseDamage = 15;
          attackPower = (case gs_stats (pc_gameState attacker) of
                           None \<Rightarrow> 10
                         | Some s \<Rightarrow> if st_attack s = 0 then 10 else st_attack s);
          defense = (case gs_stats (pc_gameState target) of
                       None \<Rightarrow> 5
                     | Some s \<Rightarrow> if st_defense s = 0 then 5 else st_defense s);
          finalDamage = max 1 (baseDamage + attackPower - defense);
          finalDamage = finalDamage + (roll - 2)
      in max minDamagePerHit (min maxDamagePerHit finalDamage))"

text \<open>
  The dead player and the killer may be the same object, so the killer is read after the
  dead player has been written.
\<close>

definition handlePlayerDeath :: "string \<Rightarrow> string \<Rightarrow> jsValue \<Rightarrow> 'p world \<Rightarrow> 'p world" where
  "handlePlayerDeath deadPlayerId killerId timestamp world =
     (let players1 =
            (case w_players world deadPlayerId of
               None \<Rightarrow> w_players world
             | Some deadPlayer \<Rightarrow>
                 (w_players world)(deadPlayerId \<mapsto>
                    deadPlayer\<lparr>pc_gameState := (pc_gameState deadPlayer)
                                  \<lparr>gs_alive := False, gs_deathTime := Some timestamp, gs_killedBy := Some killerId\<rparr>,
                               pc_status := ''dead''\<rparr>));
          players2 =
            (case players1 killerId of
               None \<Rightarrow> players1
             | Some killer \<Rightarrow>
                 players1(killerId \<mapsto>
                    killer\<lparr>pc_gameState := (pc_gameState killer)\<lparr>gs_kills := gs_kills (pc_gameState killer) + 1\<rparr>\<rparr>))
      in world\<lparr>w_players := players2\<rparr>)"

text \<open>
  \<open>applyCombatDamage\<close> dereferences both players without a check: a missing one is a
  \<open>TypeError\<close>. Attacker and target may be the same object, so the target is read after
  the attacker has been written.
\<close>

definition applyCombatDamage ::
  "string \<Rightarrow> string \<Rightarrow> int \<Rightarrow> jsValue \<Rightarrow> 'p world \<Rightarrow> jsError + (combatResult \<times> 'p world)" where
  "applyCombatDamage attackerId targetId damage timestamp world =
     (case w_players world attackerId of
        None \<Rightarrow> Inl TypeError
      | Some attacker \<Rightarrow>
         (let players1 = (w_players world)(attackerId \<mapsto>
                attacker\<lparr>pc_gameState := (pc_gameState attacker)
                   \<lparr>gs_lastAttackTime := timestamp, gs_inCombat := True, gs_lastCombatTime := timestamp\<rparr>\<rparr>)
          in case players1 targetId of
               None \<Rightarrow> Inl TypeError
             | Some target \<Rightarrow>
                (let oldHealth = gs_health (pc_gameState target);
                     newHealth = max 0 (oldHealth - damage);
                     players2 = players1(targetId \<mapsto>
                        target\<lparr>pc_gameState := (pc_gameState target)
                           \<lparr>gs_health := newHealth, gs_inCombat := True, gs_lastCombatTime := timestamp\<rparr>\<rparr>);
                     world2 = world\<lparr>w_players := players2\<rparr>;
                     isDead = (newHealth \<le> 0);
                     world3 = (if isDead then handlePlayerDeath targetId attackerId timestamp world2 else world2)
                 in Inr (\<lparr>cr_attackerId = attackerId, cr_targetId = targetId, cr_damage = damage,
                          cr_oldHealth = oldHealth, cr_newHealth = newHealth, cr_isDead = isDead,
                          cr_timestamp = timestamp\<rparr>, world3))))"

text \<open>
  \<open>validateCombatAction\<close> returns null (\<open>None\<close>) for a rejected attack and the combat result
  for an accepted one, with the authority's bookkeeping and the world as they are left.
  The last attack time is read as \<open>lastAttackTime || 0\<close>.
\<close>

definition validateCombatAction ::
  "serverAuthority \<Rightarrow> string \<Rightarrow> string \<Rightarrow> string \<Rightarrow> jsValue \<Rightarrow> pos world \<Rightarrow> int \<Rightarrow> real
     \<Rightarrow> jsError + (combatResult option \<times> serverAuthority \<times> pos world)" where
  "validateCombatAction sa attackerId targetId actionType timestamp world roll now =
     (case (w_players world attackerId, w_players world targetId) of
        (Some attacker, Some target) \<Rightarrow>
          if gs_health (pc_gameState attacker) \<le> 0 then
            Inr (None, snd (flagSuspiciousActivity sa attackerId ''DEAD_PLAYER_ACTION''
                              (DeadPlayerAction (gs_health (pc_gameState attacker))) now), world)
          else
            (let lastAttack = orZero (gs_lastAttackTime (pc_gameState attacker));
                 timeSinceLastAttack = jsSub (toNumber timestamp) (toNumber lastAttack)
             in if jsLess timeSinceLastAttack (Fin attackCooldown) then
                  Inr (None, snd (flagSuspiciousActivity sa attackerId ''ATTACK_SPEED_HACK''
                                    (AttackSpeedHack timeSinceLastAttack attackCooldown) now), world)
                else
                  (let distance = calculateDistance (gs_position (pc_gameState attacker))
                                                    (gs_position (pc_gameState target))
                   in if distance > maxAttackRange then
                        Inr (None, snd (flagSuspiciousActivity sa attackerId ''RANGE_HACK''
                                          (RangeHack distance maxAttackRange) now), world)
                      else
                        (let damage = calculateDamage attacker target actionType roll
                         in case applyCombatDamage attackerId targetId damage timestamp world of
                              Inl e \<Rightarrow> Inl e
                            | Inr (combatResult, world') \<Rightarrow>
                                Inr (Some combatResult,
                                     recordPlayerAction sa attackerId ''COMBAT''
                                       (CombatData targetId damage actionType distance) now,
                                     world'))))
      | _ \<Rightarrow>
          Inr (None, snd (flagSuspiciousActivity sa attackerId ''INVALID_TARGET'' (InvalidTarget targetId) now), world))"

subsection \<open>A run of attack requests\<close>



text \<open>A world of two living players 30 units apart, and three attack requests of the first.\<close>

definition examplePlayer :: "string \<Rightarrow> real \<Rightarrow> int \<Rightarrow> pos playerConnection" where
  "examplePlayer playerId x hp =
     \<lparr>pc_playerId = playerId, pc_username = playerId, pc_matchId = ''lobby'', pc_connectedAt = 0,
      pc_lastPing = 0, pc_status = ''connected'', pc_isAlive = True, pc_ping = 0,
      pc_gameState =
        \<lparr>gs_position = \<lparr>pos_x = x, pos_y = 0\<rparr>, gs_health = hp, gs_maxHealth = 100, gs_inCombat = False,
         gs_ready = False, gs_alive = (hp > 0),
         gs_stats = Some \<lparr>st_attack = 10, st_defense = 5, st_speed = 5\<rparr>,
         gs_lastAttackTime = ms 0, gs_lastMoveTime = ms 0, gs_lastValidPosition = \<lparr>pos_x = x, pos_y = 0\<rparr>,
         gs_kills = 0, gs_lastCombatTime = ms 0, gs_deathTime = None, gs_killedBy = None,
         gs_mana = None, gs_maxMana = None\<rparr>\<rparr>"





subsection \<open>The item system\<close>

record itemTypeInfo =
  ty_category :: string
  ty_stackable :: bool
  ty_maxStack :: int

definition itemTypes :: "(string \<times> itemTypeInfo) list" where
  "itemTypes =
    [(''WEAPON'', \<lparr>ty_category = ''equipment'', ty_stackable = False, ty_maxStack = 1\<rparr>),
     (''ARMOR'', \<lparr>ty_category = ''equipment'', ty_stackable = False, ty_maxStack = 1\<rparr>),
     (''CONSUMABLE'', \<lparr>ty_category = ''consumable'', ty_stackable = True, ty_maxStack = 99\<rparr>),
     (''MATERIAL'', \<lparr>ty_category = ''material'', ty_stackable = True, ty_maxStack = 999\<rparr>),
     (''KEY_ITEM'', \<lparr>ty_category = ''quest'', ty_stackable = False, ty_maxStack = 1\<rparr>)]"

record itemTemplate =
  tp_id :: string
  tp_name :: string
  tp_type :: string
  tp_rarity :: string
  tp_stats :: "(string \<times> real) list"
  tp_effects :: "effects option"
  tp_description :: string

definition itemDatabase :: "(string \<times> itemTemplate) list" where
  "itemDatabase =
    [(''iron_sword'',
      \<lparr>tp_id = ''iron_sword'', tp_name = ''Iron Sword'', tp_type = ''WEAPON'', tp_rarity = ''common'',
       tp_stats = [(''attack'', 15), (''criticalChance'', 5)], tp_effects = None,
       tp_description = ''A sturdy iron sword suitable for basic combat.''\<rparr>),
     (''steel_dagger'',
      \<lparr>tp_id = ''steel_dagger'', tp_name = ''Steel Dagger'', tp_type = ''WEAPON'', tp_rarity = ''common'',
       tp_stats = [(''attack'', 12), (''criticalChance'', 15), (''attackSpeed'', 12 / 10)], tp_effects = None,
       tp_description = ''A quick steel dagger for swift strikes.''\<rparr>),
     (''leather_armor'',
      \<lparr>tp_id = ''leather_armor'', tp_name = ''Leather Armor'', tp_type = ''ARMOR'', tp_rarity = ''common'',
       tp_stats = [(''defense'', 8), (''health'', 20)], tp_effects = None,
       tp_description = ''Basic leather protection for adventurers.''\<rparr>),
     (''chain_mail'',
      \<lparr>tp_id = ''chain_mail'', tp_name = ''Chain Mail'', tp_type = ''ARMOR'', tp_rarity = ''uncommon'',
       tp_stats = [(''defense'', 15), (''health'', 40), (''healthRegen'', 1)], tp_effects = None,
       tp_description = ''Interlocked metal rings providing good protection.''\<rparr>),
     (''health_potion'',
      \<lparr>tp_id = ''health_potion'', tp_name = ''Health Potion'', tp_type = ''CONSUMABLE'', tp_rarity = ''common'',
       tp_stats = [], tp_effects = Some \<lparr>ef_health = Some 50, ef_mana = None, ef_buff = None\<rparr>,
       tp_description = ''Restores 50 health points instantly.''\<rparr>),
     (''mana_potion'',
      \<lparr>tp_id = ''mana_potion'', tp_name = ''Mana Potion'', tp_type = ''CONSUMABLE'', tp_rarity = ''common'',
       tp_stats = [], tp_effects = Some \<lparr>ef_health = None, ef_mana = Some 30, ef_buff = None\<rparr>,
       tp_description = ''Restores 30 mana points instantly.''\<rparr>),
     (''iron_ore'',
      \<lparr>tp_id = ''iron_ore'', tp_name = ''Iron Ore'', tp_type = ''MATERIAL'', tp_rarity = ''common'',
       tp_stats = [], tp_effects = None,
       tp_description = ''Raw iron ore for crafting weapons and armor.''\<rparr>),
     (''magic_crystal'',
      \<lparr>tp_id = ''magic_crystal'', tp_name = ''Magic Crystal'', tp_type = ''MATERIAL'', tp_rarity = ''rare'',
       tp_stats = [], tp_effects = None,
       tp_description = ''A glowing crystal infused with magical energy.''\<rparr>)]"

text \<open>
  \<open>spawnItem\<close>: \<open>angle\<close> and \<open>distance\<close> are the two random draws scaled as the source scales
  them, \<open>qroll\<close> is \<open>Math.floor(Math.random() * 5)\<close>. Reading the type table for a type it
  does not have is a \<open>TypeError\<close>. The object literal writes the unique id and then spreads
  the template over it, so the \<open>id\<close> of the item is the id of the template; the unique id
  is the key of the item in \<open>gameItems\<close> only.
\<close>

definition spawnItem ::
  "serverAuthority \<Rightarrow> string \<Rightarrow> pos \<Rightarrow> real \<Rightarrow> real \<Rightarrow> int \<Rightarrow> real \<Rightarrow> jsError + (item option \<times> serverAuthority)" where
  "spawnItem sa itemTemplateId centerPos angle distance qroll now =
     (case map_of itemDatabase itemTemplateId of
        None \<Rightarrow> Inr (None, sa)
      | Some template \<Rightarrow>
         (case map_of itemTypes (tp_type template) of
            None \<Rightarrow> Inl TypeError
          | Some ty \<Rightarrow>
             (let uniqueItemId = Spawned itemTemplateId (itemIdCounter sa);
                  position = \<lparr>pos_x = pos_x centerPos + cos angle * distance,
                              pos_y = pos_y centerPos + sin angle * distance\<rparr>;
                  item = \<lparr>it_id = Template (tp_id template), it_templateId = itemTemplateId, it_name = tp_name template,
                          it_type = tp_type template, it_rarity = tp_rarity template, it_stats = tp_stats template,
                          it_effects = tp_effects template, it_description = tp_description template,
                          it_position = position, it_spawnTime = now,
                          it_quantity = (if ty_stackable ty then qroll + 1 else 1),
                          it_pickedUpAt = None, it_droppedAt = None, it_droppedBy = None\<rparr>
              in Inr (Some item,
                      sa\<lparr>itemIdCounter := itemIdCounter sa + 1,
                         gameItems := AList.update uniqueItemId item (gameItems sa)\<rparr>))))"

definition initializePlayerInventory :: "serverAuthority \<Rightarrow> string \<Rightarrow> real \<Rightarrow> inventory \<times> serverAuthority" where
  "initializePlayerInventory sa playerId now =
     (case playerInventories sa playerId of
        Some inventory \<Rightarrow> (inventory, sa)
      | None \<Rightarrow>
         (let inventory = \<lparr>inv_playerId = playerId, inv_items = [], inv_equipped = Map.empty,
                           inv_maxSlots = 20, inv_createdAt = now\<rparr>
          in (inventory, sa\<lparr>playerInventories := (playerInventories sa)(playerId \<mapsto> inventory)\<rparr>)))"

definition findItemInInventory :: "serverAuthority \<Rightarrow> string \<Rightarrow> string \<Rightarrow> nat option" where
  "findItemInInventory sa playerId templateId =
     (case playerInventories sa playerId of
        None \<Rightarrow> None
      | Some inventory \<Rightarrow>
          map_option fst (find (\<lambda>(slot, item). it_templateId item = templateId) (inv_items inventory)))"

definition findItemSlotInInventory :: "serverAuthority \<Rightarrow> string \<Rightarrow> itemId \<Rightarrow> nat option" where
  "findItemSlotInInventory sa playerId itemId =
     (case playerInventories sa playerId of
        None \<Rightarrow> None
      | Some inventory \<Rightarrow>
          map_option fst (find (\<lambda>(slot, item). it_id item = itemId) (inv_items inventory)))"

definition getEquipmentSlot :: "item \<Rightarrow> string" where
  "getEquipmentSlot item =
     (if it_type item = ''WEAPON'' then ''weapon''
      else if it_type item = ''ARMOR'' then ''chest''
      else ''misc'')"

definition findItemById :: "serverAuthority \<Rightarrow> itemId \<Rightarrow> item option" where
  "findItemById sa itemId = map_of (gameItems sa) itemId"

record effectsResult =
  er_healthRestored :: "int option"
  er_manaRestored :: "int option"
  er_buff :: "string option"

text \<open>The outcome of an item action: a failure with its reason, or what was done.\<close>

datatype itemResult =
    Failure string
  | Stacked item nat
  | PickedUp item nat
  | Consumed item effectsResult jsValue
  | Equipped item string "item option"
  | Unequipped item string
  | DroppedItem item

text \<open>
  \<open>applyItemEffects\<close>. An effect applies when its amount is there and not zero;
  \<open>mana || 100\<close> and \<open>maxMana || 100\<close> read 100 for a missing or zero value. The health is
  capped at \<open>combatRules.maxHealth\<close>.
\<close>

definition applyItemEffects :: "'p playerConnection \<Rightarrow> item \<Rightarrow> effectsResult \<times> 'p playerConnection" where
  "applyItemEffects player item =
     (case it_effects item of
        None \<Rightarrow> (\<lparr>er_healthRestored = None, er_manaRestored = None, er_buff = None\<rparr>, player)
      | Some ef \<Rightarrow>
         (let (healthRestored, player1) =
                (case ef_health ef of
                   None \<Rightarrow> (None, player)
                 | Some h \<Rightarrow>
                     if h = 0 then (None, player)
                     else
                       (let oldHealth = gs_health (pc_gameState player);
                            newHealth = min maxHealth (oldHealth + h)
                        in (Some (newHealth - oldHealth),
                            player\<lparr>pc_gameState := (pc_gameState player)\<lparr>gs_health := newHealth\<rparr>\<rparr>)));
              (manaRestored, player2) =
                (case ef_mana ef of
                   None \<Rightarrow> (None, player1)
                 | Some m \<Rightarrow>
                     if m = 0 then (None, player1)
                     else
                       (let oldMana = (case gs_mana (pc_gameState player1) of
                                         None \<Rightarrow> 100 | Some v \<Rightarrow> if v = 0 then 100 else v);
                            maxMana = (case gs_maxMana (pc_gameState player1) of
                                         None \<Rightarrow> 100 | Some v \<Rightarrow> if v = 0 then 100 else v);
                            newMana = min maxMana (oldMana + m)
                        in (Some (newMana - oldMana),
                            player1\<lparr>pc_gameState := (pc_gameState player1)\<lparr>gs_mana := Some newMana\<rparr>\<rparr>)));
              buff = (case ef_buff ef of None \<Rightarrow> None | Some b \<Rightarrow> if b = [] then None else Some b)
          in (\<lparr>er_healthRestored = healthRestored, er_manaRestored = manaRestored, er_buff = buff\<rparr>, player2)))"

text \<open>The rest of \<open>pickupItem\<close> once stacking did not apply: the first empty slot takes the item.\<close>

definition pickupIntoEmptySlot ::
  "serverAuthority \<Rightarrow> string \<Rightarrow> inventory \<Rightarrow> item \<Rightarrow> jsValue \<Rightarrow> itemResult \<times> serverAuthority" where
  "pickupIntoEmptySlot sa playerId inventory item timestamp =
     (case find (\<lambda>i. map_of (inv_items inventory) i = None) [0..<inv_maxSlots inventory] of
        None \<Rightarrow> (Failure ''No empty slots'', sa)
      | Some emptySlot \<Rightarrow>
          (PickedUp item emptySlot,
           sa\<lparr>playerInventories := (playerInventories sa)(playerId \<mapsto>
                  inventory\<lparr>inv_items := AList.update emptySlot (item\<lparr>it_pickedUpAt := Some timestamp\<rparr>)
                                            (inv_items inventory)\<rparr>),
              gameItems := AList.delete (it_id item) (gameItems sa)\<rparr>))"

text \<open>
  \<open>pickupItem\<close>. The source tests the slot found for the stack with \<open>if (existingSlot)\<close>, so
  slot 0 counts as not found.
\<close>

definition pickupItem ::
  "serverAuthority \<Rightarrow> string \<Rightarrow> item \<Rightarrow> jsValue \<Rightarrow> real \<Rightarrow> jsError + (itemResult \<times> serverAuthority)" where
  "pickupItem sa playerId item timestamp now =
     (let (inventory, sa1) = initializePlayerInventory sa playerId now
      in if length (inv_items inventory) \<ge> inv_maxSlots inventory then Inr (Failure ''Inventory full'', sa1)
         else
           (case map_of itemTypes (it_type item) of
              None \<Rightarrow> Inl TypeError
            | Some ty \<Rightarrow>
               if ty_stackable ty then
                 (case findItemInInventory sa1 playerId (it_templateId item) of
                    None \<Rightarrow> Inr (pickupIntoEmptySlot sa1 playerId inventory item timestamp)
                  | Some existingSlot \<Rightarrow>
                     if existingSlot = 0 then Inr (pickupIntoEmptySlot sa1 playerId inventory item timestamp)
                     else
                       (case map_of (inv_items inventory) existingSlot of
                          None \<Rightarrow> Inl TypeError
                        | Some existingItem \<Rightarrow>
                           (let maxStack = ty_maxStack ty;
                                newQuantity = it_quantity existingItem + it_quantity item
                            in if newQuantity \<le> maxStack then
                                 (let existingItem' = existingItem\<lparr>it_quantity := newQuantity\<rparr>
                                  in Inr (Stacked existingItem' existingSlot,
                                          sa1\<lparr>playerInventories := (playerInventories sa1)(playerId \<mapsto>
                                                 inventory\<lparr>inv_items := AList.update existingSlot existingItem'
                                                                           (inv_items inventory)\<rparr>),
                                              gameItems := AList.delete (it_id item) (gameItems sa1)\<rparr>))
                               else Inr (pickupIntoEmptySlot sa1 playerId inventory item timestamp))))
               else Inr (pickupIntoEmptySlot sa1 playerId inventory item timestamp)))"

text \<open>
  \<open>useItem\<close> writes the quantity to the item object it is given. The item of an item action
  is the object \<open>findItemById\<close> found in \<open>gameItems\<close>; \<open>itemKey\<close> is the key it was found
  under, which is where the write lands.
\<close>

definition useItem ::
  "serverAuthority \<Rightarrow> string \<Rightarrow> itemId \<Rightarrow> item \<Rightarrow> jsValue \<Rightarrow> 'p world \<Rightarrow> itemResult \<times> serverAuthority \<times> 'p world" where
  "useItem sa playerId itemKey item timestamp world =
     (case playerInventories sa playerId of
        None \<Rightarrow> (Failure ''No inventory'', sa, world)
      | Some inventory \<Rightarrow>
         (case w_players world playerId of
            None \<Rightarrow> (Failure ''Player not found'', sa, world)
          | Some player \<Rightarrow>
             if it_type item \<noteq> ''CONSUMABLE'' then (Failure ''Item not usable'', sa, world)
             else
               (let (effs, player') = applyItemEffects player item;
                    world' = world\<lparr>w_players := (w_players world)(playerId \<mapsto> player')\<rparr>;
                    item' = item\<lparr>it_quantity := max 0 (it_quantity item - 1)\<rparr>;
                    sa1 = sa\<lparr>gameItems := AList.map_entry itemKey (\<lambda>_. item') (gameItems sa)\<rparr>;
                    sa2 = (if it_quantity item' \<le> 0 then
                             (case findItemSlotInInventory sa1 playerId (it_id item') of
                                None \<Rightarrow> sa1
                              | Some slot \<Rightarrow>
                                  sa1\<lparr>playerInventories := (playerInventories sa1)(playerId \<mapsto>
                                         inventory\<lparr>inv_items := AList.delete slot (inv_items inventory)\<rparr>)\<rparr>)
                           else sa1)
                in (Consumed item' effs timestamp, sa2, world'))))"

definition unequipItem :: "serverAuthority \<Rightarrow> string \<Rightarrow> item \<Rightarrow> jsValue \<Rightarrow> itemResult \<times> serverAuthority" where
  "unequipItem sa playerId item timestamp =
     (case playerInventories sa playerId of
        None \<Rightarrow> (Failure ''No inventory'', sa)
      | Some inventory \<Rightarrow>
         (let equipSlot = getEquipmentSlot item
          in (Unequipped item equipSlot,
              sa\<lparr>playerInventories := (playerInventories sa)(playerId \<mapsto>
                     inventory\<lparr>inv_equipped := (inv_equipped inventory)(equipSlot := None)\<rparr>)\<rparr>)))"

definition equipItem :: "serverAuthority \<Rightarrow> string \<Rightarrow> item \<Rightarrow> jsValue \<Rightarrow> itemResult \<times> serverAuthority" where
  "equipItem sa playerId item timestamp =
     (case playerInventories sa playerId of
        None \<Rightarrow> (Failure ''No inventory'', sa)
      | Some inventory \<Rightarrow>
         if it_type item \<noteq> ''WEAPON'' \<and> it_type item \<noteq> ''ARMOR'' then (Failure ''Item not equippable'', sa)
         else
           (let equipSlot = getEquipmentSlot item;
                currentlyEquipped = inv_equipped inventory equipSlot;
                sa1 = (case currentlyEquipped of
                         None \<Rightarrow> sa
                       | Some cur \<Rightarrow> snd (unequipItem sa playerId cur timestamp));
                sa2 = (case playerInventories sa1 playerId of
                         None \<Rightarrow> sa1
                       | Some inventory1 \<Rightarrow>
                           sa1\<lparr>playerInventories := (playerInventories sa1)(playerId \<mapsto>
                                  inventory1\<lparr>inv_equipped := (inv_equipped inventory1)(equipSlot \<mapsto> item)\<rparr>)\<rparr>)
            in (Equipped item equipSlot currentlyEquipped, sa2)))"

text \<open>\<open>dropItem\<close>: \<open>rx\<close> and \<open>ry\<close> are the two random draws, \<open>now\<close> the clock in the new id.\<close>

definition dropItem ::
  "serverAuthority \<Rightarrow> string \<Rightarrow> item \<Rightarrow> jsValue \<Rightarrow> pos world \<Rightarrow> real \<Rightarrow> real \<Rightarrow> real \<Rightarrow> itemResult \<times> serverAuthority" where
  "dropItem sa playerId item timestamp world rx ry now =
     (case (playerInventories sa playerId, w_players world playerId) of
        (Some inventory, Some player) \<Rightarrow>
          (let sa1 = (case findItemSlotInInventory sa playerId (it_id item) of
                        None \<Rightarrow> sa
                      | Some slot \<Rightarrow>
                          sa\<lparr>playerInventories := (playerInventories sa)(playerId \<mapsto>
                                inventory\<lparr>inv_items := AList.delete slot (inv_items inventory)\<rparr>)\<rparr>);
               worldItem = item\<lparr>it_id := Dropped (it_id item) now,
                                it_position := \<lparr>pos_x = pos_x (gs_position (pc_gameState player)) + (rx - 1 / 2) * 10,
                                                pos_y = pos_y (gs_position (pc_gameState player)) + (ry - 1 / 2) * 10\<rparr>,
                                it_droppedAt := Some timestamp,
                                it_droppedBy := Some playerId\<rparr>
           in (DroppedItem worldItem,
               sa1\<lparr>gameItems := AList.update (it_id worldItem) worldItem (gameItems sa1)\<rparr>))
      | _ \<Rightarrow> (Failure ''Player or inventory not found'', sa))"

definition processItemAction ::
  "serverAuthority \<Rightarrow> string \<Rightarrow> itemId \<Rightarrow> item \<Rightarrow> string \<Rightarrow> jsValue \<Rightarrow> pos world \<Rightarrow> real \<Rightarrow> real \<Rightarrow> real
     \<Rightarrow> jsError + (itemResult \<times> serverAuthority \<times> pos world)" where
  "processItemAction sa playerId itemKey item actionType timestamp world rx ry now =
     (if actionType = ''pickup'' then
        (case pickupItem sa playerId item timestamp now of
           Inl e \<Rightarrow> Inl e
         | Inr (res, sa') \<Rightarrow> Inr (res, sa', world))
      else if actionType = ''use'' then Inr (useItem sa playerId itemKey item timestamp world)
      else if actionType = ''drop'' then
        (let (res, sa') = dropItem sa playerId item timestamp world rx ry now in Inr (res, sa', world))
      else if actionType = ''equip'' then
        (let (res, sa') = equipItem sa playerId item timestamp in Inr (res, sa', world))
      else if actionType = ''unequip'' then
        (let (res, sa') = unequipItem sa playerId item timestamp in Inr (res, sa', world))
      else Inr (Failure ''Unknown action'', sa, world))"

definition validateItemAction ::
  "serverAuthority \<Rightarrow> string \<Rightarrow> itemId \<Rightarrow> string \<Rightarrow> jsValue \<Rightarrow> pos world \<Rightarrow> real \<Rightarrow> real \<Rightarrow> real
     \<Rightarrow> jsError + (itemResult option \<times> serverAuthority \<times> pos world)" where
  "validateItemAction sa playerId itemId actionType timestamp world rx ry now =
     (case w_players world playerId of
        None \<Rightarrow> Inr (None, sa, world)
      | Some player \<Rightarrow>
         if gs_health (pc_gameState player) \<le> 0 then
           Inr (None, snd (flagSuspiciousActivity sa playerId ''DEAD_PLAYER_ITEM_USE'' (DeadPlayerItemUse itemId) now), world)
         else
           (case findItemById sa itemId of
              None \<Rightarrow> Inr (None, snd (flagSuspiciousActivity sa playerId ''INVALID_ITEM'' (InvalidItem itemId) now), world)
            | Some item \<Rightarrow>
               (let distance = calculateDistance (gs_position (pc_gameState player)) (it_position item)
                in if distance > 30 then
                     Inr (None, snd (flagSuspiciousActivity sa playerId ''ITEM_RANGE_HACK'' (ItemRangeHack distance itemId) now), world)
                   else
                     (case processItemAction sa playerId itemId item actionType timestamp world rx ry now of
                        Inl e \<Rightarrow> Inl e
                      | Inr (res, sa', world') \<Rightarrow> Inr (Some res, sa', world')))))"

text \<open>A health value within the bounds of the data model.\<close>

definition healthInRange :: "int \<Rightarrow> bool" where
  "healthInRange h \<longleftrightarrow> 0 \<le> h \<and> h \<le> maxHealth"

definition potion :: item where
  "potion =
     \<lparr>it_id = Template ''health_potion'', it_templateId = ''health_potion'', it_name = ''Health Potion'',
      it_type = ''CONSUMABLE'', it_rarity = ''common'', it_stats = [],
      it_effects = Some \<lparr>ef_health = Some 50, ef_mana = None, ef_buff = None\<rparr>,
      it_description = ''Restores 50 health points instantly.'',
      it_position = \<lparr>pos_x = 10, pos_y = 0\<rparr>, it_spawnTime = 0, it_quantity = 1,
      it_pickedUpAt = None, it_droppedAt = None, it_droppedBy = None\<rparr>"

subsection \<open>Reading the anti-cheat bookkeeping, and a run of move requests\<close>

definition actionHistory :: "serverAuthority \<Rightarrow> string \<Rightarrow> action list" where
  "actionHistory sa playerId = (case playerActions sa playerId of None \<Rightarrow> [] | Some as \<Rightarrow> as)"

definition violationCount :: "serverAuthority \<Rightarrow> string \<Rightarrow> nat" where
  "violationCount sa playerId = (case suspiciousPlayers sa playerId of None \<Rightarrow> 0 | Some pv \<Rightarrow> pv_count pv)"

record moveRequest =
  mr_from :: pos
  mr_to :: pos
  mr_timestamp :: jsValue
  mr_now :: real

text \<open>Move requests of one player handled one after the other, each on the bookkeeping the
  previous one left.\<close>

fun runMoves :: "serverAuthority \<Rightarrow> string \<Rightarrow> playerData \<Rightarrow> moveRequest list \<Rightarrow> serverAuthority" where
  "runMoves sa playerId playerData [] = sa"
| "runMoves sa playerId playerData (r # rs) =
     runMoves (snd (validateMovement sa playerId (mr_from r) (mr_to r) (mr_timestamp r) playerData (mr_now r)))
       playerId playerData rs"

text \<open>Twenty requests within one second, 50 ms apart, each one unit further along the x axis.\<close>

definition moveBurst :: "moveRequest list" where
  "moveBurst =
     map (\<lambda>k. \<lparr>mr_from = \<lparr>pos_x = real k, pos_y = 0\<rparr>, mr_to = \<lparr>pos_x = real k + 1, pos_y = 0\<rparr>,
                mr_timestamp = ms (2000 + 50 * real k), mr_now = 2000 + 50 * real k\<rparr>) [0..<20]"

text \<open>A world in which the second player is dead, and an attack of the first on it.\<close>

definition deadTargetWorld :: "pos world" where
  "deadTargetWorld = \<lparr>w_players = [''p1'' \<mapsto> examplePlayer ''p1'' 0 100, ''p2'' \<mapsto> examplePlayer ''p2'' 30 0]\<rparr>"

definition deadTargetAttack :: "jsError + (combatResult option \<times> serverAuthority \<times> pos world)" where
  "deadTargetAttack = validateCombatAction emptyAuthority ''p1'' ''p2'' ''ATTACK'' (ms 2000) deadTargetWorld 2 2000"

section \<open>End-of-match statistics (MatchManager.calculateMatchStats)\<close>

text \<open>
  The statistics of one player as the loop of \<open>calculateMatchStats\<close> builds them. The
  formatted ratios and scores (\<open>toFixed\<close> strings), the count of terrain types and the sorted
  rankings are computed from the same player states and feed neither the winner nor the
  award holders; they are left out.
\<close>

record playerStats =
  pst_playerId :: string
  pst_username :: string
  pst_kills :: int
  pst_deaths :: int
  pst_damageDealt :: int
  pst_damageTaken :: int
  pst_itemsCollected :: int
  pst_roomsExplored :: int
  pst_finalStatus :: string
  pst_survived :: bool
  pst_survivalTime :: real
  pst_lastActivity :: real
  pst_totalPlayTime :: real

text \<open>The variables of the loop and the fields of \<open>stats\<close> it writes.\<close>

record statsLoop =
  sl_winner :: "playerStats option"
  sl_playerStats :: "playerStats list"
  sl_firstKillTime :: "real option"
  sl_maxKills :: int
  sl_maxExploration :: int
  sl_maxItems :: int
  sl_maxDamageDealt :: int
  sl_longestSurvivalTime :: real
  sl_totalKills :: int
  sl_totalDeaths :: int
  sl_totalItemsCollected :: int
  sl_totalRoomsExplored :: "coord set"
  sl_mostDeadlyPlayer :: "playerStats option"
  sl_mostExplorativePlayer :: "playerStats option"
  sl_mostCollectorPlayer :: "playerStats option"
  sl_longestSurvivor :: "playerStats option"

definition statsInit :: statsLoop where
  "statsInit =
     \<lparr>sl_winner = None, sl_playerStats = [], sl_firstKillTime = None, sl_maxKills = -1,
      sl_maxExploration = -1, sl_maxItems = -1, sl_maxDamageDealt = -1, sl_longestSurvivalTime = -1,
      sl_totalKills = 0, sl_totalDeaths = 0, sl_totalItemsCollected = 0, sl_totalRoomsExplored = {},
      sl_mostDeadlyPlayer = None, sl_mostExplorativePlayer = None, sl_mostCollectorPlayer = None,
      sl_longestSurvivor = None\<rparr>"

text \<open>\<open>a || b\<close> on an optional time: \<open>b\<close> stands in when \<open>a\<close> is missing or zero.\<close>

definition timeOr :: "real option \<Rightarrow> real \<Rightarrow> real" where
  "timeOr a b = (case a of None \<Rightarrow> b | Some t \<Rightarrow> if t = 0 then b else t)"

definition matchDurationOf :: "matchState \<Rightarrow> real \<Rightarrow> real" where
  "matchDurationOf match now = timeOr (ms_endTime match) now - ms_startTime match"

text \<open>The statistics object of the player state \<open>p\<close> stored under \<open>playerId\<close>.\<close>

definition survivalTimeOf :: "matchState \<Rightarrow> real \<Rightarrow> playerState \<Rightarrow> real" where
  "survivalTimeOf match now p =
     (if ps_status p = ''ALIVE'' then matchDurationOf match now
      else timeOr (ps_deathTime p) (timeOr (ms_endTime match) now) - ms_startTime match)"

definition playerStatsOf :: "matchState \<Rightarrow> real \<Rightarrow> string \<Rightarrow> playerState \<Rightarrow> playerStats" where
  "playerStatsOf match now playerId p =
     \<lparr>pst_playerId = playerId, pst_username = ps_username p, pst_kills = ps_kills p,
      pst_deaths = ps_deaths p, pst_damageDealt = ps_damageDealt p,
      pst_damageTaken = ps_damageTaken p, pst_itemsCollected = ps_itemsCollected p,
      pst_roomsExplored = int (card (ps_roomsExplored p)), pst_finalStatus = ps_status p,
      pst_survived = (ps_status p = ''ALIVE''), pst_survivalTime = survivalTimeOf match now p,
      pst_lastActivity = ps_lastActivity p,
      pst_totalPlayTime = ps_lastActivity p - ms_startTime match\<rparr>"

text \<open>The statements of the loop body after the statistics object is built and pushed, one
  definition each, in the order of the source.\<close>

definition trackWinner :: "playerState \<Rightarrow> playerStats \<Rightarrow> statsLoop \<Rightarrow> statsLoop" where
  "trackWinner p pstats s =
     (if ps_kills p > sl_maxKills s \<or> (ps_kills p = sl_maxKills s \<and> ps_status p = ''ALIVE'')
      then s\<lparr>sl_maxKills := ps_kills p, sl_winner := Some pstats\<rparr> else s)"

definition trackFirstKill :: "matchState \<Rightarrow> playerState \<Rightarrow> statsLoop \<Rightarrow> statsLoop" where
  "trackFirstKill match p s =
     (if ps_kills p > 0 \<and> (sl_firstKillTime s = None \<or> sl_firstKillTime s = Some 0)
      then s\<lparr>sl_firstKillTime := Some (timeOr (ps_firstKillTime p) (ms_startTime match + 60000))\<rparr>
      else s)"

definition addTotals :: "playerState \<Rightarrow> statsLoop \<Rightarrow> statsLoop" where
  "addTotals p s =
     s\<lparr>sl_totalKills := sl_totalKills s + ps_kills p,
       sl_totalDeaths := sl_totalDeaths s + ps_deaths p,
       sl_totalItemsCollected := sl_totalItemsCollected s + ps_itemsCollected p,
       sl_totalRoomsExplored := sl_totalRoomsExplored s \<union> ps_roomsExplored p\<rparr>"

definition trackMostDeadly :: "playerState \<Rightarrow> playerStats \<Rightarrow> statsLoop \<Rightarrow> statsLoop" where
  "trackMostDeadly p pstats s =
     (if ps_kills p > sl_maxKills s
      then s\<lparr>sl_maxKills := ps_kills p, sl_mostDeadlyPlayer := Some pstats\<rparr> else s)"

definition trackMostExplorative :: "playerState \<Rightarrow> playerStats \<Rightarrow> statsLoop \<Rightarrow> statsLoop" where
  "trackMostExplorative p pstats s =
     (if int (card (ps_roomsExplored p)) > sl_maxExploration s
      then s\<lparr>sl_maxExploration := int (card (ps_roomsExplored p)), sl_mostExplorativePlayer := Some pstats\<rparr>
      else s)"

definition trackMostCollector :: "playerState \<Rightarrow> playerStats \<Rightarrow> statsLoop \<Rightarrow> statsLoop" where
  "trackMostCollector p pstats s =
     (if ps_itemsCollected p > sl_maxItems s
      then s\<lparr>sl_maxItems := ps_itemsCollected p, sl_mostCollectorPlayer := Some pstats\<rparr> else s)"

definition trackMaxDamage :: "playerState \<Rightarrow> statsLoop \<Rightarrow> statsLoop" where
  "trackMaxDamage p s =
     (if ps_damageDealt p > sl_maxDamageDealt s then s\<lparr>sl_maxDamageDealt := ps_damageDealt p\<rparr> else s)"

definition trackLongestSurvivor :: "real \<Rightarrow> playerStats \<Rightarrow> statsLoop \<Rightarrow> statsLoop" where
  "trackLongestSurvivor survivalTime pstats s =
     (if survivalTime > sl_longestSurvivalTime s
      then s\<lparr>sl_longestSurvivalTime := survivalTime, sl_longestSurvivor := Some pstats\<rparr> else s)"

text \<open>One pass of the loop body.\<close>

definition statsStep :: "matchState \<Rightarrow> real \<Rightarrow> statsLoop \<Rightarrow> string \<times> playerState \<Rightarrow> statsLoop" where
  "statsStep match now s entry =
     (let playerId = fst entry;
          p = snd entry;
          pstats = playerStatsOf match now playerId p;
          s = s\<lparr>sl_playerStats := sl_playerStats s @ [pstats]\<rparr>;
          s = trackWinner p pstats s;
          s = trackFirstKill match p s;
          s = addTotals p s;
          s = trackMostDeadly p pstats s;
          s = trackMostExplorative p pstats s;
          s = trackMostCollector p pstats s;
          s = trackMaxDamage p s;
          s = trackLongestSurvivor (survivalTimeOf match now p) pstats s
      in s)"

text \<open>The loop over the players of the match, in the order of the map.\<close>

definition calculateMatchStats :: "matchState \<Rightarrow> real \<Rightarrow> statsLoop" where
  "calculateMatchStats match now = foldl (statsStep match now) statsInit (ms_players match)"

record endResult =
  er_matchId :: string
  er_reason :: string
  er_duration :: real
  er_stats :: statsLoop

definition endMatch :: "matchManager \<Rightarrow> string \<Rightarrow> string \<Rightarrow> real \<Rightarrow> endResult option \<times> matchManager" where
  "endMatch mm matchId reason now =
     (case matches mm matchId of
        None \<Rightarrow> (None, mm)
      | Some match0 \<Rightarrow>
         (let match = match0\<lparr>ms_status := ''ENDED'', ms_endTime := Some now\<rparr>;
              finalStats = calculateMatchStats match now
          in (Some \<lparr>er_matchId = matchId, er_reason = reason,
                    er_duration = now - ms_startTime match, er_stats = finalStats\<rparr>,
              endMatch_mark mm matchId now)))"

text \<open>A started match of two players in which the first has killed the second.\<close>

definition finishedManager :: matchManager where
  "finishedManager =
     (let mm0 = snd (createMatch \<lparr>matches = Map.empty\<rparr> [(''p1'', ''alice''), (''p2'', ''bob'')] ''m1'' 12345 0);
          mm1 = snd (startMatch mm0 ''m1'' 0)
      in snd (recordPlayerKill mm1 ''m1'' ''p1'' ''p2'' 60000))"

text \<open>The match of \<open>finishedManager\<close>, written out.\<close>

definition finishedMatch :: matchState where
  "finishedMatch =
     \<lparr>ms_matchId = ''m1'', ms_seed = 12345, ms_status = ''ACTIVE'',
      ms_players =
        [(''p1'', (initialPlayerState ''p1'' ''alice'' 0)\<lparr>ps_kills := 1, ps_firstKillTime := Some 60000\<rparr>),
         (''p2'', (initialPlayerState ''p2'' ''bob'' 0)\<lparr>ps_deaths := 1, ps_status := ''DEAD'', ps_deathTime := Some 60000\<rparr>)],
      ms_map = generateServerMap 12345, ms_rooms = Map.empty,
      ms_startTime = 0, ms_endTime = Some 300000\<rparr>"

text \<open>
  The winner after the players \<open>seen\<close> so far: one of them, with the highest kill count
  among them, and still alive if any of those with that kill count is.
\<close>

definition winnerOf :: "matchState \<Rightarrow> real \<Rightarrow> statsLoop \<Rightarrow> (string \<times> playerState) list \<Rightarrow> bool" where
  "winnerOf match now s seen \<longleftrightarrow>
     (\<exists>e \<in> set seen.
        sl_winner s = Some (playerStatsOf match now (fst e) (snd e))
        \<and> ps_kills (snd e) = sl_maxKills s
        \<and> (\<forall>e' \<in> set seen. ps_kills (snd e') \<le> sl_maxKills s)
        \<and> ((\<exists>e' \<in> set seen. ps_kills (snd e') = sl_maxKills s \<and> ps_status (snd e') = ''ALIVE'')
             \<longrightarrow> ps_status (snd e) = ''ALIVE''))"

section \<open>The connection registry of the game server (gameServer.js)\<close>

text \<open>
  The part of the game server that admits and releases players. The transport handle of
  a connection is not modelled and sending is taken to succeed (a failed send releases the
  receiver through \<open>handlePlayerDisconnection\<close>, which is a step of its own). The match id,
  the player id and the user name are the values read from the request, after the
  defaults; \<open>uuid\<close> and \<open>seed\<close> are what \<open>createMatch\<close> draws.
\<close>

record legacyMatch =
  lg_id :: string
  lg_status :: string
  lg_roundNumber :: nat
  lg_createdAt :: real

record gameServer =
  srv_serverAuthority :: serverAuthority
  srv_matchManager :: matchManager
  srv_matches :: "string \<rightharpoonup> legacyMatch"
  srv_players :: "string \<rightharpoonup> worldPosition playerConnection"
  srv_playersByMatch :: "string \<rightharpoonup> string set"

definition newGameServer :: "serverAuthority \<Rightarrow> gameServer" where
  "newGameServer sa =
     \<lparr>srv_serverAuthority = sa, srv_matchManager = \<lparr>matches = Map.empty\<rparr>, srv_matches = Map.empty,
      srv_players = Map.empty, srv_playersByMatch = Map.empty\<rparr>"

definition createNewMatch :: "gameServer \<Rightarrow> string \<Rightarrow> (string \<times> string) list \<Rightarrow> string \<Rightarrow> int \<Rightarrow> real \<Rightarrow> gameServer" where
  "createNewMatch srv matchId players uuid seed now =
     (let (matchState, mm1) = createMatch (srv_matchManager srv) players uuid seed now;
          mm2 = snd (startMatch mm1 (ms_matchId matchState) now)
      in srv\<lparr>srv_matchManager := mm2\<rparr>)"

definition updatePlayerStatus :: "gameServer \<Rightarrow> string \<Rightarrow> string \<Rightarrow> real \<Rightarrow> gameServer" where
  "updatePlayerStatus srv playerId status now =
     (case srv_players srv playerId of
        None \<Rightarrow> srv
      | Some conn \<Rightarrow>
          srv\<lparr>srv_players := (srv_players srv)(playerId \<mapsto> conn\<lparr>pc_status := status, pc_lastPing := now\<rparr>)\<rparr>)"

definition newConnection :: "string \<Rightarrow> string \<Rightarrow> string \<Rightarrow> real \<Rightarrow> worldPosition playerConnection" where
  "newConnection matchId playerId username now =
     \<lparr>pc_playerId = playerId, pc_username = username, pc_matchId = matchId, pc_connectedAt = now,
      pc_lastPing = now, pc_status = ''connecting'', pc_isAlive = True, pc_ping = 0,
      pc_gameState =
        \<lparr>gs_position = \<lparr>wp_world = (0, 0), wp_room = (3, 4)\<rparr>, gs_health = 100, gs_maxHealth = 100,
         gs_inCombat = False, gs_ready = False, gs_alive = True,
         gs_stats = Some \<lparr>st_attack = 10, st_defense = 5, st_speed = 5\<rparr>,
         gs_lastAttackTime = ms 0, gs_lastMoveTime = ms now,
         gs_lastValidPosition = \<lparr>wp_world = (0, 0), wp_room = (3, 4)\<rparr>,
         gs_kills = 0, gs_lastCombatTime = ms 0, gs_deathTime = None, gs_killedBy = None,
         gs_mana = None, gs_maxMana = None\<rparr>\<rparr>"

definition handleNewConnection ::
  "gameServer \<Rightarrow> string \<Rightarrow> string \<Rightarrow> string \<Rightarrow> real \<Rightarrow> string \<Rightarrow> int \<Rightarrow> gameServer" where
  "handleNewConnection srv matchId playerId username now uuid seed =
     (let playerConnection = newConnection matchId playerId username now;
          srv1 = srv\<lparr>srv_players := (srv_players srv)(playerId \<mapsto> playerConnection)\<rparr>;
          srv2 = (case srv_playersByMatch srv1 matchId of
                    None \<Rightarrow> srv1\<lparr>srv_playersByMatch := (srv_playersByMatch srv1)(matchId \<mapsto> {})\<rparr>
                  | Some _ \<Rightarrow> srv1);
          srv3 = (case srv_playersByMatch srv2 matchId of
                    None \<Rightarrow> srv2
                  | Some ids \<Rightarrow> srv2\<lparr>srv_playersByMatch := (srv_playersByMatch srv2)(matchId \<mapsto> insert playerId ids)\<rparr>);
          srv4 = (case matches (srv_matchManager srv3) matchId of
                    None \<Rightarrow> createNewMatch srv3 matchId [(playerId, username)] uuid seed now
                  | Some _ \<Rightarrow>
                      srv3\<lparr>srv_matchManager :=
                              snd (updatePlayerPosition (srv_matchManager srv3) matchId playerId
                                     (gs_position (pc_gameState playerConnection)) now)\<rparr>)
      in updatePlayerStatus srv4 playerId ''connected'' now)"

definition handlePlayerDisconnection :: "gameServer \<Rightarrow> string \<Rightarrow> gameServer" where
  "handlePlayerDisconnection srv playerId =
     (case srv_players srv playerId of
        None \<Rightarrow> srv
      | Some playerConnection \<Rightarrow>
         (let matchId = pc_matchId playerConnection;
              srv1 = srv\<lparr>srv_players := (srv_players srv)(playerId := None)\<rparr>
          in case srv_playersByMatch srv1 matchId of
               None \<Rightarrow> srv1
             | Some ids \<Rightarrow>
                (let ids' = ids - {playerId};
                     srv2 = srv1\<lparr>srv_playersByMatch := (srv_playersByMatch srv1)(matchId \<mapsto> ids')\<rparr>
                 in if ids' = {} then
                      srv2\<lparr>srv_playersByMatch := (srv_playersByMatch srv2)(matchId := None),
                           srv_matches := (srv_matches srv2)(matchId := None)\<rparr>
                    else srv2)))"

text \<open>The sessions attached to a match, and the registry invariant of the data model: the
  players registered for a match are among the sessions attached to it.\<close>

definition attachedTo :: "gameServer \<Rightarrow> string \<Rightarrow> string set" where
  "attachedTo srv matchId = {p. \<exists>c. srv_players srv p = Some c \<and> pc_matchId c = matchId}"

definition registryInv :: "gameServer \<Rightarrow> bool" where
  "registryInv srv \<longleftrightarrow> (\<forall>matchId ids. srv_playersByMatch srv matchId = Some ids \<longrightarrow> ids \<subseteq> attachedTo srv matchId)"

text \<open>One player id connecting to match \<open>A\<close>, then to match \<open>B\<close>, then released.\<close>

definition serverAfterA :: gameServer where
  "serverAfterA = handleNewConnection (newGameServer emptyAuthority) ''A'' ''p1'' ''alice'' 0 ''uuid-1'' 12345"

definition serverAfterB :: gameServer where
  "serverAfterB = handleNewConnection serverAfterA ''B'' ''p1'' ''alice'' 10 ''uuid-2'' 54321"

definition serverAfterRelease :: gameServer where
  "serverAfterRelease = handlePlayerDisconnection serverAfterB ''p1''"

section \<open>Proofs: world generation\<close>

lemma access_info_agree: "accessible (getTerrainAccessInfo t) = isTerrainAccessible t"
  by (simp add: getTerrainAccessInfo_def isTerrainAccessible_def split: option.split)

lemma terrainCell_border:
  "x = 0 \<or> x = roomSize - 1 \<or> y = 0 \<or> y = roomSize - 1 \<Longrightarrow> terrainCell rt seed x y = Wall"
  by (simp add: terrainCell_def)

lemma generateRoomTerrain_gridOk: "gridOk (generateRoomTerrain rt seed)"
  unfolding gridOk_def generateRoomTerrain_def
  by (auto simp: terrainCell_border)

lemma getTerrainType_match_result:
  assumes "mapFixed m" "cacheConsistent m"
  shows "fst (getTerrainType_match m x y) = deriveTerrain (ms_seed m) (x, y)"
proof (cases "md_terrainCache (ms_map m) (x, y)")
  case None
  with assms(1) show ?thesis
    by (simp add: getTerrainType_match_def mapFixed_def deriveTerrain_def Let_def split: option.splits)
next
  case (Some t)
  with assms(2) have "t = deriveTerrain (ms_seed m) (x, y)"
    by (simp add: cacheConsistent_def)
  with Some show ?thesis
    by (simp add: getTerrainType_match_def Let_def)
qed

lemma getTerrainType_match_frame:
  "ms_seed (snd (getTerrainType_match m x y)) = ms_seed m"
  "ms_rooms (snd (getTerrainType_match m x y)) = ms_rooms m"
  "ms_players (snd (getTerrainType_match m x y)) = ms_players m"
  "md_seed (ms_map (snd (getTerrainType_match m x y))) = md_seed (ms_map m)"
  "md_landmarks (ms_map (snd (getTerrainType_match m x y))) = md_landmarks (ms_map m)"
  by (simp_all add: getTerrainType_match_def Let_def split: option.splits)

lemma getTerrainType_match_cache:
  "md_terrainCache (ms_map (snd (getTerrainType_match m x y))) =
     (case md_terrainCache (ms_map m) (x, y) of
        Some t \<Rightarrow> md_terrainCache (ms_map m)
      | None \<Rightarrow> (md_terrainCache (ms_map m))((x, y) \<mapsto> fst (getTerrainType_match m x y)))"
  by (simp add: getTerrainType_match_def Let_def split: option.splits)

lemma getTerrainType_match_inv:
  assumes "matchInv m"
  shows "matchInv (snd (getTerrainType_match m x y))"
proof -
  from assms have mf: "mapFixed m" and cc: "cacheConsistent m" and ro: "roomsOk m"
    by (simp_all add: matchInv_def)
  have res: "fst (getTerrainType_match m x y) = deriveTerrain (ms_seed m) (x, y)"
    by (rule getTerrainType_match_result [OF mf cc])
  have "mapFixed (snd (getTerrainType_match m x y))"
    using mf by (simp add: mapFixed_def getTerrainType_match_frame)
  moreover have "cacheConsistent (snd (getTerrainType_match m x y))"
    using cc res
    by (auto simp: cacheConsistent_def getTerrainType_match_frame getTerrainType_match_cache
             split: option.splits if_splits)
  moreover have "roomsOk (snd (getTerrainType_match m x y))"
    using ro by (simp add: roomsOk_def getTerrainType_match_frame)
  ultimately show ?thesis by (simp add: matchInv_def)
qed


lemma matchInv_cong:
  assumes "ms_seed m' = ms_seed m" "ms_map m' = ms_map m" "ms_rooms m' = ms_rooms m"
  shows "matchInv m' = matchInv m"
  using assms by (simp add: matchInv_def mapFixed_def cacheConsistent_def roomsOk_def)

lemma matchInv_update [simp]:
  "matchInv (m\<lparr>ms_status := s\<rparr>) = matchInv m"
  "matchInv (m\<lparr>ms_startTime := t\<rparr>) = matchInv m"
  "matchInv (m\<lparr>ms_endTime := e\<rparr>) = matchInv m"
  "matchInv (m\<lparr>ms_players := ps\<rparr>) = matchInv m"
  by (simp_all add: matchInv_def mapFixed_def cacheConsistent_def roomsOk_def)

lemma generateRoomData_match_cached:
  "ms_rooms m (x, y) = Some r \<Longrightarrow> generateRoomData_match m x y = (Some r, m)"
  by (simp add: generateRoomData_match_def)

lemma generateRoomData_match_blocked:
  assumes "ms_rooms m (x, y) = None"
    and "\<not> isTerrainAccessible (fst (getTerrainType_match m x y))"
  shows "generateRoomData_match m x y = (None, snd (getTerrainType_match m x y))"
  using assms
  by (simp add: generateRoomData_match_def Let_def access_info_agree case_prod_beta)

lemma generateRoomData_match_fresh:
  assumes "ms_rooms m (x, y) = None"
    and "isTerrainAccessible (fst (getTerrainType_match m x y))"
  shows "\<exists>r. generateRoomData_match m x y =
             (Some r, (snd (getTerrainType_match m x y))
                        \<lparr>ms_rooms := (ms_rooms m)((x, y) \<mapsto> r)\<rparr>)
           \<and> gridOk (r_terrain r) \<and> r_size r = (20, 20)"
  using assms
  by (simp add: generateRoomData_match_def Let_def access_info_agree generateRoomTerrain_gridOk
                getTerrainType_match_frame case_prod_beta)

lemma generateRoomData_match_inv:
  assumes "matchInv m"
  shows "matchInv (snd (generateRoomData_match m x y))"
proof (cases "ms_rooms m (x, y)")
  case (Some r)
  with assms show ?thesis by (simp add: generateRoomData_match_cached)
next
  case None
  let ?m1 = "snd (getTerrainType_match m x y)"
  have inv1: "matchInv ?m1" by (rule getTerrainType_match_inv [OF assms])
  have res: "fst (getTerrainType_match m x y) = deriveTerrain (ms_seed m) (x, y)"
    using assms by (simp add: matchInv_def getTerrainType_match_result)
  show ?thesis
  proof (cases "isTerrainAccessible (fst (getTerrainType_match m x y))")
    case False
    with None inv1 show ?thesis by (simp add: generateRoomData_match_blocked)
  next
    case True
    from generateRoomData_match_fresh [OF None True] obtain r where
      eq: "generateRoomData_match m x y = (Some r, ?m1\<lparr>ms_rooms := (ms_rooms m)((x, y) \<mapsto> r)\<rparr>)"
      and ok: "gridOk (r_terrain r)" "r_size r = (20, 20)" by blast
    have "roomsOk (?m1\<lparr>ms_rooms := (ms_rooms m)((x, y) \<mapsto> r)\<rparr>)"
      using inv1 ok True res
      by (auto simp: roomsOk_def matchInv_def getTerrainType_match_frame)
    with inv1 show ?thesis
      by (simp add: eq matchInv_def mapFixed_def cacheConsistent_def)
  qed
qed

lemma generateRoomData_match_room:
  assumes "matchInv m" "isTerrainAccessible (deriveTerrain (ms_seed m) (x, y))"
  shows "\<exists>r. fst (generateRoomData_match m x y) = Some r \<and> gridOk (r_terrain r) \<and> r_size r = (20, 20)"
proof (cases "ms_rooms m (x, y)")
  case (Some r)
  with assms(1) show ?thesis
    by (auto simp: generateRoomData_match_cached matchInv_def roomsOk_def)
next
  case None
  have "fst (getTerrainType_match m x y) = deriveTerrain (ms_seed m) (x, y)"
    using assms(1) by (simp add: matchInv_def getTerrainType_match_result)
  with assms(2) have "isTerrainAccessible (fst (getTerrainType_match m x y))" by simp
  from generateRoomData_match_fresh [OF None this] show ?thesis by auto
qed

lemma generateRoomData_match_none:
  assumes "matchInv m" "\<not> isTerrainAccessible (deriveTerrain (ms_seed m) (x, y))"
  shows "fst (generateRoomData_match m x y) = None \<and>
         ms_rooms (snd (generateRoomData_match m x y)) = ms_rooms m"
proof (cases "ms_rooms m (x, y)")
  case (Some r)
  with assms show ?thesis by (auto simp: matchInv_def roomsOk_def)
next
  case None
  have "fst (getTerrainType_match m x y) = deriveTerrain (ms_seed m) (x, y)"
    using assms(1) by (simp add: matchInv_def getTerrainType_match_result)
  with assms(2) have "\<not> isTerrainAccessible (fst (getTerrainType_match m x y))" by simp
  from generateRoomData_match_blocked [OF None this] show ?thesis
    by (simp add: getTerrainType_match_frame)
qed

lemma managerInv_upd:
  "managerInv mm \<Longrightarrow> matchInv m \<Longrightarrow> managerInv (mm\<lparr>matches := (matches mm)(matchId \<mapsto> m)\<rparr>)"
  by (simp add: managerInv_def)

lemma createMatch_inv: "managerInv mm \<Longrightarrow> managerInv (snd (createMatch mm players matchId matchSeed now))"
  by (simp add: createMatch_def Let_def managerInv_def matchInv_def mapFixed_def cacheConsistent_def
                roomsOk_def generateServerMap_def)

lemma startMatch_inv: "managerInv mm \<Longrightarrow> managerInv (snd (startMatch mm matchId now))"
  by (auto simp: startMatch_def managerInv_def split: option.splits)

lemma endMatch_mark_inv: "managerInv mm \<Longrightarrow> managerInv (endMatch_mark mm matchId now)"
  by (auto simp: endMatch_mark_def managerInv_def split: option.splits)

lemma removeMatch_inv: "managerInv mm \<Longrightarrow> managerInv (removeMatch mm matchId)"
  by (auto simp: removeMatch_def managerInv_def)

lemma getTerrainType_inv: "managerInv mm \<Longrightarrow> managerInv (snd (getTerrainType mm matchId x y))"
  by (cases "matches mm matchId")
     (simp_all add: getTerrainType_def case_prod_beta managerInv_upd getTerrainType_match_inv managerInv_def)


lemma generateRoomData_inv: "managerInv mm \<Longrightarrow> managerInv (snd (generateRoomData mm matchId x y))"
  by (cases "matches mm matchId")
     (simp_all add: generateRoomData_def case_prod_beta managerInv_upd generateRoomData_match_inv managerInv_def)

lemma room_flags_inv:
  assumes "matchInv m" "ms_rooms m key = Some r"
  shows "matchInv (m\<lparr>ms_rooms := (ms_rooms m)(key \<mapsto> r\<lparr>r_discovered := d, r_exploredBy := e\<rparr>)\<rparr>)"
  using assms
  by (auto simp: matchInv_def mapFixed_def cacheConsistent_def roomsOk_def)

lemma generateRoomData_match_stored:
  assumes "fst (generateRoomData_match m x y) = Some r"
  shows "ms_rooms (snd (generateRoomData_match m x y)) (x, y) = Some r"
proof (cases "ms_rooms m (x, y)")
  case (Some r')
  with assms show ?thesis by (simp add: generateRoomData_match_cached)
next
  case None
  show ?thesis
  proof (cases "isTerrainAccessible (fst (getTerrainType_match m x y))")
    case False
    from generateRoomData_match_blocked [OF None False] assms show ?thesis by simp
  next
    case True
    from generateRoomData_match_fresh [OF None True] assms show ?thesis by auto
  qed
qed

lemma updatePlayerPosition_inv:
  assumes "managerInv mm"
  shows "managerInv (snd (updatePlayerPosition mm matchId playerId position now))"
proof (cases "matches mm matchId")
  case None
  with assms show ?thesis by (simp add: updatePlayerPosition_def)
next
  case (Some m)
  with assms have inv: "matchInv m" by (simp add: managerInv_def)
  show ?thesis
  proof (cases "map_of (ms_players m) playerId")
    case None
    with Some assms show ?thesis by (simp add: updatePlayerPosition_def)
  next
    case (Some player)
    show ?thesis
    proof (cases "wp_world position \<in> ps_roomsExplored player")
      case True
      with \<open>matches mm matchId = Some m\<close> Some assms inv show ?thesis
        by (simp add: updatePlayerPosition_def Let_def managerInv_upd)
    next
      case False
      define m1 where "m1 = m\<lparr>ms_players := AList.update playerId
          (player\<lparr>ps_position := position, ps_lastActivity := now,
                  ps_roomsExplored := insert (wp_world position) (ps_roomsExplored player)\<rparr>) (ms_players m)\<rparr>"
      define g where "g = generateRoomData_match m1 (fst (wp_world position)) (snd (wp_world position))"
      have inv1: "matchInv m1" using inv by (simp add: m1_def)
      have inv2: "matchInv (snd g)" unfolding g_def by (rule generateRoomData_match_inv [OF inv1])
      have inv3: "matchInv (case fst g of None \<Rightarrow> snd g
                   | Some r \<Rightarrow> (snd g)\<lparr>ms_rooms := (ms_rooms (snd g))(wp_world position \<mapsto>
                        r\<lparr>r_discovered := True, r_exploredBy := insert playerId (r_exploredBy r)\<rparr>)\<rparr>)"
      proof (cases "fst g")
        case None
        with inv2 show ?thesis by simp
      next
        case (Some r)
        then have "ms_rooms (snd g) (wp_world position) = Some r"
          unfolding g_def using generateRoomData_match_stored [of m1 "fst (wp_world position)" "snd (wp_world position)" r]
          by simp
        from room_flags_inv [OF inv2 this] Some show ?thesis by simp
      qed
      from False \<open>matches mm matchId = Some m\<close> \<open>map_of (ms_players m) playerId = Some player\<close>
      have "snd (updatePlayerPosition mm matchId playerId position now) =
            mm\<lparr>matches := (matches mm)(matchId \<mapsto>
               (case fst g of None \<Rightarrow> snd g
                   | Some r \<Rightarrow> (snd g)\<lparr>ms_rooms := (ms_rooms (snd g))(wp_world position \<mapsto>
                        r\<lparr>r_discovered := True, r_exploredBy := insert playerId (r_exploredBy r)\<rparr>)\<rparr>))\<rparr>"
        unfolding g_def m1_def by (simp add: updatePlayerPosition_def Let_def case_prod_beta)
      with inv3 assms show ?thesis by (simp add: managerInv_upd)
    qed
  qed
qed

lemma recordPlayerKill_inv: "managerInv mm \<Longrightarrow> managerInv (snd (recordPlayerKill mm matchId killerId victimId now))"
  by (auto simp: recordPlayerKill_def Let_def managerInv_def split: option.splits)

lemma recordItemCollection_inv: "managerInv mm \<Longrightarrow> managerInv (snd (recordItemCollection mm matchId playerId quantity))"
  by (auto simp: recordItemCollection_def managerInv_def split: option.splits)

lemma recordPlayerDamage_inv: "managerInv mm \<Longrightarrow> managerInv (snd (recordPlayerDamage mm matchId attackerId targetId damage))"
  by (auto simp: recordPlayerDamage_def Let_def managerInv_def split: option.splits)

lemma reachable_managerInv: "reachable mm \<Longrightarrow> managerInv mm"
proof (induction rule: reachable.induct)
  case r_init
  show ?case by (simp add: managerInv_def)
qed (simp_all add: createMatch_inv startMatch_inv endMatch_mark_inv removeMatch_inv getTerrainType_inv
       generateRoomData_inv updatePlayerPosition_inv recordPlayerKill_inv recordItemCollection_inv
       recordPlayerDamage_inv)

lemma reachable_matchInv: "reachable mm \<Longrightarrow> matches mm matchId = Some m \<Longrightarrow> matchInv m"
  using reachable_managerInv by (simp add: managerInv_def)

lemma getTerrainType_on_match:
  "matches mm matchId = Some m \<Longrightarrow>
     fst (getTerrainType mm matchId x y) = fst (getTerrainType_match m x y) \<and>
     matches (snd (getTerrainType mm matchId x y)) = (matches mm)(matchId \<mapsto> snd (getTerrainType_match m x y))"
  by (simp add: getTerrainType_def case_prod_beta)

lemma getTerrainType_derived:
  assumes "matchInv m" "matches mm matchId = Some m"
  shows "fst (getTerrainType mm matchId x y) = deriveTerrain (ms_seed m) (x, y)"
  using assms by (simp add: getTerrainType_on_match getTerrainType_match_result matchInv_def)

lemma clearTerrainCache_match:
  "matches mm matchId = Some m \<Longrightarrow>
     matches (clearTerrainCache mm matchId) matchId = Some (m\<lparr>ms_map := (ms_map m)\<lparr>md_terrainCache := Map.empty\<rparr>\<rparr>)"
  by (simp add: clearTerrainCache_def)

lemma cleared_matchInv:
  "matchInv m \<Longrightarrow> matchInv (m\<lparr>ms_map := (ms_map m)\<lparr>md_terrainCache := Map.empty\<rparr>\<rparr>)"
  by (simp add: matchInv_def mapFixed_def cacheConsistent_def roomsOk_def)

text \<open>
  C1. In every reachable state and for every coordinate of an existing match,
  \<open>getTerrainType\<close> returns the terrain derived from the match seed alone (landmark table
  first, hash otherwise); so a second call in the state left by the first, a call after
  the terrain cache of the match has been evicted, and a call in any other reachable
  state of a match with the same seed all return the same terrain, and a cached value is
  always the derived one.
\<close>

theorem getTerrainType_pure:
  assumes "reachable mm" and "matches mm matchId = Some match"
  shows "fst (getTerrainType mm matchId x y) = deriveTerrain (ms_seed match) (x, y)
       \<and> fst (getTerrainType (snd (getTerrainType mm matchId x y)) matchId x y)
           = fst (getTerrainType mm matchId x y)
       \<and> fst (getTerrainType (clearTerrainCache mm matchId) matchId x y)
           = fst (getTerrainType mm matchId x y)
       \<and> (\<forall>t. md_terrainCache (ms_map match) (x, y) = Some t \<longrightarrow> t = deriveTerrain (ms_seed match) (x, y))
       \<and> (\<forall>mm2 match2. reachable mm2 \<and> matches mm2 matchId = Some match2 \<and> ms_seed match2 = ms_seed match
             \<longrightarrow> fst (getTerrainType mm2 matchId x y) = fst (getTerrainType mm matchId x y))"
proof -
  have inv: "matchInv match" by (rule reachable_matchInv [OF assms])
  have first: "fst (getTerrainType mm matchId x y) = deriveTerrain (ms_seed match) (x, y)"
    by (rule getTerrainType_derived [OF inv assms(2)])
  let ?m1 = "snd (getTerrainType_match match x y)"
  have "matches (snd (getTerrainType mm matchId x y)) matchId = Some ?m1"
    using assms(2) by (simp add: getTerrainType_on_match)
  moreover have "matchInv ?m1" by (rule getTerrainType_match_inv [OF inv])
  ultimately have "fst (getTerrainType (snd (getTerrainType mm matchId x y)) matchId x y)
                     = deriveTerrain (ms_seed ?m1) (x, y)"
    by (simp add: getTerrainType_derived)
  then have second: "fst (getTerrainType (snd (getTerrainType mm matchId x y)) matchId x y)
                     = fst (getTerrainType mm matchId x y)"
    by (simp add: first getTerrainType_match_frame)
  have "fst (getTerrainType (clearTerrainCache mm matchId) matchId x y)
          = deriveTerrain (ms_seed (match\<lparr>ms_map := (ms_map match)\<lparr>md_terrainCache := Map.empty\<rparr>\<rparr>)) (x, y)"
    by (rule getTerrainType_derived [OF cleared_matchInv [OF inv] clearTerrainCache_match [OF assms(2)]])
  then have third: "fst (getTerrainType (clearTerrainCache mm matchId) matchId x y)
                      = fst (getTerrainType mm matchId x y)"
    by (simp add: first)
  have fourth: "\<forall>t. md_terrainCache (ms_map match) (x, y) = Some t \<longrightarrow> t = deriveTerrain (ms_seed match) (x, y)"
    using inv by (simp add: matchInv_def cacheConsistent_def)
  have fifth: "\<forall>mm2 match2. reachable mm2 \<and> matches mm2 matchId = Some match2 \<and> ms_seed match2 = ms_seed match
             \<longrightarrow> fst (getTerrainType mm2 matchId x y) = fst (getTerrainType mm matchId x y)"
    using first by (auto simp: getTerrainType_derived dest: reachable_matchInv)
  from first second third fourth fifth show ?thesis by blast
qed

lemma exampleManager_reachable: "reachable exampleManager"
  unfolding exampleManager_def by (rule r_createMatch) (rule r_init)

lemma exampleManager_match:
  "matches exampleManager ''m1'' = Some (fst (createMatch \<lparr>matches = Map.empty\<rparr> [(''p1'', ''alice'')] ''m1'' 12345 0))"
  by (simp add: exampleManager_def createMatch_def Let_def)

lemma exampleManager_seed:
  "ms_seed (fst (createMatch \<lparr>matches = Map.empty\<rparr> [(''p1'', ''alice'')] ''m1'' 12345 0)) = 12345"
  by (simp add: createMatch_def Let_def)

lemma derive_3_7: "deriveTerrain 12345 (3, 7) = ''mountain''"
  by (simp add: deriveTerrain_def generateServerMap_def landmarkList_def generateTerrainType_def
                hashCoords_def shl5_def jsRem_def)

lemma derive_0_0: "deriveTerrain 12345 (0, 0) = ''town''"
  by (simp add: deriveTerrain_def generateServerMap_def landmarkList_def)

theorem getTerrainType_pure_witness:
  "reachable exampleManager
   \<and> fst (getTerrainType exampleManager ''m1'' 3 7) = ''mountain''
   \<and> fst (getTerrainType (snd (getTerrainType exampleManager ''m1'' 3 7)) ''m1'' 3 7) = ''mountain''
   \<and> fst (getTerrainType (clearTerrainCache exampleManager ''m1'') ''m1'' 3 7) = ''mountain''"
  using getTerrainType_pure [OF exampleManager_reachable exampleManager_match, of 3 7]
  by (simp add: exampleManager_reachable exampleManager_seed derive_3_7)

lemma generateRoomData_on_match:
  "matches mm matchId = Some m \<Longrightarrow>
     fst (generateRoomData mm matchId x y) = fst (generateRoomData_match m x y) \<and>
     matches (snd (generateRoomData mm matchId x y)) = (matches mm)(matchId \<mapsto> snd (generateRoomData_match m x y))"
  by (simp add: generateRoomData_def case_prod_beta)

text \<open>
  C4. In every reachable state and for every coordinate of an existing match: if the
  terrain type of the coordinate is accessible, \<open>generateRoomData\<close> returns a room whose
  terrain grid is 20 by 20 with walls on all border cells; if it is not accessible,
  \<open>generateRoomData\<close> returns null and the room cache of every match is unchanged; and a
  room cached under a coordinate is always a room of accessible terrain.
\<close>

theorem generateRoomData_by_terrain:
  assumes "reachable mm" and "matches mm matchId = Some match"
  shows "(isTerrainAccessible (fst (getTerrainType mm matchId x y)) \<longrightarrow>
            (\<exists>r. fst (generateRoomData mm matchId x y) = Some r \<and> gridOk (r_terrain r) \<and> r_size r = (20, 20)))
       \<and> (\<not> isTerrainAccessible (fst (getTerrainType mm matchId x y)) \<longrightarrow>
            fst (generateRoomData mm matchId x y) = None \<and>
            (\<forall>other. map_option ms_rooms (matches (snd (generateRoomData mm matchId x y)) other)
                      = map_option ms_rooms (matches mm other)))
       \<and> (\<forall>r. ms_rooms match (x, y) = Some r \<longrightarrow> isTerrainAccessible (fst (getTerrainType mm matchId x y)))"
proof -
  have inv: "matchInv match" by (rule reachable_matchInv [OF assms])
  have terr: "fst (getTerrainType mm matchId x y) = deriveTerrain (ms_seed match) (x, y)"
    by (rule getTerrainType_derived [OF inv assms(2)])
  have on: "fst (generateRoomData mm matchId x y) = fst (generateRoomData_match match x y)"
    "matches (snd (generateRoomData mm matchId x y)) = (matches mm)(matchId \<mapsto> snd (generateRoomData_match match x y))"
    using generateRoomData_on_match [OF assms(2)] by simp_all
  have a: "isTerrainAccessible (fst (getTerrainType mm matchId x y)) \<longrightarrow>
            (\<exists>r. fst (generateRoomData mm matchId x y) = Some r \<and> gridOk (r_terrain r) \<and> r_size r = (20, 20))"
    using generateRoomData_match_room [OF inv] by (simp add: terr on)
  have b: "\<not> isTerrainAccessible (fst (getTerrainType mm matchId x y)) \<longrightarrow>
            fst (generateRoomData mm matchId x y) = None \<and>
            (\<forall>other. map_option ms_rooms (matches (snd (generateRoomData mm matchId x y)) other)
                      = map_option ms_rooms (matches mm other))"
    using generateRoomData_match_none [OF inv, of x y] assms(2) by (simp add: terr on)
  have c: "\<forall>r. ms_rooms match (x, y) = Some r \<longrightarrow> isTerrainAccessible (fst (getTerrainType mm matchId x y))"
    using inv by (simp add: terr matchInv_def roomsOk_def)
  from a b c show ?thesis by blast
qed

theorem generateRoomData_by_terrain_witness:
  "reachable exampleManager
   \<and> isTerrainAccessible (fst (getTerrainType exampleManager ''m1'' 0 0))
   \<and> (\<exists>r. fst (generateRoomData exampleManager ''m1'' 0 0) = Some r \<and> gridOk (r_terrain r) \<and> r_size r = (20, 20))
   \<and> \<not> isTerrainAccessible (fst (getTerrainType exampleManager ''m1'' 3 7))
   \<and> fst (generateRoomData exampleManager ''m1'' 3 7) = None
   \<and> map_option ms_rooms (matches (snd (generateRoomData exampleManager ''m1'' 3 7)) ''m1'')
       = map_option ms_rooms (matches exampleManager ''m1'')"
proof -
  have t0: "fst (getTerrainType exampleManager ''m1'' 0 0) = ''town''"
    using getTerrainType_derived [OF reachable_matchInv [OF exampleManager_reachable exampleManager_match] exampleManager_match, of 0 0]
    by (simp add: exampleManager_seed derive_0_0)
  have t1: "fst (getTerrainType exampleManager ''m1'' 3 7) = ''mountain''"
    using getTerrainType_derived [OF reachable_matchInv [OF exampleManager_reachable exampleManager_match] exampleManager_match, of 3 7]
    by (simp add: exampleManager_seed derive_3_7)
  have a0: "isTerrainAccessible ''town''" by (simp add: isTerrainAccessible_def TERRAIN_ACCESS_def)
  have a1: "\<not> isTerrainAccessible ''mountain''" by (simp add: isTerrainAccessible_def TERRAIN_ACCESS_def)
  from generateRoomData_by_terrain [OF exampleManager_reachable exampleManager_match, of 0 0]
       generateRoomData_by_terrain [OF exampleManager_reachable exampleManager_match, of 3 7]
  show ?thesis
    by (simp add: t0 t1 a0 a1 exampleManager_reachable)
qed

section \<open>Proofs: movement\<close>

lemma maxMovementDistance_eq:
  "calculateMaxMovementDistance (Fin d) = Fin (d / 100)"
  "calculateMaxMovementDistance PInf = PInf"
  "calculateMaxMovementDistance NInf = NInf"
  "calculateMaxMovementDistance NaN = NaN"
  by (simp_all add: calculateMaxMovementDistance_def maxMovementSpeed_def maxMovementSpeedMultiplier_def)

lemma calculateDistance_nonneg: "0 \<le> calculateDistance a b"
  by (simp add: calculateDistance_def Let_def)

lemma calculateDistance_same: "calculateDistance a a = 0"
  by (simp add: calculateDistance_def)

lemma flag_playerActions [simp]:
  "playerActions (snd (flagSuspiciousActivity sa playerId vt d now)) = playerActions sa"
  by (simp add: flagSuspiciousActivity_def Let_def)

lemma validateMovement_too_far:
  assumes "jsGreater (Fin (calculateDistance fromPos toPos))
             (calculateMaxMovementDistance (jsSub (toNumber timestamp) (toNumber (lastMoveTimeOr playerData timestamp))))"
  shows "validateMovement sa playerId fromPos toPos timestamp playerData now =
           (if isPositionInBounds toPos then
              (Some (lastValidPositionOr playerData fromPos),
               snd (flagSuspiciousActivity sa playerId ''SPEED_HACK''
                      (SpeedHack (calculateDistance fromPos toPos)
                         (calculateMaxMovementDistance (jsSub (toNumber timestamp) (toNumber (lastMoveTimeOr playerData timestamp))))
                         (jsSub (toNumber timestamp) (toNumber (lastMoveTimeOr playerData timestamp)))) now))
            else (None, snd (flagSuspiciousActivity sa playerId ''OUT_OF_BOUNDS'' (OutOfBounds toPos) now)))"
  using assms by (simp add: validateMovement_def Let_def)

lemma validateMovement_within:
  assumes "isPositionInBounds toPos"
    and "\<not> jsGreater (Fin (calculateDistance fromPos toPos))
             (calculateMaxMovementDistance (jsSub (toNumber timestamp) (toNumber (lastMoveTimeOr playerData timestamp))))"
  shows "fst (validateMovement sa playerId fromPos toPos timestamp playerData now) = Some toPos"
  using assms by (simp add: validateMovement_def Let_def hasObstacleCollision_def)

text \<open>
  C2, as the code has it. When the distance of a request exceeds the speed bound
  (maximum speed times the elapsed seconds times the lag tolerance, the elapsed time counted
  from \<open>playerData.lastMoveTime\<close>, or from the timestamp itself when that is missing or
  falsy), \<open>validateMovement\<close>
  returns null for a target outside the world bounds, and otherwise the last valid position
  of the player data, falling back to the from-position; the move is not entered in the
  action history; and the answer is the requested position only if the requested position
  is that fall-back position itself.
\<close>

theorem validateMovement_speed_bound:
  assumes "jsGreater (Fin (calculateDistance fromPos toPos))
             (calculateMaxMovementDistance (jsSub (toNumber timestamp) (toNumber (lastMoveTimeOr playerData timestamp))))"
  shows "fst (validateMovement sa playerId fromPos toPos timestamp playerData now) =
           (if isPositionInBounds toPos then Some (lastValidPositionOr playerData fromPos) else None)
       \<and> playerActions (snd (validateMovement sa playerId fromPos toPos timestamp playerData now)) = playerActions sa
       \<and> (toPos \<noteq> lastValidPositionOr playerData fromPos \<longrightarrow>
            fst (validateMovement sa playerId fromPos toPos timestamp playerData now) \<noteq> Some toPos)"
  by (simp add: validateMovement_too_far [OF assms])

lemma sqrt_10000: "sqrt (10000 :: real) = 100"
  by (rule real_sqrt_unique) simp_all

lemma sqrt_4000000: "sqrt (4000000 :: real) = 2000"
  by (rule real_sqrt_unique) simp_all

theorem validateMovement_speed_bound_witness:
  "jsGreater (Fin (calculateDistance \<lparr>pos_x = 0, pos_y = 0\<rparr> \<lparr>pos_x = 100, pos_y = 0\<rparr>))
     (calculateMaxMovementDistance (jsSub (toNumber (ms 2000)) (toNumber (lastMoveTimeOr movedAt1000 (ms 2000)))))
   \<and> fst (validateMovement emptyAuthority ''p1'' \<lparr>pos_x = 0, pos_y = 0\<rparr> \<lparr>pos_x = 100, pos_y = 0\<rparr> (ms 2000) movedAt1000 2000)
       = Some \<lparr>pos_x = 10, pos_y = 10\<rparr>"
proof -
  have far: "jsGreater (Fin (calculateDistance \<lparr>pos_x = 0, pos_y = 0\<rparr> \<lparr>pos_x = 100, pos_y = 0\<rparr>))
     (calculateMaxMovementDistance (jsSub (toNumber (ms 2000)) (toNumber (lastMoveTimeOr movedAt1000 (ms 2000)))))"
    by (simp add: calculateDistance_def maxMovementDistance_eq lastMoveTimeOr_def movedAt1000_def sqrt_10000)
  from validateMovement_speed_bound [OF far, of emptyAuthority "''p1''" 2000] far
  show ?thesis
    by (simp add: isPositionInBounds_def worldBounds_def lastValidPositionOr_def movedAt1000_def)
qed

text \<open>
  C2 as stated fails twice. A far target outside the world bounds gets null, not the last
  valid position; and a request to stay at the last valid position, stamped earlier than
  the last move, exceeds the (negative) bound and is answered with that very position, which
  is the requested one.
\<close>

theorem validateMovement_speed_bound_counterexample:
  "jsGreater (Fin (calculateDistance \<lparr>pos_x = 0, pos_y = 0\<rparr> \<lparr>pos_x = 2000, pos_y = 0\<rparr>))
     (calculateMaxMovementDistance (jsSub (toNumber (ms 2000)) (toNumber (lastMoveTimeOr movedAt1000 (ms 2000)))))
   \<and> fst (validateMovement emptyAuthority ''p1'' \<lparr>pos_x = 0, pos_y = 0\<rparr> \<lparr>pos_x = 2000, pos_y = 0\<rparr> (ms 2000) movedAt1000 2000)
       = None
   \<and> jsGreater (Fin (calculateDistance \<lparr>pos_x = 10, pos_y = 10\<rparr> \<lparr>pos_x = 10, pos_y = 10\<rparr>))
     (calculateMaxMovementDistance (jsSub (toNumber (ms 500)) (toNumber (lastMoveTimeOr movedAt1000 (ms 500)))))
   \<and> fst (validateMovement emptyAuthority ''p1'' \<lparr>pos_x = 10, pos_y = 10\<rparr> \<lparr>pos_x = 10, pos_y = 10\<rparr> (ms 500) movedAt1000 500)
       = Some \<lparr>pos_x = 10, pos_y = 10\<rparr>"
  by (simp add: validateMovement_def Let_def calculateDistance_def maxMovementDistance_eq lastMoveTimeOr_def
                lastValidPositionOr_def movedAt1000_def isPositionInBounds_def worldBounds_def sqrt_4000000)

text \<open>
  The speed bound under a timestamp that is the positive infinity or reads as \<open>NaN\<close>:
  the bound is then the positive infinity or \<open>NaN\<close>, and no distance is greater.
\<close>

lemma unbounded_timestamp:
  assumes "toNumber timestamp = PInf \<or> toNumber timestamp = NaN"
  shows "\<not> jsGreater (Fin d)
             (calculateMaxMovementDistance (jsSub (toNumber timestamp) (toNumber (lastMoveTimeOr playerData timestamp))))"
  using assms
  by (cases "toNumber (lastMoveTimeOr playerData timestamp)") (auto simp: maxMovementDistance_eq)

text \<open>
  C10. For every from-position and every target inside the world bounds, however far
  apart, and whatever the player data and the state of the authority, there is a timestamp
  with which \<open>validateMovement\<close> accepts the move and returns the target: the timestamp
  \<open>1e999\<close>, which parses to the positive infinity, is one, and so is every timestamp that
  reads as \<open>NaN\<close> in the subtraction, such as a string. The answer for a target inside the
  bounds is decided by the distance and the bound computed from the timestamp of the
  request and the last move time of the player data alone; the server clock does not enter
  it, and the collision check never reports a collision.
\<close>

theorem validateMovement_late_timestamp:
  assumes "isPositionInBounds toPos"
  shows "(\<exists>timestamp. fst (validateMovement sa playerId fromPos toPos timestamp playerData now) = Some toPos)
       \<and> fst (validateMovement sa playerId fromPos toPos (Number PInf) playerData now) = Some toPos
       \<and> (\<forall>timestamp. toNumber timestamp = NaN \<longrightarrow>
             fst (validateMovement sa playerId fromPos toPos timestamp playerData now) = Some toPos)
       \<and> (\<forall>timestamp.
             fst (validateMovement sa playerId fromPos toPos timestamp playerData now) =
               (if jsGreater (Fin (calculateDistance fromPos toPos))
                     (calculateMaxMovementDistance
                        (jsSub (toNumber timestamp) (toNumber (lastMoveTimeOr playerData timestamp))))
                then Some (lastValidPositionOr playerData fromPos) else Some toPos))
       \<and> \<not> hasObstacleCollision fromPos toPos"
proof -
  have inf: "fst (validateMovement sa playerId fromPos toPos (Number PInf) playerData now) = Some toPos"
    using assms by (rule validateMovement_within) (rule unbounded_timestamp, simp)
  have nan: "fst (validateMovement sa playerId fromPos toPos timestamp playerData now) = Some toPos"
    if "toNumber timestamp = NaN" for timestamp
    using assms by (rule validateMovement_within) (rule unbounded_timestamp, simp add: that)
  have dec: "fst (validateMovement sa playerId fromPos toPos timestamp playerData now) =
               (if jsGreater (Fin (calculateDistance fromPos toPos))
                     (calculateMaxMovementDistance
                        (jsSub (toNumber timestamp) (toNumber (lastMoveTimeOr playerData timestamp))))
                then Some (lastValidPositionOr playerData fromPos) else Some toPos)" for timestamp
    using assms by (simp add: validateMovement_def Let_def hasObstacleCollision_def)
  have col: "\<not> hasObstacleCollision fromPos toPos"
    by (simp add: hasObstacleCollision_def)
  from inf have ex: "\<exists>timestamp. fst (validateMovement sa playerId fromPos toPos timestamp playerData now) = Some toPos"
    by (rule exI)
  from ex inf nan dec col show ?thesis by blast
qed

theorem validateMovement_late_timestamp_witness:
  "isPositionInBounds \<lparr>pos_x = 1000, pos_y = 1000\<rparr>
   \<and> fst (validateMovement emptyAuthority ''p1'' \<lparr>pos_x = 0, pos_y = 0\<rparr> \<lparr>pos_x = 1000, pos_y = 1000\<rparr>
            (Number PInf) noMoveRecorded 0) = Some \<lparr>pos_x = 1000, pos_y = 1000\<rparr>"
proof -
  have b: "isPositionInBounds \<lparr>pos_x = 1000, pos_y = 1000\<rparr>"
    by (simp add: isPositionInBounds_def worldBounds_def)
  from b validateMovement_late_timestamp [OF b, of emptyAuthority "''p1''" "\<lparr>pos_x = 0, pos_y = 0\<rparr>" noMoveRecorded 0,
              THEN conjunct2, THEN conjunct1]
  show ?thesis by (rule conjI)
qed

section \<open>Proofs: combat\<close>




lemma applyCombatDamage_lastAttack:
  assumes "w_players world attackerId = Some A" "w_players world targetId = Some T"
  shows "\<exists>cr world'. applyCombatDamage attackerId targetId damage timestamp world = Inr (cr, world')
           \<and> (\<forall>p. map_option (\<lambda>P. gs_lastAttackTime (pc_gameState P)) (w_players world' p)
                  = (if p = attackerId then Some timestamp
                     else map_option (\<lambda>P. gs_lastAttackTime (pc_gameState P)) (w_players world p)))"
  using assms
  by (cases "attackerId = targetId")
     (auto simp: applyCombatDamage_def handlePlayerDeath_def Let_def)

lemma validateCombatAction_effect:
  "\<exists>res sa' world'.
      validateCombatAction sa attackerId targetId actionType timestamp world roll now = Inr (res, sa', world')
      \<and> (res = None \<longrightarrow> world' = world)
      \<and> (res \<noteq> None \<longrightarrow>
            (\<exists>A. w_players world attackerId = Some A
                 \<and> gs_health (pc_gameState A) > 0
                 \<and> \<not> jsLess (jsSub (toNumber timestamp) (toNumber (orZero (gs_lastAttackTime (pc_gameState A)))))
                           (Fin attackCooldown))
            \<and> (\<forall>p. map_option (\<lambda>P. gs_lastAttackTime (pc_gameState P)) (w_players world' p)
                  = (if p = attackerId then Some timestamp
                     else map_option (\<lambda>P. gs_lastAttackTime (pc_gameState P)) (w_players world p))))"
proof (cases "w_players world attackerId")
  case None
  then show ?thesis by (simp add: validateCombatAction_def)
next
  case (Some A)
  note A = this
  show ?thesis
  proof (cases "w_players world targetId")
    case None
    with A show ?thesis by (simp add: validateCombatAction_def)
  next
    case (Some T)
    from applyCombatDamage_lastAttack [OF A Some, of "calculateDamage A T actionType roll" timestamp]
    obtain cr world' where
      ap: "applyCombatDamage attackerId targetId (calculateDamage A T actionType roll) timestamp world = Inr (cr, world')"
      and la: "\<forall>p. map_option (\<lambda>P. gs_lastAttackTime (pc_gameState P)) (w_players world' p)
                  = (if p = attackerId then Some timestamp
                     else map_option (\<lambda>P. gs_lastAttackTime (pc_gameState P)) (w_players world p))"
      by blast
    show ?thesis
    proof (cases "gs_health (pc_gameState A) \<le> 0
                  \<or> jsLess (jsSub (toNumber timestamp) (toNumber (orZero (gs_lastAttackTime (pc_gameState A)))))
                           (Fin attackCooldown)
                  \<or> calculateDistance (gs_position (pc_gameState A)) (gs_position (pc_gameState T)) > maxAttackRange")
      case True
      with A Some show ?thesis by (auto simp: validateCombatAction_def Let_def)
    next
      case False
      with A Some ap have
        "validateCombatAction sa attackerId targetId actionType timestamp world roll now =
           Inr (Some cr,
                recordPlayerAction sa attackerId ''COMBAT''
                  (CombatData targetId (calculateDamage A T actionType roll) actionType
                     (calculateDistance (gs_position (pc_gameState A)) (gs_position (pc_gameState T)))) now,
                world')"
        by (simp add: validateCombatAction_def Let_def)
      with False A la show ?thesis by auto
    qed
  qed
qed




lemma sqrt_900: "sqrt (900 :: real) = 30"
  by (rule real_sqrt_unique) simp_all







section \<open>Proofs: health bounds\<close>

lemma calculateDamage_range:
  "minDamagePerHit \<le> calculateDamage attacker target actionType roll
   \<and> calculateDamage attacker target actionType roll \<le> maxDamagePerHit"
  by (simp add: calculateDamage_def Let_def minDamagePerHit_def maxDamagePerHit_def)

lemma applyCombatDamage_Inr:
  assumes "applyCombatDamage attackerId targetId damage timestamp world = Inr x"
  shows "\<exists>A T. w_players world attackerId = Some A \<and> w_players world targetId = Some T"
  using assms
  by (cases "w_players world attackerId"; cases "w_players world targetId";
      cases "attackerId = targetId")
     (auto simp: applyCombatDamage_def Let_def)

lemma applyCombatDamage_health:
  assumes "w_players world attackerId = Some A" "w_players world targetId = Some T"
  shows "\<exists>cr world'. applyCombatDamage attackerId targetId damage timestamp world = Inr (cr, world')
           \<and> (\<forall>p. map_option (\<lambda>P. gs_health (pc_gameState P)) (w_players world' p)
                  = (if p = targetId then Some (max 0 (gs_health (pc_gameState T) - damage))
                     else map_option (\<lambda>P. gs_health (pc_gameState P)) (w_players world p)))"
  using assms
  by (cases "attackerId = targetId")
     (auto simp: applyCombatDamage_def handlePlayerDeath_def Let_def)

lemma applyCombatDamage_bounds:
  assumes ok: "\<forall>p P. w_players world p = Some P \<longrightarrow> healthInRange (gs_health (pc_gameState P))"
    and ap: "applyCombatDamage attackerId targetId damage timestamp world = Inr (cr, world')"
    and P': "w_players world' p = Some P'"
  shows "0 \<le> gs_health (pc_gameState P') \<and> (0 \<le> damage \<longrightarrow> gs_health (pc_gameState P') \<le> maxHealth)"
proof -
  from applyCombatDamage_Inr [OF ap] obtain A T where
    A: "w_players world attackerId = Some A" and T: "w_players world targetId = Some T" by blast
  from applyCombatDamage_health [OF A T, of damage timestamp] ap
  have h: "map_option (\<lambda>P. gs_health (pc_gameState P)) (w_players world' p)
                  = (if p = targetId then Some (max 0 (gs_health (pc_gameState T) - damage))
                     else map_option (\<lambda>P. gs_health (pc_gameState P)) (w_players world p))"
    by auto
  show ?thesis
  proof (cases "p = targetId")
    case True
    with h P' have "gs_health (pc_gameState P') = max 0 (gs_health (pc_gameState T) - damage)" by simp
    moreover from ok T have "healthInRange (gs_health (pc_gameState T))" by blast
    ultimately show ?thesis by (auto simp: healthInRange_def maxHealth_def)
  next
    case False
    with h P' obtain P where P: "w_players world p = Some P" "gs_health (pc_gameState P) = gs_health (pc_gameState P')"
      by (cases "w_players world p") auto
    with ok [rule_format, of p P] show ?thesis by (simp add: healthInRange_def)
  qed
qed

lemma validateCombatAction_bounds:
  assumes ok: "\<forall>p P. w_players world p = Some P \<longrightarrow> healthInRange (gs_health (pc_gameState P))"
    and v: "validateCombatAction sa attackerId targetId actionType timestamp world roll now = Inr (res, sa', world')"
    and P': "w_players world' p = Some P'"
  shows "healthInRange (gs_health (pc_gameState P'))"
proof (cases res)
  case None
  from validateCombatAction_effect [of sa attackerId targetId actionType timestamp world roll now] v None
  have "world' = world" by auto
  with ok P' show ?thesis by blast
next
  case (Some cr)
  with v obtain A T where A: "w_players world attackerId = Some A" and T: "w_players world targetId = Some T"
    by (cases "w_players world attackerId"; cases "w_players world targetId") (auto simp: validateCombatAction_def)
  from v Some A T have ap: "applyCombatDamage attackerId targetId (calculateDamage A T actionType roll) timestamp world
                              = Inr (cr, world')"
    by (auto simp: validateCombatAction_def Let_def split: if_splits sum.splits)
  have "0 \<le> calculateDamage A T actionType roll"
    using calculateDamage_range [of A T actionType roll] by (simp add: minDamagePerHit_def)
  with applyCombatDamage_bounds [OF ok ap P'] show ?thesis by (simp add: healthInRange_def)
qed

lemma recordPlayerDamage_bounds:
  assumes ok: "\<forall>P. map_of (ms_players M) pid = Some P \<longrightarrow> healthInRange (ps_health P)"
    and M: "matches mm matchId = Some M"
    and M': "matches (snd (recordPlayerDamage mm matchId attackerId targetId damage)) matchId = Some M'"
    and P': "map_of (ms_players M') pid = Some P'"
  shows "0 \<le> ps_health P' \<and> (0 \<le> damage \<longrightarrow> ps_health P' \<le> maxHealth)"
proof (cases "map_of (ms_players M) attackerId")
  case None
  with M M' P' ok show ?thesis by (auto simp: recordPlayerDamage_def healthInRange_def)
next
  case (Some A)
  note A = this
  show ?thesis
  proof (cases "map_of (ms_players M) targetId")
    case None
    with A M M' P' ok show ?thesis by (auto simp: recordPlayerDamage_def healthInRange_def)
  next
    case (Some T)
    with A M M' P' ok show ?thesis
      by (cases "attackerId = targetId"; cases "pid = targetId"; cases "pid = attackerId")
         (auto simp: recordPlayerDamage_def Let_def update_conv' healthInRange_def maxHealth_def
               split: if_splits)
  qed
qed

lemma applyItemEffects_health:
  "gs_health (pc_gameState (snd (applyItemEffects player item))) =
     (case it_effects item of
        None \<Rightarrow> gs_health (pc_gameState player)
      | Some ef \<Rightarrow>
         (case ef_health ef of
            None \<Rightarrow> gs_health (pc_gameState player)
          | Some h \<Rightarrow> if h = 0 then gs_health (pc_gameState player)
                      else min maxHealth (gs_health (pc_gameState player) + h)))"
  by (simp add: applyItemEffects_def Let_def split: option.splits prod.splits)

text \<open>
  C5. Starting from health values in \<open>[0, 100]\<close>: \<open>applyCombatDamage\<close> and
  \<open>recordPlayerDamage\<close> leave no player's health below 0, whatever the damage, and none
  above 100 when the damage is not negative; an attack accepted by \<open>validateCombatAction\<close>,
  whose damage the server computes, leaves every health in \<open>[0, 100]\<close>; and
  \<open>applyItemEffects\<close> never leaves the health above 100, and leaves it in \<open>[0, 100]\<close> when
  the item's health effect is not negative.
\<close>

theorem health_stays_in_range:
  "(\<forall>cr world' p P'.
       (\<forall>q Q. w_players worldA q = Some Q \<longrightarrow> healthInRange (gs_health (pc_gameState Q)))
       \<and> applyCombatDamage attackerId targetId damage timestamp worldA = Inr (cr, world')
       \<and> w_players world' p = Some P'
       \<longrightarrow> 0 \<le> gs_health (pc_gameState P') \<and> (0 \<le> damage \<longrightarrow> gs_health (pc_gameState P') \<le> maxHealth))
   \<and> (\<forall>res sa' world' p P'.
       (\<forall>q Q. w_players worldB q = Some Q \<longrightarrow> healthInRange (gs_health (pc_gameState Q)))
       \<and> validateCombatAction sa attackerId targetId actionType timestamp worldB roll now = Inr (res, sa', world')
       \<and> w_players world' p = Some P'
       \<longrightarrow> healthInRange (gs_health (pc_gameState P')))
   \<and> (\<forall>M M' pid P'.
       (\<forall>P. map_of (ms_players M) pid = Some P \<longrightarrow> healthInRange (ps_health P))
       \<and> matches mm matchId = Some M
       \<and> matches (snd (recordPlayerDamage mm matchId attackerId targetId damage)) matchId = Some M'
       \<and> map_of (ms_players M') pid = Some P'
       \<longrightarrow> 0 \<le> ps_health P' \<and> (0 \<le> damage \<longrightarrow> ps_health P' \<le> maxHealth))
   \<and> (healthInRange (gs_health (pc_gameState player))
       \<longrightarrow> gs_health (pc_gameState (snd (applyItemEffects player item))) \<le> maxHealth
          \<and> ((\<forall>ef h. it_effects item = Some ef \<and> ef_health ef = Some h \<longrightarrow> 0 \<le> h)
               \<longrightarrow> healthInRange (gs_health (pc_gameState (snd (applyItemEffects player item))))))"
proof (intro conjI)
  show "\<forall>cr world' p P'.
       (\<forall>q Q. w_players worldA q = Some Q \<longrightarrow> healthInRange (gs_health (pc_gameState Q)))
       \<and> applyCombatDamage attackerId targetId damage timestamp worldA = Inr (cr, world')
       \<and> w_players world' p = Some P'
       \<longrightarrow> 0 \<le> gs_health (pc_gameState P') \<and> (0 \<le> damage \<longrightarrow> gs_health (pc_gameState P') \<le> maxHealth)"
    using applyCombatDamage_bounds [of worldA attackerId targetId damage timestamp] by blast
next
  show "\<forall>res sa' world' p P'.
       (\<forall>q Q. w_players worldB q = Some Q \<longrightarrow> healthInRange (gs_health (pc_gameState Q)))
       \<and> validateCombatAction sa attackerId targetId actionType timestamp worldB roll now = Inr (res, sa', world')
       \<and> w_players world' p = Some P'
       \<longrightarrow> healthInRange (gs_health (pc_gameState P'))"
    using validateCombatAction_bounds [of worldB sa attackerId targetId actionType timestamp roll now] by blast
next
  show "\<forall>M M' pid P'.
       (\<forall>P. map_of (ms_players M) pid = Some P \<longrightarrow> healthInRange (ps_health P))
       \<and> matches mm matchId = Some M
       \<and> matches (snd (recordPlayerDamage mm matchId attackerId targetId damage)) matchId = Some M'
       \<and> map_of (ms_players M') pid = Some P'
       \<longrightarrow> 0 \<le> ps_health P' \<and> (0 \<le> damage \<longrightarrow> ps_health P' \<le> maxHealth)"
    using recordPlayerDamage_bounds [of _ _ mm matchId attackerId targetId damage] by blast
next
  show "healthInRange (gs_health (pc_gameState player))
       \<longrightarrow> gs_health (pc_gameState (snd (applyItemEffects player item))) \<le> maxHealth
          \<and> ((\<forall>ef h. it_effects item = Some ef \<and> ef_health ef = Some h \<longrightarrow> 0 \<le> h)
               \<longrightarrow> healthInRange (gs_health (pc_gameState (snd (applyItemEffects player item)))))"
    by (auto simp: applyItemEffects_health healthInRange_def maxHealth_def split: option.splits)
qed

theorem health_stays_in_range_witness:
  "healthInRange (gs_health (pc_gameState (examplePlayer ''p1'' 0 80)))
   \<and> gs_health (pc_gameState (snd (applyItemEffects (examplePlayer ''p1'' 0 80) potion))) \<le> maxHealth
   \<and> gs_health (pc_gameState (snd (applyItemEffects (examplePlayer ''p1'' 0 80) potion))) = 100"
proof -
  have r: "healthInRange (gs_health (pc_gameState (examplePlayer ''p1'' 0 80)))"
    by (simp add: healthInRange_def maxHealth_def examplePlayer_def)
  have v: "gs_health (pc_gameState (snd (applyItemEffects (examplePlayer ''p1'' 0 80) potion))) = 100"
    by (simp add: applyItemEffects_health potion_def examplePlayer_def maxHealth_def)
  from health_stays_in_range [where player = "examplePlayer ''p1'' 0 80" and item = potion,
         THEN conjunct2, THEN conjunct2, THEN conjunct2] r v
  show ?thesis by simp
qed

section \<open>Proofs: action history and frequency violations\<close>

lemma flag_violationCount:
  "violationCount (snd (flagSuspiciousActivity sa playerId vt d now)) p
     = (if p = playerId then violationCount sa p + 1 else violationCount sa p)"
  by (simp add: flagSuspiciousActivity_def violationCount_def Let_def split: option.splits)

lemma flag_frame:
  "gameItems (snd (flagSuspiciousActivity sa playerId vt d now)) = gameItems sa"
  "playerInventories (snd (flagSuspiciousActivity sa playerId vt d now)) = playerInventories sa"
  "itemIdCounter (snd (flagSuspiciousActivity sa playerId vt d now)) = itemIdCounter sa"
  "actionHistory (snd (flagSuspiciousActivity sa playerId vt d now)) p = actionHistory sa p"
  by (simp_all add: flagSuspiciousActivity_def actionHistory_def Let_def)

lemma recordPlayerAction_history:
  "actionHistory (recordPlayerAction sa playerId actionType dat now) p =
     (if p = playerId then
        filter (\<lambda>a. a_timestamp a > now - 10000)
          (actionHistory sa playerId @ [\<lparr>a_type = actionType, a_timestamp = now, a_data = dat\<rparr>])
      else actionHistory sa p)"
  by (simp add: recordPlayerAction_def checkActionFrequency_def actionHistory_def Let_def
                flagSuspiciousActivity_def split: option.splits)

lemma recordPlayerAction_unfold:
  "recordPlayerAction sa playerId actionType dat now =
     checkActionFrequency
       (sa\<lparr>playerActions := (playerActions sa)(playerId \<mapsto>
             filter (\<lambda>a. a_timestamp a > now - 10000)
               (actionHistory sa playerId @ [\<lparr>a_type = actionType, a_timestamp = now, a_data = dat\<rparr>]))\<rparr>)
       playerId
       (filter (\<lambda>a. a_timestamp a > now - 10000)
          (actionHistory sa playerId @ [\<lparr>a_type = actionType, a_timestamp = now, a_data = dat\<rparr>]))
       now"
  by (simp add: recordPlayerAction_def actionHistory_def Let_def)

lemma checkActionFrequency_count:
  "violationCount (checkActionFrequency sa playerId actions now) playerId =
     (if length actions > 100 then violationCount sa playerId + 1 else violationCount sa playerId)"
proof -
  have "(real (length actions) / 10 > maxActionsPerSecond) = (length actions > 100)"
    by (simp add: maxActionsPerSecond_def)
  then show ?thesis
    by (simp add: checkActionFrequency_def Let_def flag_violationCount)
qed

lemma checkActionFrequency_quiet:
  "length actions \<le> 100 \<Longrightarrow> checkActionFrequency sa playerId actions now = sa"
  by (simp add: checkActionFrequency_def Let_def maxActionsPerSecond_def)

lemma recordPlayerAction_violations:
  "violationCount (recordPlayerAction sa playerId actionType dat now) playerId =
     (if length (actionHistory (recordPlayerAction sa playerId actionType dat now) playerId) > 100
      then violationCount sa playerId + 1 else violationCount sa playerId)"
proof -
  define recent where "recent = filter (\<lambda>a. a_timestamp a > now - 10000)
          (actionHistory sa playerId @ [\<lparr>a_type = actionType, a_timestamp = now, a_data = dat\<rparr>])"
  have h: "actionHistory (recordPlayerAction sa playerId actionType dat now) playerId = recent"
    unfolding recent_def by (simp only: recordPlayerAction_history simp_thms if_True)
  have r: "recordPlayerAction sa playerId actionType dat now =
             checkActionFrequency (sa\<lparr>playerActions := (playerActions sa)(playerId \<mapsto> recent)\<rparr>) playerId recent now"
    unfolding recent_def by (rule recordPlayerAction_unfold)
  have "violationCount (sa\<lparr>playerActions := (playerActions sa)(playerId \<mapsto> recent)\<rparr>) playerId
          = violationCount sa playerId"
    by (simp add: violationCount_def)
  then show ?thesis
    unfolding h unfolding r by (simp only: checkActionFrequency_count)
qed

lemma recordPlayerAction_quiet:
  assumes "length (actionHistory sa playerId) < 100"
  shows "suspiciousPlayers (recordPlayerAction sa playerId actionType dat now) = suspiciousPlayers sa
       \<and> length (actionHistory (recordPlayerAction sa playerId actionType dat now) playerId)
           \<le> length (actionHistory sa playerId) + 1"
proof -
  define recent where "recent = filter (\<lambda>a. a_timestamp a > now - 10000)
          (actionHistory sa playerId @ [\<lparr>a_type = actionType, a_timestamp = now, a_data = dat\<rparr>])"
  have h: "actionHistory (recordPlayerAction sa playerId actionType dat now) playerId = recent"
    unfolding recent_def by (simp only: recordPlayerAction_history simp_thms if_True)
  have r: "recordPlayerAction sa playerId actionType dat now =
             checkActionFrequency (sa\<lparr>playerActions := (playerActions sa)(playerId \<mapsto> recent)\<rparr>) playerId recent now"
    unfolding recent_def by (rule recordPlayerAction_unfold)
  have "length recent \<le> length (actionHistory sa playerId @ [\<lparr>a_type = actionType, a_timestamp = now, a_data = dat\<rparr>])"
    unfolding recent_def by (rule length_filter_le)
  then have le1: "length recent \<le> length (actionHistory sa playerId) + 1" by simp
  with assms have le: "length recent \<le> 100" by simp
  have "suspiciousPlayers (recordPlayerAction sa playerId actionType dat now) = suspiciousPlayers sa"
    unfolding r by (simp add: checkActionFrequency_quiet [OF le])
  with le1 h show ?thesis by simp
qed

lemma validateMovement_accepted_state:
  assumes "isPositionInBounds toPos"
    and "\<not> jsGreater (Fin (calculateDistance fromPos toPos))
             (calculateMaxMovementDistance (jsSub (toNumber timestamp) (toNumber (lastMoveTimeOr playerData timestamp))))"
  shows "snd (validateMovement sa playerId fromPos toPos timestamp playerData now) =
           recordPlayerAction sa playerId ''MOVEMENT''
             (MovementData fromPos toPos (calculateDistance fromPos toPos)
                (jsSub (toNumber timestamp) (toNumber (lastMoveTimeOr playerData timestamp)))) now"
  using assms by (simp add: validateMovement_def Let_def hasObstacleCollision_def)

text \<open>A run of accepted moves that keeps the history at no more than 100 actions records
  no violation.\<close>

lemma runMoves_quiet:
  assumes "\<forall>r \<in> set rs. isPositionInBounds (mr_to r)
             \<and> \<not> jsGreater (Fin (calculateDistance (mr_from r) (mr_to r)))
                 (calculateMaxMovementDistance
                    (jsSub (toNumber (mr_timestamp r)) (toNumber (lastMoveTimeOr playerData (mr_timestamp r)))))"
    and "length (actionHistory sa playerId) + length rs \<le> 100"
  shows "suspiciousPlayers (runMoves sa playerId playerData rs) = suspiciousPlayers sa"
  using assms
proof (induction rs arbitrary: sa)
  case Nil
  show ?case by simp
next
  case (Cons r rs)
  let ?sa1 = "snd (validateMovement sa playerId (mr_from r) (mr_to r) (mr_timestamp r) playerData (mr_now r))"
  from Cons.prems(1) have acc: "isPositionInBounds (mr_to r)"
    "\<not> jsGreater (Fin (calculateDistance (mr_from r) (mr_to r)))
                 (calculateMaxMovementDistance
                    (jsSub (toNumber (mr_timestamp r)) (toNumber (lastMoveTimeOr playerData (mr_timestamp r)))))"
    by simp_all
  from Cons.prems(2) have lt: "length (actionHistory sa playerId) < 100" by simp
  from recordPlayerAction_quiet [OF lt] validateMovement_accepted_state [OF acc]
  have q: "suspiciousPlayers ?sa1 = suspiciousPlayers sa"
    and l: "length (actionHistory ?sa1 playerId) \<le> length (actionHistory sa playerId) + 1"
    by simp_all
  from l Cons.prems(2) have "length (actionHistory ?sa1 playerId) + length rs \<le> 100" by simp
  with Cons.IH [of ?sa1] Cons.prems(1) q show ?case by simp
qed

lemma pickupIntoEmptySlot_actions:
  "playerActions (snd (pickupIntoEmptySlot sa playerId inventory item timestamp)) = playerActions sa"
  by (simp add: pickupIntoEmptySlot_def split: option.splits)

lemma initializePlayerInventory_actions:
  "playerActions (snd (initializePlayerInventory sa playerId now)) = playerActions sa"
  by (simp add: initializePlayerInventory_def Let_def split: option.splits)

lemma pickupIntoEmptySlot_actions_eq:
  assumes "pickupIntoEmptySlot sa playerId inventory item timestamp = (res, sa')"
  shows "playerActions sa' = playerActions sa"
  using pickupIntoEmptySlot_actions [of sa playerId inventory item timestamp] assms by simp

lemma pickupItem_actions:
  "pickupItem sa playerId item timestamp now = Inr (res, sa') \<Longrightarrow> playerActions sa' = playerActions sa"
  using initializePlayerInventory_actions [of sa playerId now]
  by (auto simp: pickupItem_def Let_def case_prod_beta split: if_splits option.splits
           dest!: pickupIntoEmptySlot_actions_eq)

lemma useItem_actions:
  "playerActions (fst (snd (useItem sa playerId itemKey item timestamp world))) = playerActions sa"
  by (simp add: useItem_def Let_def case_prod_beta split: option.splits)

lemma unequipItem_actions:
  "playerActions (snd (unequipItem sa playerId item timestamp)) = playerActions sa"
  by (simp add: unequipItem_def Let_def split: option.splits)

lemma equipItem_actions:
  "playerActions (snd (equipItem sa playerId item timestamp)) = playerActions sa"
  by (simp add: equipItem_def Let_def unequipItem_actions split: option.splits)

lemma dropItem_actions:
  "playerActions (snd (dropItem sa playerId item timestamp world rx ry now)) = playerActions sa"
  by (simp add: dropItem_def Let_def split: option.splits)

lemma processItemAction_actions:
  assumes "processItemAction sa playerId itemKey item actionType timestamp world rx ry now = Inr (res, sa', world')"
  shows "playerActions sa' = playerActions sa"
proof -
  consider "actionType = ''pickup''" | "actionType = ''use''" | "actionType = ''drop''"
    | "actionType = ''equip''" | "actionType = ''unequip''"
    | "actionType \<noteq> ''pickup''" "actionType \<noteq> ''use''" "actionType \<noteq> ''drop''"
      "actionType \<noteq> ''equip''" "actionType \<noteq> ''unequip''"
    by blast
  then show ?thesis
  proof cases
    case 1
    with assms show ?thesis
      by (auto simp: processItemAction_def split: sum.splits dest: pickupItem_actions)
  next
    case 2
    with assms useItem_actions [of sa playerId itemKey item timestamp world] show ?thesis
      by (auto simp: processItemAction_def)
  next
    case 3
    with assms dropItem_actions [of sa playerId item timestamp world rx ry now] show ?thesis
      by (auto simp: processItemAction_def case_prod_beta)
  next
    case 4
    with assms equipItem_actions [of sa playerId item timestamp] show ?thesis
      by (auto simp: processItemAction_def case_prod_beta)
  next
    case 5
    with assms unequipItem_actions [of sa playerId item timestamp] show ?thesis
      by (auto simp: processItemAction_def case_prod_beta)
  next
    case 6
    with assms show ?thesis by (auto simp: processItemAction_def)
  qed
qed

lemma validateItemAction_actions:
  assumes "validateItemAction sa playerId itemId actionType timestamp world rx ry now = Inr (res, sa', world')"
  shows "playerActions sa' = playerActions sa"
  using assms
  by (auto simp: validateItemAction_def Let_def split: option.splits if_splits sum.splits
           dest: processItemAction_actions)

lemma validateCombatAction_bookkeeping:
  assumes "validateCombatAction sa attackerId targetId actionType timestamp world roll now = Inr (res, sa', world')"
  shows "(res = None \<longrightarrow> actionHistory sa' attackerId = actionHistory sa attackerId
                        \<and> violationCount sa' attackerId = violationCount sa attackerId + 1)
       \<and> (res \<noteq> None \<longrightarrow> (\<exists>dat. sa' = recordPlayerAction sa attackerId ''COMBAT'' dat now))"
  using assms
  by (cases "w_players world attackerId"; cases "w_players world targetId")
     (auto simp: validateCombatAction_def Let_def flag_violationCount flag_frame
           split: if_splits sum.splits)

lemma validateMovement_rejected_state:
  assumes "\<not> isPositionInBounds toPos
           \<or> jsGreater (Fin (calculateDistance fromPos toPos))
             (calculateMaxMovementDistance (jsSub (toNumber timestamp) (toNumber (lastMoveTimeOr playerData timestamp))))"
  shows "actionHistory (snd (validateMovement sa playerId fromPos toPos timestamp playerData now)) playerId
           = actionHistory sa playerId
       \<and> violationCount (snd (validateMovement sa playerId fromPos toPos timestamp playerData now)) playerId
           = violationCount sa playerId + 1"
  using assms by (auto simp: validateMovement_def Let_def flag_frame flag_violationCount)

text \<open>
  C7, as the code has it. \<open>recordPlayerAction\<close> appends the action to the history of the
  player and keeps the actions of the last 10 seconds; a frequency violation is recorded
  exactly when the history then holds more than 100 actions, which is a rate above 10 per
  second over the window. An accepted move or attack is recorded this way; a rejected
  move or attack is not entered in the history and counts one violation of its own; item
  actions never touch the history. A run of accepted moves that keeps the history at no
  more than 100 actions records no violation.
\<close>

theorem action_history_window:
  "actionHistory (recordPlayerAction sa playerId actionType dat now) playerId
      = filter (\<lambda>a. a_timestamp a > now - 10000)
          (actionHistory sa playerId @ [\<lparr>a_type = actionType, a_timestamp = now, a_data = dat\<rparr>])
   \<and> violationCount (recordPlayerAction sa playerId actionType dat now) playerId
      = (if length (actionHistory (recordPlayerAction sa playerId actionType dat now) playerId) > 100
         then violationCount sa playerId + 1 else violationCount sa playerId)
   \<and> (isPositionInBounds toPos
       \<and> \<not> jsGreater (Fin (calculateDistance fromPos toPos))
             (calculateMaxMovementDistance (jsSub (toNumber timestamp) (toNumber (lastMoveTimeOr playerData timestamp))))
       \<longrightarrow> snd (validateMovement sa playerId fromPos toPos timestamp playerData now)
             = recordPlayerAction sa playerId ''MOVEMENT''
                 (MovementData fromPos toPos (calculateDistance fromPos toPos)
                    (jsSub (toNumber timestamp) (toNumber (lastMoveTimeOr playerData timestamp)))) now)
   \<and> (\<not> isPositionInBounds toPos
       \<or> jsGreater (Fin (calculateDistance fromPos toPos))
             (calculateMaxMovementDistance (jsSub (toNumber timestamp) (toNumber (lastMoveTimeOr playerData timestamp))))
       \<longrightarrow> actionHistory (snd (validateMovement sa playerId fromPos toPos timestamp playerData now)) playerId
             = actionHistory sa playerId
           \<and> violationCount (snd (validateMovement sa playerId fromPos toPos timestamp playerData now)) playerId
             = violationCount sa playerId + 1)
   \<and> (\<forall>res sa' world'.
         validateCombatAction sa playerId targetId kind timestamp world roll now = Inr (res, sa', world')
         \<longrightarrow> (res = None \<longrightarrow> actionHistory sa' playerId = actionHistory sa playerId
                              \<and> violationCount sa' playerId = violationCount sa playerId + 1)
           \<and> (res \<noteq> None \<longrightarrow> (\<exists>d. sa' = recordPlayerAction sa playerId ''COMBAT'' d now)))
   \<and> (\<forall>res sa' world'.
         validateItemAction sa playerId itemId kind timestamp world rx ry now = Inr (res, sa', world')
         \<longrightarrow> playerActions sa' = playerActions sa)
   \<and> ((\<forall>r \<in> set rs. isPositionInBounds (mr_to r)
             \<and> \<not> jsGreater (Fin (calculateDistance (mr_from r) (mr_to r)))
                 (calculateMaxMovementDistance
                    (jsSub (toNumber (mr_timestamp r)) (toNumber (lastMoveTimeOr playerData (mr_timestamp r))))))
       \<and> length (actionHistory sa playerId) + length rs \<le> 100
       \<longrightarrow> suspiciousPlayers (runMoves sa playerId playerData rs) = suspiciousPlayers sa)"
proof (intro conjI)
  show "actionHistory (recordPlayerAction sa playerId actionType dat now) playerId
      = filter (\<lambda>a. a_timestamp a > now - 10000)
          (actionHistory sa playerId @ [\<lparr>a_type = actionType, a_timestamp = now, a_data = dat\<rparr>])"
    by (simp only: recordPlayerAction_history simp_thms if_True)
  show "violationCount (recordPlayerAction sa playerId actionType dat now) playerId
      = (if length (actionHistory (recordPlayerAction sa playerId actionType dat now) playerId) > 100
         then violationCount sa playerId + 1 else violationCount sa playerId)"
    by (rule recordPlayerAction_violations)
  show "isPositionInBounds toPos
       \<and> \<not> jsGreater (Fin (calculateDistance fromPos toPos))
             (calculateMaxMovementDistance (jsSub (toNumber timestamp) (toNumber (lastMoveTimeOr playerData timestamp))))
       \<longrightarrow> snd (validateMovement sa playerId fromPos toPos timestamp playerData now)
             = recordPlayerAction sa playerId ''MOVEMENT''
                 (MovementData fromPos toPos (calculateDistance fromPos toPos)
                    (jsSub (toNumber timestamp) (toNumber (lastMoveTimeOr playerData timestamp)))) now"
    using validateMovement_accepted_state by blast
  show "\<not> isPositionInBounds toPos
       \<or> jsGreater (Fin (calculateDistance fromPos toPos))
             (calculateMaxMovementDistance (jsSub (toNumber timestamp) (toNumber (lastMoveTimeOr playerData timestamp))))
       \<longrightarrow> actionHistory (snd (validateMovement sa playerId fromPos toPos timestamp playerData now)) playerId
             = actionHistory sa playerId
           \<and> violationCount (snd (validateMovement sa playerId fromPos toPos timestamp playerData now)) playerId
             = violationCount sa playerId + 1"
    using validateMovement_rejected_state by blast
  show "\<forall>res sa' world'.
         validateCombatAction sa playerId targetId kind timestamp world roll now = Inr (res, sa', world')
         \<longrightarrow> (res = None \<longrightarrow> actionHistory sa' playerId = actionHistory sa playerId
                              \<and> violationCount sa' playerId = violationCount sa playerId + 1)
           \<and> (res \<noteq> None \<longrightarrow> (\<exists>d. sa' = recordPlayerAction sa playerId ''COMBAT'' d now))"
    using validateCombatAction_bookkeeping by blast
  show "\<forall>res sa' world'.
         validateItemAction sa playerId itemId kind timestamp world rx ry now = Inr (res, sa', world')
         \<longrightarrow> playerActions sa' = playerActions sa"
    using validateItemAction_actions by blast
  show "(\<forall>r \<in> set rs. isPositionInBounds (mr_to r)
             \<and> \<not> jsGreater (Fin (calculateDistance (mr_from r) (mr_to r)))
                 (calculateMaxMovementDistance
                    (jsSub (toNumber (mr_timestamp r)) (toNumber (lastMoveTimeOr playerData (mr_timestamp r))))))
       \<and> length (actionHistory sa playerId) + length rs \<le> 100
       \<longrightarrow> suspiciousPlayers (runMoves sa playerId playerData rs) = suspiciousPlayers sa"
    using runMoves_quiet by blast
qed

lemma moveBurst_accepted:
  "\<forall>r \<in> set moveBurst. isPositionInBounds (mr_to r)
             \<and> \<not> jsGreater (Fin (calculateDistance (mr_from r) (mr_to r)))
                 (calculateMaxMovementDistance
                    (jsSub (toNumber (mr_timestamp r)) (toNumber (lastMoveTimeOr movedAt1000 (mr_timestamp r)))))"
  by (auto simp: moveBurst_def isPositionInBounds_def worldBounds_def calculateDistance_def
                 maxMovementDistance_eq lastMoveTimeOr_def movedAt1000_def)

theorem action_history_window_witness:
  "length (actionHistory emptyAuthority ''p1'') + length moveBurst \<le> 100
   \<and> suspiciousPlayers (runMoves emptyAuthority ''p1'' movedAt1000 moveBurst) = suspiciousPlayers emptyAuthority
   \<and> actionHistory (recordPlayerAction emptyAuthority ''p1'' ''MOVEMENT''
         (MovementData \<lparr>pos_x = 0, pos_y = 0\<rparr> \<lparr>pos_x = 1, pos_y = 0\<rparr> 1 (Fin 10)) 5000) ''p1''
       = [\<lparr>a_type = ''MOVEMENT'', a_timestamp = 5000,
           a_data = MovementData \<lparr>pos_x = 0, pos_y = 0\<rparr> \<lparr>pos_x = 1, pos_y = 0\<rparr> 1 (Fin 10)\<rparr>]"
proof -
  have len: "length (actionHistory emptyAuthority ''p1'') + length moveBurst \<le> 100"
    by (simp add: actionHistory_def emptyAuthority_def moveBurst_def)
  note w = action_history_window [where sa = emptyAuthority and playerId = "''p1''" and playerData = movedAt1000
      and rs = moveBurst and actionType = "''MOVEMENT''" and now = 5000
      and dat = "MovementData \<lparr>pos_x = 0, pos_y = 0\<rparr> \<lparr>pos_x = 1, pos_y = 0\<rparr> 1 (Fin 10)"]
  note hist = w [THEN conjunct1]
  note quiet = w [THEN conjunct2, THEN conjunct2, THEN conjunct2, THEN conjunct2, THEN conjunct2, THEN conjunct2]
  from quiet [rule_format, OF conjI, OF moveBurst_accepted len]
  have "suspiciousPlayers (runMoves emptyAuthority ''p1'' movedAt1000 moveBurst) = suspiciousPlayers emptyAuthority" .
  moreover from hist have "actionHistory (recordPlayerAction emptyAuthority ''p1'' ''MOVEMENT''
         (MovementData \<lparr>pos_x = 0, pos_y = 0\<rparr> \<lparr>pos_x = 1, pos_y = 0\<rparr> 1 (Fin 10)) 5000) ''p1''
       = [\<lparr>a_type = ''MOVEMENT'', a_timestamp = 5000,
           a_data = MovementData \<lparr>pos_x = 0, pos_y = 0\<rparr> \<lparr>pos_x = 1, pos_y = 0\<rparr> 1 (Fin 10)\<rparr>]"
    by (simp add: actionHistory_def emptyAuthority_def)
  ultimately show ?thesis using len by simp
qed

text \<open>
  C7 as stated fails: twenty move requests within one second, all accepted, leave the
  player without any recorded violation, so the counter is not incremented after the tenth.
\<close>

theorem action_history_window_counterexample:
  "length moveBurst = 20
   \<and> mr_now (moveBurst ! 19) - mr_now (moveBurst ! 0) < 1000
   \<and> list_all (\<lambda>r. fst (validateMovement emptyAuthority ''p1'' (mr_from r) (mr_to r) (mr_timestamp r)
                            movedAt1000 (mr_now r)) = Some (mr_to r)) moveBurst
   \<and> suspiciousPlayers (runMoves emptyAuthority ''p1'' movedAt1000 moveBurst) ''p1'' = None
   \<and> violationCount (runMoves emptyAuthority ''p1'' movedAt1000 moveBurst) ''p1'' = 0"
proof -
  have len: "length (actionHistory emptyAuthority ''p1'') + length moveBurst \<le> 100"
    by (simp add: actionHistory_def emptyAuthority_def moveBurst_def)
  from runMoves_quiet [OF moveBurst_accepted len]
  have q: "suspiciousPlayers (runMoves emptyAuthority ''p1'' movedAt1000 moveBurst) = Map.empty"
    by (simp add: emptyAuthority_def)
  have acc: "list_all (\<lambda>r. fst (validateMovement emptyAuthority ''p1'' (mr_from r) (mr_to r) (mr_timestamp r)
                            movedAt1000 (mr_now r)) = Some (mr_to r)) moveBurst"
    unfolding list_all_iff using moveBurst_accepted validateMovement_within by blast
  have t: "mr_now (moveBurst ! 19) - mr_now (moveBurst ! 0) < 1000"
    by (simp add: moveBurst_def)
  from q acc t show ?thesis by (simp add: violationCount_def moveBurst_def)
qed

section \<open>Proofs: dead players\<close>

lemma validateCombatAction_dead_attacker:
  assumes "w_players world attackerId = Some A" "gs_health (pc_gameState A) \<le> 0"
  shows "\<exists>sa'. validateCombatAction sa attackerId targetId kind timestamp world roll now = Inr (None, sa', world)
           \<and> gameItems sa' = gameItems sa \<and> playerInventories sa' = playerInventories sa
           \<and> playerActions sa' = playerActions sa"
  using assms
  by (cases "w_players world targetId") (auto simp: validateCombatAction_def flag_frame)

lemma validateItemAction_dead_actor:
  assumes "w_players world playerId = Some A" "gs_health (pc_gameState A) \<le> 0"
  shows "\<exists>sa'. validateItemAction sa playerId itemId kind timestamp world rx ry now = Inr (None, sa', world)
           \<and> gameItems sa' = gameItems sa \<and> playerInventories sa' = playerInventories sa
           \<and> playerActions sa' = playerActions sa"
  using assms by (auto simp: validateItemAction_def flag_frame)

lemma applyCombatDamage_dead_stays:
  assumes A: "w_players world attackerId = Some A" and T: "w_players world targetId = Some T"
    and alive: "gs_health (pc_gameState A) > 0" and dmg: "0 \<le> damage"
    and P: "w_players world p = Some P" "gs_health (pc_gameState P) \<le> 0"
  shows "\<exists>cr world' P'. applyCombatDamage attackerId targetId damage timestamp world = Inr (cr, world')
           \<and> w_players world' p = Some P' \<and> gs_health (pc_gameState P') \<le> 0
           \<and> (\<not> gs_alive (pc_gameState P) \<longrightarrow> \<not> gs_alive (pc_gameState P'))"
proof -
  from alive P A have ne: "p \<noteq> attackerId" by auto
  show ?thesis
  proof (cases "p = targetId")
    case True
    with A T P ne dmg show ?thesis
      by (auto simp: applyCombatDamage_def handlePlayerDeath_def Let_def)
  next
    case False
    with A T P ne show ?thesis
      by (cases "attackerId = targetId") (auto simp: applyCombatDamage_def handlePlayerDeath_def Let_def)
  qed
qed

lemma validateCombatAction_dead_stays:
  assumes v: "validateCombatAction sa attackerId targetId kind timestamp world roll now = Inr (res, sa', world')"
    and P: "w_players world p = Some P" "gs_health (pc_gameState P) \<le> 0"
  shows "\<exists>P'. w_players world' p = Some P' \<and> gs_health (pc_gameState P') \<le> 0
           \<and> (\<not> gs_alive (pc_gameState P) \<longrightarrow> \<not> gs_alive (pc_gameState P'))"
proof (cases res)
  case None
  from validateCombatAction_effect [of sa attackerId targetId kind timestamp world roll now] v None
  have "world' = world" by auto
  with P show ?thesis by simp
next
  case (Some cr)
  with v obtain A T where A: "w_players world attackerId = Some A" and T: "w_players world targetId = Some T"
    by (cases "w_players world attackerId"; cases "w_players world targetId") (auto simp: validateCombatAction_def)
  from v Some A T have alive: "gs_health (pc_gameState A) > 0"
    by (auto simp: validateCombatAction_def Let_def split: if_splits)
  from v Some A T have ap: "applyCombatDamage attackerId targetId (calculateDamage A T kind roll) timestamp world
                              = Inr (cr, world')"
    by (auto simp: validateCombatAction_def Let_def split: if_splits sum.splits)
  have "0 \<le> calculateDamage A T kind roll"
    using calculateDamage_range [of A T kind roll] by (simp add: minDamagePerHit_def)
  from applyCombatDamage_dead_stays [OF A T alive this P, of timestamp] ap show ?thesis by auto
qed

lemma useItem_others:
  "p \<noteq> playerId \<Longrightarrow> w_players (snd (snd (useItem sa playerId itemKey item timestamp world))) p = w_players world p"
  by (simp add: useItem_def Let_def case_prod_beta split: option.splits)

lemma processItemAction_others:
  assumes "processItemAction sa playerId itemKey item actionType timestamp world rx ry now = Inr (res, sa', world')"
    and "p \<noteq> playerId"
  shows "w_players world' p = w_players world p"
proof (cases "actionType = ''use''")
  case True
  with assms useItem_others [of p playerId sa itemKey item timestamp world] show ?thesis
    by (auto simp: processItemAction_def)
next
  case False
  with assms have "world' = world"
    by (auto simp: processItemAction_def case_prod_beta split: if_splits sum.splits)
  then show ?thesis by simp
qed

lemma validateItemAction_dead_stays:
  assumes v: "validateItemAction sa playerId itemId kind timestamp world rx ry now = Inr (res, sa', world')"
    and P: "w_players world p = Some P" "gs_health (pc_gameState P) \<le> 0"
  shows "w_players world' p = Some P"
proof (cases "w_players world playerId")
  case None
  with v P show ?thesis by (simp add: validateItemAction_def)
next
  case (Some A)
  show ?thesis
  proof (cases "gs_health (pc_gameState A) \<le> 0")
    case True
    from validateItemAction_dead_actor [OF Some True, of sa itemId kind timestamp rx ry now] v P
    show ?thesis by auto
  next
    case False
    with Some P have ne: "p \<noteq> playerId" by auto
    from v Some False have "world' = world
        \<or> (\<exists>itemKey item r. processItemAction sa playerId itemKey item kind timestamp world rx ry now = Inr (r, sa', world'))"
      by (auto simp: validateItemAction_def Let_def split: option.splits if_splits sum.splits)
    with processItemAction_others [OF _ ne] P show ?thesis by auto
  qed
qed

text \<open>
  C6, as the code has it. A dead player (health at most 0) is refused as the acting party:
  \<open>validateCombatAction\<close> and \<open>validateItemAction\<close> return null and leave the world, the
  world items, the inventories and the action history as they are. And dead is terminal:
  no validated combat or item action leaves a dead player with health above 0 or sets its
  alive flag again; an item action leaves a dead player's state untouched.
\<close>

theorem dead_player_refused:
  "(\<forall>A. w_players world playerId = Some A \<and> gs_health (pc_gameState A) \<le> 0 \<longrightarrow>
       (\<exists>sa'. validateCombatAction sa playerId targetId kind timestamp world roll now = Inr (None, sa', world)
              \<and> gameItems sa' = gameItems sa \<and> playerInventories sa' = playerInventories sa
              \<and> playerActions sa' = playerActions sa)
     \<and> (\<exists>sa'. validateItemAction sa playerId itemId kind timestamp world rx ry now = Inr (None, sa', world)
              \<and> gameItems sa' = gameItems sa \<and> playerInventories sa' = playerInventories sa
              \<and> playerActions sa' = playerActions sa))
   \<and> (\<forall>res sa' world' p P.
         validateCombatAction sa playerId targetId kind timestamp world roll now = Inr (res, sa', world')
         \<and> w_players world p = Some P \<and> gs_health (pc_gameState P) \<le> 0
         \<longrightarrow> (\<exists>P'. w_players world' p = Some P' \<and> gs_health (pc_gameState P') \<le> 0
                   \<and> (\<not> gs_alive (pc_gameState P) \<longrightarrow> \<not> gs_alive (pc_gameState P'))))
   \<and> (\<forall>res sa' world' p P.
         validateItemAction sa playerId itemId kind timestamp world rx ry now = Inr (res, sa', world')
         \<and> w_players world p = Some P \<and> gs_health (pc_gameState P) \<le> 0
         \<longrightarrow> w_players world' p = Some P)"
proof (intro conjI)
  show "\<forall>A. w_players world playerId = Some A \<and> gs_health (pc_gameState A) \<le> 0 \<longrightarrow>
       (\<exists>sa'. validateCombatAction sa playerId targetId kind timestamp world roll now = Inr (None, sa', world)
              \<and> gameItems sa' = gameItems sa \<and> playerInventories sa' = playerInventories sa
              \<and> playerActions sa' = playerActions sa)
     \<and> (\<exists>sa'. validateItemAction sa playerId itemId kind timestamp world rx ry now = Inr (None, sa', world)
              \<and> gameItems sa' = gameItems sa \<and> playerInventories sa' = playerInventories sa
              \<and> playerActions sa' = playerActions sa)"
  proof (intro allI impI)
    fix A assume h: "w_players world playerId = Some A \<and> gs_health (pc_gameState A) \<le> 0"
    then have a: "w_players world playerId = Some A" and d: "gs_health (pc_gameState A) \<le> 0" by simp_all
    from validateCombatAction_dead_attacker [OF a d, of sa targetId kind timestamp roll now]
         validateItemAction_dead_actor [OF a d, of sa itemId kind timestamp rx ry now]
    show "(\<exists>sa'. validateCombatAction sa playerId targetId kind timestamp world roll now = Inr (None, sa', world)
              \<and> gameItems sa' = gameItems sa \<and> playerInventories sa' = playerInventories sa
              \<and> playerActions sa' = playerActions sa)
     \<and> (\<exists>sa'. validateItemAction sa playerId itemId kind timestamp world rx ry now = Inr (None, sa', world)
              \<and> gameItems sa' = gameItems sa \<and> playerInventories sa' = playerInventories sa
              \<and> playerActions sa' = playerActions sa)"
      by (rule conjI)
  qed
next
  show "\<forall>res sa' world' p P.
         validateCombatAction sa playerId targetId kind timestamp world roll now = Inr (res, sa', world')
         \<and> w_players world p = Some P \<and> gs_health (pc_gameState P) \<le> 0
         \<longrightarrow> (\<exists>P'. w_players world' p = Some P' \<and> gs_health (pc_gameState P') \<le> 0
                   \<and> (\<not> gs_alive (pc_gameState P) \<longrightarrow> \<not> gs_alive (pc_gameState P')))"
    using validateCombatAction_dead_stays [of sa playerId targetId kind timestamp world roll now] by blast
next
  show "\<forall>res sa' world' p P.
         validateItemAction sa playerId itemId kind timestamp world rx ry now = Inr (res, sa', world')
         \<and> w_players world p = Some P \<and> gs_health (pc_gameState P) \<le> 0
         \<longrightarrow> w_players world' p = Some P"
    using validateItemAction_dead_stays [of sa playerId itemId kind timestamp world rx ry now] by blast
qed

theorem dead_player_refused_witness:
  "w_players deadTargetWorld ''p2'' = Some (examplePlayer ''p2'' 30 0)
   \<and> gs_health (pc_gameState (examplePlayer ''p2'' 30 0)) \<le> 0
   \<and> (\<exists>sa'. validateCombatAction emptyAuthority ''p2'' ''p1'' ''ATTACK'' (ms 2000) deadTargetWorld 2 2000
               = Inr (None, sa', deadTargetWorld))
   \<and> (\<exists>sa'. validateItemAction emptyAuthority ''p2'' (Spawned ''health_potion'' 1) ''use'' (ms 2000) deadTargetWorld 0 0 2000
               = Inr (None, sa', deadTargetWorld))"
proof -
  have a: "w_players deadTargetWorld ''p2'' = Some (examplePlayer ''p2'' 30 0)"
    by (simp add: deadTargetWorld_def)
  have d: "gs_health (pc_gameState (examplePlayer ''p2'' 30 0)) \<le> 0"
    by (simp add: examplePlayer_def)
  from dead_player_refused [where world = deadTargetWorld and playerId = "''p2''" and sa = emptyAuthority
         and targetId = "''p1''" and kind = "''ATTACK''" and timestamp = "ms 2000" and roll = 2 and now = 2000
         and itemId = "Spawned ''health_potion'' 1" and rx = 0 and ry = 0, THEN conjunct1, rule_format, OF conjI, OF a d]
  have "(\<exists>sa'. validateCombatAction emptyAuthority ''p2'' ''p1'' ''ATTACK'' (ms 2000) deadTargetWorld 2 2000
               = Inr (None, sa', deadTargetWorld)
              \<and> gameItems sa' = gameItems emptyAuthority \<and> playerInventories sa' = playerInventories emptyAuthority
              \<and> playerActions sa' = playerActions emptyAuthority)
     \<and> (\<exists>sa'. validateItemAction emptyAuthority ''p2'' (Spawned ''health_potion'' 1) ''ATTACK'' (ms 2000) deadTargetWorld 0 0 2000
               = Inr (None, sa', deadTargetWorld)
              \<and> gameItems sa' = gameItems emptyAuthority \<and> playerInventories sa' = playerInventories emptyAuthority
              \<and> playerActions sa' = playerActions emptyAuthority)" .
  then have "\<exists>sa'. validateCombatAction emptyAuthority ''p2'' ''p1'' ''ATTACK'' (ms 2000) deadTargetWorld 2 2000
               = Inr (None, sa', deadTargetWorld)" by blast
  moreover have "\<exists>sa'. validateItemAction emptyAuthority ''p2'' (Spawned ''health_potion'' 1) ''use'' (ms 2000) deadTargetWorld 0 0 2000
               = Inr (None, sa', deadTargetWorld)"
    using validateItemAction_dead_actor [OF a d, of emptyAuthority "Spawned ''health_potion'' 1" "''use''" "ms 2000" 0 0 2000]
    by blast
  ultimately show ?thesis using a d by simp
qed

text \<open>
  C6 as stated fails for a dead target: the attack of a living player on a player whose
  health is 0 is accepted, the dead player's combat flag, combat time, death time and
  killer are written again, and the attacker's kill counter goes from 0 to 1.
\<close>

theorem dead_player_refused_counterexample:
  "gs_health (pc_gameState (examplePlayer ''p2'' 30 0)) = 0
   \<and> gs_kills (pc_gameState (examplePlayer ''p1'' 0 100)) = 0
   \<and> gs_lastCombatTime (pc_gameState (examplePlayer ''p2'' 30 0)) = ms 0
   \<and> gs_deathTime (pc_gameState (examplePlayer ''p2'' 30 0)) = None
   \<and> (case deadTargetAttack of
         Inr (Some cr, sa', world') \<Rightarrow>
           cr_isDead cr
           \<and> map_option (\<lambda>P. gs_kills (pc_gameState P)) (w_players world' ''p1'') = Some 1
           \<and> map_option (\<lambda>P. gs_lastCombatTime (pc_gameState P)) (w_players world' ''p2'') = Some (ms 2000)
           \<and> map_option (\<lambda>P. gs_deathTime (pc_gameState P)) (w_players world' ''p2'') = Some (Some (ms 2000))
           \<and> map_option (\<lambda>P. gs_killedBy (pc_gameState P)) (w_players world' ''p2'') = Some (Some ''p1'')
           \<and> map_option (\<lambda>P. gs_inCombat (pc_gameState P)) (w_players world' ''p2'') = Some True
       | _ \<Rightarrow> False)"
  by (simp add: deadTargetAttack_def deadTargetWorld_def examplePlayer_def emptyAuthority_def
        validateCombatAction_def applyCombatDamage_def handlePlayerDeath_def calculateDamage_def
        calculateDistance_def attackCooldown_def maxAttackRange_def minDamagePerHit_def maxDamagePerHit_def
        orZero_def Let_def sqrt_900)

section \<open>Proofs: end-of-match statistics\<close>

text \<open>What each statement of the loop body does to the kill maximum, the winner and the
  holder of the most-kills award.\<close>

lemma trackWinner_maxKills: "ps_kills p \<le> sl_maxKills (trackWinner p pstats s)"
  by (simp add: trackWinner_def)

lemma trackWinner_mostDeadly: "sl_mostDeadlyPlayer (trackWinner p pstats s) = sl_mostDeadlyPlayer s"
  by (simp add: trackWinner_def)

lemma trackFirstKill_frame:
  "sl_maxKills (trackFirstKill match p s) = sl_maxKills s"
  "sl_winner (trackFirstKill match p s) = sl_winner s"
  "sl_mostDeadlyPlayer (trackFirstKill match p s) = sl_mostDeadlyPlayer s"
  by (simp_all add: trackFirstKill_def)

lemma addTotals_frame:
  "sl_maxKills (addTotals p s) = sl_maxKills s"
  "sl_winner (addTotals p s) = sl_winner s"
  "sl_mostDeadlyPlayer (addTotals p s) = sl_mostDeadlyPlayer s"
  by (simp_all add: addTotals_def)

lemma trackMostDeadly_idle: "ps_kills p \<le> sl_maxKills s \<Longrightarrow> trackMostDeadly p pstats s = s"
  by (simp add: trackMostDeadly_def)

lemma tail_frame:
  "sl_maxKills (trackLongestSurvivor t pstats (trackMaxDamage p (trackMostCollector p pstats (trackMostExplorative p pstats s))))
     = sl_maxKills s"
  "sl_winner (trackLongestSurvivor t pstats (trackMaxDamage p (trackMostCollector p pstats (trackMostExplorative p pstats s))))
     = sl_winner s"
  "sl_mostDeadlyPlayer (trackLongestSurvivor t pstats (trackMaxDamage p (trackMostCollector p pstats (trackMostExplorative p pstats s))))
     = sl_mostDeadlyPlayer s"
  by (simp_all add: trackLongestSurvivor_def trackMaxDamage_def trackMostCollector_def trackMostExplorative_def)

text \<open>
  The winner test comes first and raises \<open>maxKills\<close> to the kills of the player at hand
  whenever they exceed it; the test for the most-kills award reads the same variable
  afterwards, so it never succeeds: of the loop body only the winner test writes to the
  kill maximum and the winner, and nothing writes to the holder of the most-kills award.
\<close>

lemma statsStep_kills:
  "sl_maxKills (statsStep match now s entry)
     = sl_maxKills (trackWinner (snd entry) (playerStatsOf match now (fst entry) (snd entry)) s)
   \<and> sl_winner (statsStep match now s entry)
     = sl_winner (trackWinner (snd entry) (playerStatsOf match now (fst entry) (snd entry)) s)
   \<and> sl_mostDeadlyPlayer (statsStep match now s entry) = sl_mostDeadlyPlayer s"
proof -
  let ?p = "snd entry"
  let ?st = "playerStatsOf match now (fst entry) ?p"
  let ?s0 = "s\<lparr>sl_playerStats := sl_playerStats s @ [?st]\<rparr>"
  let ?s3 = "addTotals ?p (trackFirstKill match ?p (trackWinner ?p ?st ?s0))"
  have le: "ps_kills ?p \<le> sl_maxKills ?s3"
    using trackWinner_maxKills [of ?p ?st ?s0] by (simp add: addTotals_frame trackFirstKill_frame)
  have w0: "sl_maxKills (trackWinner ?p ?st ?s0) = sl_maxKills (trackWinner ?p ?st s)"
    "sl_winner (trackWinner ?p ?st ?s0) = sl_winner (trackWinner ?p ?st s)"
    "sl_mostDeadlyPlayer (trackWinner ?p ?st ?s0) = sl_mostDeadlyPlayer s"
    by (simp_all add: trackWinner_def)
  have step: "statsStep match now s entry =
      trackLongestSurvivor (survivalTimeOf match now ?p) ?st
        (trackMaxDamage ?p (trackMostCollector ?p ?st (trackMostExplorative ?p ?st ?s3)))"
    by (simp add: statsStep_def Let_def trackMostDeadly_idle [OF le])
  show ?thesis
    unfolding step by (simp add: tail_frame addTotals_frame trackFirstKill_frame w0)
qed

lemma foldl_statsStep_mostDeadly:
  "sl_mostDeadlyPlayer (foldl (statsStep match now) s entries) = sl_mostDeadlyPlayer s"
  by (induction entries arbitrary: s) (simp_all add: statsStep_kills)

lemma mostDeadlyPlayer_never_set: "sl_mostDeadlyPlayer (calculateMatchStats match now) = None"
  by (simp add: calculateMatchStats_def foldl_statsStep_mostDeadly statsInit_def)

lemma statsStep_playerStats:
  "sl_playerStats (statsStep match now s entry)
     = sl_playerStats s @ [playerStatsOf match now (fst entry) (snd entry)]"
  by (simp add: statsStep_def Let_def trackWinner_def trackFirstKill_def addTotals_def trackMostDeadly_def
                trackMostExplorative_def trackMostCollector_def trackMaxDamage_def trackLongestSurvivor_def)

lemma foldl_statsStep_playerStats:
  "sl_playerStats (foldl (statsStep match now) s entries)
     = sl_playerStats s @ map (\<lambda>e. playerStatsOf match now (fst e) (snd e)) entries"
  by (induction entries arbitrary: s) (simp_all add: statsStep_playerStats)

lemma statsStep_winner_first:
  assumes "sl_maxKills s = -1" "0 \<le> ps_kills (snd entry)"
  shows "winnerOf match now (statsStep match now s entry) [entry]"
  using assms statsStep_kills [of match now s entry]
  by (simp add: winnerOf_def trackWinner_def)

lemma statsStep_winner_next:
  assumes "winnerOf match now s seen"
  shows "winnerOf match now (statsStep match now s entry) (seen @ [entry])"
proof -
  from assms obtain e where e: "e \<in> set seen"
    and w: "sl_winner s = Some (playerStatsOf match now (fst e) (snd e))"
    and k: "ps_kills (snd e) = sl_maxKills s"
    and le: "\<forall>e' \<in> set seen. ps_kills (snd e') \<le> sl_maxKills s"
    and tie: "(\<exists>e' \<in> set seen. ps_kills (snd e') = sl_maxKills s \<and> ps_status (snd e') = ''ALIVE'')
                \<longrightarrow> ps_status (snd e) = ''ALIVE''"
    unfolding winnerOf_def by blast
  let ?s' = "statsStep match now s entry"
  note sk = statsStep_kills [of match now s entry]
  show ?thesis
  proof (cases "ps_kills (snd entry) > sl_maxKills s
                 \<or> (ps_kills (snd entry) = sl_maxKills s \<and> ps_status (snd entry) = ''ALIVE'')")
    case True
    with sk have m: "sl_maxKills ?s' = ps_kills (snd entry)"
      and w': "sl_winner ?s' = Some (playerStatsOf match now (fst entry) (snd entry))"
      by (simp_all add: trackWinner_def)
    have le': "\<forall>e' \<in> set (seen @ [entry]). ps_kills (snd e') \<le> sl_maxKills ?s'"
      using le True m by auto
    have tie': "(\<exists>e' \<in> set (seen @ [entry]). ps_kills (snd e') = sl_maxKills ?s' \<and> ps_status (snd e') = ''ALIVE'')
                \<longrightarrow> ps_status (snd entry) = ''ALIVE''"
      using le True m by auto
    show ?thesis
      unfolding winnerOf_def
      by (rule bexI [of _ entry]) (use m w' le' tie' in simp_all)
  next
    case False
    with sk have m: "sl_maxKills ?s' = sl_maxKills s" and w': "sl_winner ?s' = sl_winner s"
      by (simp_all add: trackWinner_def)
    have le': "\<forall>e' \<in> set (seen @ [entry]). ps_kills (snd e') \<le> sl_maxKills ?s'"
      using le False m by auto
    have tie': "(\<exists>e' \<in> set (seen @ [entry]). ps_kills (snd e') = sl_maxKills ?s' \<and> ps_status (snd e') = ''ALIVE'')
                \<longrightarrow> ps_status (snd e) = ''ALIVE''"
      using tie False m by auto
    show ?thesis
      unfolding winnerOf_def
      by (rule bexI [of _ e]) (use m w w' k le' tie' e in simp_all)
  qed
qed

lemma foldl_statsStep_winner:
  assumes "winnerOf match now s seen"
  shows "winnerOf match now (foldl (statsStep match now) s entries) (seen @ entries)"
  using assms
proof (induction entries arbitrary: s seen)
  case Nil
  then show ?case by simp
next
  case (Cons entry entries)
  from Cons.IH [OF statsStep_winner_next [OF Cons.prems, of entry]] show ?case by simp
qed

text \<open>
  The half of C9 that holds: for a match with at least one player and kill counters that
  are not negative, the winner of the final statistics is a player of the match with the
  maximum kill count, and is still alive whenever a player with that kill count is.
\<close>

lemma winner_has_most_kills:
  assumes "ms_players match \<noteq> []" and "\<forall>e \<in> set (ms_players match). 0 \<le> ps_kills (snd e)"
  shows "winnerOf match now (calculateMatchStats match now) (ms_players match)"
proof -
  from assms(1) obtain entry entries where ps: "ms_players match = entry # entries"
    by (cases "ms_players match") auto
  with assms(2) have "0 \<le> ps_kills (snd entry)" by simp
  then have "winnerOf match now (statsStep match now statsInit entry) [entry]"
    by (intro statsStep_winner_first) (simp_all add: statsInit_def)
  from foldl_statsStep_winner [OF this, of entries] show ?thesis
    by (simp add: calculateMatchStats_def ps)
qed

lemma finishedManager_match: "matches finishedManager ''m1'' = Some finishedMatch"
  by (simp add: finishedManager_def finishedMatch_def createMatch_def startMatch_def recordPlayerKill_def
                Let_def MATCH_DURATION_def initialPlayerState_def)

text \<open>
  C9 at a match that ends after the first of two players has killed the second: the
  statistics of \<open>endMatch\<close> list the players with 1 and 0 kills and name the first as the
  winner, but the holder of the most-kills award is null.
\<close>

theorem endMatch_mostDeadly_null:
  "(case fst (endMatch finishedManager ''m1'' ''TIME_LIMIT'' 300000) of
      None \<Rightarrow> False
    | Some r \<Rightarrow>
        map (\<lambda>s. (pst_playerId s, pst_kills s)) (sl_playerStats (er_stats r)) = [(''p1'', 1), (''p2'', 0)]
        \<and> map_option pst_playerId (sl_winner (er_stats r)) = Some ''p1''
        \<and> sl_mostDeadlyPlayer (er_stats r) = None)"
proof -
  define m where "m = finishedMatch\<lparr>ms_status := ''ENDED'', ms_endTime := Some 300000\<rparr>"
  have ps: "map (\<lambda>e. (fst e, ps_kills (snd e))) (ms_players m) = [(''p1'', 1), (''p2'', 0)]"
    by (simp add: m_def finishedMatch_def initialPlayerState_def)
  have list: "map (\<lambda>s. (pst_playerId s, pst_kills s)) (sl_playerStats (calculateMatchStats m 300000))
                = [(''p1'', 1), (''p2'', 0)]"
    using ps
    by (simp add: calculateMatchStats_def foldl_statsStep_playerStats statsInit_def playerStatsOf_def comp_def)
  have "winnerOf m 300000 (calculateMatchStats m 300000) (ms_players m)"
    by (rule winner_has_most_kills) (simp_all add: m_def finishedMatch_def initialPlayerState_def)
  then obtain e where e: "e \<in> set (ms_players m)"
    and w: "sl_winner (calculateMatchStats m 300000) = Some (playerStatsOf m 300000 (fst e) (snd e))"
    and mx: "\<forall>e' \<in> set (ms_players m). ps_kills (snd e') \<le> ps_kills (snd e)"
    unfolding winnerOf_def by auto
  from e mx have "fst e = ''p1''"
    by (auto simp: m_def finishedMatch_def initialPlayerState_def)
  with w have win: "map_option pst_playerId (sl_winner (calculateMatchStats m 300000)) = Some ''p1''"
    by (simp add: playerStatsOf_def)
  from list win show ?thesis
    by (simp add: endMatch_def finishedManager_match Let_def mostDeadlyPlayer_never_set m_def)
qed

section \<open>Proofs: the connection registry\<close>

lemma updatePlayerStatus_registry:
  "srv_playersByMatch (updatePlayerStatus srv playerId status now) = srv_playersByMatch srv"
  "map_option pc_matchId (srv_players (updatePlayerStatus srv playerId status now) p)
     = map_option pc_matchId (srv_players srv p)"
  "srv_matchManager (updatePlayerStatus srv playerId status now) = srv_matchManager srv"
  by (simp_all add: updatePlayerStatus_def split: option.splits)

lemma handleNewConnection_registry:
  "srv_playersByMatch (handleNewConnection srv matchId playerId username now uuid seed)
     = (srv_playersByMatch srv)(matchId \<mapsto>
          insert playerId (case srv_playersByMatch srv matchId of None \<Rightarrow> {} | Some ids \<Rightarrow> ids))"
  "map_option pc_matchId (srv_players (handleNewConnection srv matchId playerId username now uuid seed) p)
     = (if p = playerId then Some matchId else map_option pc_matchId (srv_players srv p))"
  by (simp_all add: handleNewConnection_def Let_def updatePlayerStatus_registry createNewMatch_def
                    case_prod_beta newConnection_def
               split: option.splits)

lemma attached_iff:
  "p \<in> attachedTo srv matchId \<longleftrightarrow> map_option pc_matchId (srv_players srv p) = Some matchId"
  by (cases "srv_players srv p") (auto simp: attachedTo_def)

text \<open>
  Admitting a player id that has no session keeps the registry invariant, and so does
  every release. The invariant is lost only when an id that already has a session is
  admitted again.
\<close>

lemma handleNewConnection_fresh_inv:
  assumes inv: "registryInv srv" and fresh: "srv_players srv playerId = None"
  shows "registryInv (handleNewConnection srv matchId playerId username now uuid seed)"
  unfolding registryInv_def
proof (intro allI impI subsetI)
  fix m ids p
  let ?srv' = "handleNewConnection srv matchId playerId username now uuid seed"
  assume reg: "srv_playersByMatch ?srv' m = Some ids" and p: "p \<in> ids"
  have old: "p \<in> attachedTo srv m'" if "srv_playersByMatch srv m' = Some ids'" "p \<in> ids'" for m' ids'
    using inv that unfolding registryInv_def by blast
  have notold: "p \<noteq> playerId" if "srv_playersByMatch srv m' = Some ids'" "p \<in> ids'" for m' ids'
    using old [OF that] fresh by (auto simp: attached_iff)
  show "p \<in> attachedTo ?srv' m"
  proof (cases "m = matchId")
    case True
    show ?thesis
    proof (cases "p = playerId")
      case True
      with \<open>m = matchId\<close> show ?thesis
        by (simp only: attached_iff handleNewConnection_registry) simp
    next
      case False
      with reg p \<open>m = matchId\<close> obtain ids' where "srv_playersByMatch srv matchId = Some ids'" "p \<in> ids'"
        by (cases "srv_playersByMatch srv matchId") (auto simp: handleNewConnection_registry)
      from old [OF this] False \<open>m = matchId\<close> show ?thesis
        by (simp only: attached_iff handleNewConnection_registry) simp
    qed
  next
    case False
    with reg have r: "srv_playersByMatch srv m = Some ids"
      by (simp add: handleNewConnection_registry)
    from notold [OF r p] old [OF r p] show ?thesis
      by (simp only: attached_iff handleNewConnection_registry) simp
  qed
qed

lemma handlePlayerDisconnection_inv:
  assumes "registryInv srv"
  shows "registryInv (handlePlayerDisconnection srv playerId)"
proof (cases "srv_players srv playerId")
  case None
  with assms show ?thesis by (simp add: handlePlayerDisconnection_def)
next
  case (Some c)
  show ?thesis
  proof (cases "srv_playersByMatch srv (pc_matchId c)")
    case None
    with Some assms show ?thesis
      unfolding registryInv_def attachedTo_def
      by (fastforce simp: handlePlayerDisconnection_def Let_def)
  next
    case (Some ids)
    with \<open>srv_players srv playerId = Some c\<close> assms show ?thesis
      unfolding registryInv_def attachedTo_def
      by (fastforce simp: handlePlayerDisconnection_def Let_def split: if_splits)
  qed
qed

text \<open>
  C8 at a player id that connects to match \<open>A\<close> and then, still connected, to match \<open>B\<close>:
  the id stays registered for \<open>A\<close> while its session is attached to \<open>B\<close>; the release that
  follows removes the session and the registration for \<open>B\<close> only, so \<open>A\<close> keeps a player
  without a session and is never discarded. The match the manager created for the first
  connection still lists the player after the release.
\<close>

theorem registry_stale_after_reconnect:
  "srv_playersByMatch serverAfterB ''A'' = Some {''p1''}
   \<and> map_option pc_matchId (srv_players serverAfterB ''p1'') = Some ''B''
   \<and> ''p1'' \<notin> attachedTo serverAfterB ''A''
   \<and> srv_players serverAfterRelease ''p1'' = None
   \<and> srv_playersByMatch serverAfterRelease ''A'' = Some {''p1''}
   \<and> srv_playersByMatch serverAfterRelease ''B'' = None
   \<and> map_option (\<lambda>m. map fst (ms_players m)) (matches (srv_matchManager serverAfterRelease) ''uuid-1'') = Some [''p1'']"
proof -
  have a: "srv_playersByMatch serverAfterA = [''A'' \<mapsto> {''p1''}]"
    by (simp add: serverAfterA_def handleNewConnection_registry newGameServer_def)
  have b: "srv_playersByMatch serverAfterB = [''A'' \<mapsto> {''p1''}, ''B'' \<mapsto> {''p1''}]"
    by (simp add: serverAfterB_def handleNewConnection_registry a)
  have s: "map_option pc_matchId (srv_players serverAfterB ''p1'') = Some ''B''"
    by (simp add: serverAfterB_def handleNewConnection_registry)
  then obtain c where c: "srv_players serverAfterB ''p1'' = Some c" "pc_matchId c = ''B''"
    by (cases "srv_players serverAfterB ''p1''") auto
  have na: "''p1'' \<notin> attachedTo serverAfterB ''A''"
    unfolding attached_iff s by simp
  have r: "srv_players serverAfterRelease ''p1'' = None
           \<and> srv_playersByMatch serverAfterRelease ''A'' = Some {''p1''}
           \<and> srv_playersByMatch serverAfterRelease ''B'' = None"
    using c b by (simp add: serverAfterRelease_def handlePlayerDisconnection_def Let_def)
  have mmA: "map_option (\<lambda>m. map fst (ms_players m)) (matches (srv_matchManager serverAfterA) ''uuid-1'') = Some [''p1'']"
    by (simp add: serverAfterA_def handleNewConnection_def Let_def newGameServer_def createNewMatch_def
                  createMatch_def startMatch_def updatePlayerStatus_registry case_prod_beta)
  have mmB: "matches (srv_matchManager serverAfterB) ''uuid-1'' = matches (srv_matchManager serverAfterA) ''uuid-1''"
    by (simp add: serverAfterB_def handleNewConnection_def Let_def createNewMatch_def
                  createMatch_def startMatch_def updatePlayerStatus_registry updatePlayerPosition_def case_prod_beta
             split: option.splits)
  have mmR: "srv_matchManager serverAfterRelease = srv_matchManager serverAfterB"
    using c by (simp add: serverAfterRelease_def handlePlayerDisconnection_def Let_def split: option.splits)
  from b s na r mmA mmB mmR show ?thesis by simp
qed

end
